theory Spec2Isabelle
  imports Main
begin

section \<open>Strings\<close>

text \<open>
  A JavaScript string is modelled as a \<open>string\<close>: a list of code units, here the code
  units below 256. \<open>trim\<close> removes the white space and line terminators of that range at
  both ends; \<open>toLowerCase\<close> maps \<open>A-Z\<close> and the upper-case letters of Latin-1 to their
  lower-case forms and leaves every other code unit as it is.
\<close>

definition isWhiteSpace :: "char \<Rightarrow> bool" where
  "isWhiteSpace c = (let n = (of_char c :: nat) in (9 \<le> n \<and> n \<le> 13) \<or> n = 32 \<or> n = 160)"

definition trim :: "string \<Rightarrow> string" where
  "trim s = rev (dropWhile isWhiteSpace (rev (dropWhile isWhiteSpace s)))"

definition toLowerChar :: "char \<Rightarrow> char" where
  "toLowerChar c =
     (let n = (of_char c :: nat)
      in if (65 \<le> n \<and> n \<le> 90) \<or> (192 \<le> n \<and> n \<le> 222 \<and> n \<noteq> 215) then char_of (n + 32) else c)"

definition toLowerCase :: "string \<Rightarrow> string" where
  "toLowerCase s = map toLowerChar s"

text \<open>\<^verbatim>\<open>const USERNAME_RE = /^[a-zA-Z0-9_]{3,20}$/;\<close> and its \<^verbatim>\<open>test\<close>.\<close>

definition wordChar :: "char \<Rightarrow> bool" where
  "wordChar c =
     (let n = (of_char c :: nat)
      in (97 \<le> n \<and> n \<le> 122) \<or> (65 \<le> n \<and> n \<le> 90) \<or> (48 \<le> n \<and> n \<le> 57) \<or> n = 95)"

definition USERNAME_RE :: "string \<Rightarrow> bool" where
  "USERNAME_RE s = (3 \<le> length s \<and> length s \<le> 20 \<and> list_all wordChar s)"

definition RESERVED :: "string list" where
  "RESERVED =
     [''admin'', ''root'', ''support'', ''help'', ''contact'', ''about'', ''api'', ''app'',
      ''login'', ''signup'', ''settings'', ''profile'', ''user'', ''users'', ''me'',
      ''dashboard'', ''feed'', ''explore'', ''news'']"

text \<open>\<^verbatim>\<open>const SOLANA_BASE58_RE = /^[1-9A-HJ-NP-Za-km-z]{43,44}$/;\<close>\<close>

definition base58Char :: "char \<Rightarrow> bool" where
  "base58Char c =
     (let n = (of_char c :: nat)
      in (49 \<le> n \<and> n \<le> 57) \<or> (65 \<le> n \<and> n \<le> 72) \<or> (74 \<le> n \<and> n \<le> 78) \<or> (80 \<le> n \<and> n \<le> 90)
         \<or> (97 \<le> n \<and> n \<le> 107) \<or> (109 \<le> n \<and> n \<le> 122))"

definition isValidSolAddress :: "string \<Rightarrow> bool" where
  "isValidSolAddress addr = (43 \<le> length addr \<and> length addr \<le> 44 \<and> list_all base58Char addr)"

section \<open>The account collection\<close>

text \<open>
  The fields of \<^verbatim>\<open>UserSchema\<close> that the actions read or write. A \<^verbatim>\<open>number\<close> is an
  \<open>int\<close> (credit amounts are whole numbers), a \<^verbatim>\<open>Date\<close> a \<open>nat\<close>; a field that a
  document may lack is an \<open>option\<close>. The fields left out (\<^verbatim>\<open>bio\<close>, \<^verbatim>\<open>settings\<close>,
  \<^verbatim>\<open>roles\<close>, the counters, \<^verbatim>\<open>createdAt\<close>, \<^verbatim>\<open>updatedAt\<close>, \<^verbatim>\<open>_id\<close>, ...) are never
  written by an action other than through their defaults and carry no index.
\<close>

record CreditHistoryEntry =
  coin :: string
  strategy :: string
  creditsUsed :: int
  timestamp :: nat

datatype SubscriptionTier = Free | Basic

record User =
  clerkId :: string
  email :: "string option"
  username :: "string option"
  usernameLower :: "string option"
  firstName :: string
  lastName :: string
  subscriptionTier :: SubscriptionTier
  customerId :: string
  credits :: int
  creditHistory :: "CreditHistoryEntry list"
  topCoins :: "string list"
  solanaWallet :: string
  deletedAt :: "nat option"

text \<open>
  The document an upsert inserts for a new \<^verbatim>\<open>clerkId\<close> before the update is applied:
  every schema default (\<^verbatim>\<open>credits: 10\<close>, \<^verbatim>\<open>solanaWallet: ""\<close>, ...); \<^verbatim>\<open>email\<close>,
  \<^verbatim>\<open>username\<close> and \<^verbatim>\<open>usernameLower\<close> have no default and are absent.
\<close>

definition schemaDefaults :: "string \<Rightarrow> User" where
  "schemaDefaults cid =
     \<lparr>clerkId = cid, email = None, username = None, usernameLower = None,
      firstName = '''', lastName = '''', subscriptionTier = Free, customerId = '''',
      credits = 10, creditHistory = [], topCoins = [], solanaWallet = '''',
      deletedAt = None\<rparr>"

text \<open>
  An exception is a value: \<open>Error msg\<close> is \<^verbatim>\<open>new Error(msg)\<close>, and
  \<open>MongoServerError code key\<close> is the store's error with that \<^verbatim>\<open>code\<close> and
  \<^verbatim>\<open>keyPattern = {key: 1}\<close>; a duplicate key has the code 11000.
\<close>

datatype error = Error string | MongoServerError nat string

text \<open>
  The unique indexes the schema declares, in the order of their declaration:
  \<^verbatim>\<open>clerkId\<close> and \<^verbatim>\<open>email\<close> (unique; a missing email is the key \<^verbatim>\<open>null\<close>),
  \<^verbatim>\<open>username\<close>, \<^verbatim>\<open>usernameLower\<close> and \<^verbatim>\<open>solanaWallet\<close> (unique and sparse). A sparse
  index has an entry for every document in which the field is present, whatever its
  value: a document without a username has no entry in the username indexes, while
  \<^verbatim>\<open>solanaWallet\<close> is present in every document (its default is the empty string) and so
  always has an entry. \<open>dupKey d others\<close> is the key pattern of the first unique index
  in which the document \<open>d\<close> would meet a document of \<open>others\<close>.
\<close>

definition dupKey :: "User \<Rightarrow> User list \<Rightarrow> string option" where
  "dupKey d others =
     (if clerkId d \<in> set (map clerkId others) then Some ''clerkId''
      else if email d \<in> set (map email others) then Some ''email''
      else if username d \<noteq> None \<and> username d \<in> set (map username others) then Some ''username''
      else if usernameLower d \<noteq> None \<and> usernameLower d \<in> set (map usernameLower others)
        then Some ''usernameLower''
      else if solanaWallet d \<in> set (map solanaWallet others) then Some ''solanaWallet''
      else None)"

fun findIndex :: "('a \<Rightarrow> bool) \<Rightarrow> 'a list \<Rightarrow> nat option" where
  "findIndex P [] = None"
| "findIndex P (x # xs) = (if P x then Some 0 else map_option Suc (findIndex P xs))"

text \<open>\<^verbatim>\<open>User.findOne(filter)\<close>: the first document that matches.\<close>

definition findOne :: "(User \<Rightarrow> bool) \<Rightarrow> User list \<Rightarrow> User option" where
  "findOne flt s = find flt s"

text \<open>
  Writing the document \<open>d'\<close> at position \<open>i\<close> (an update) or at the end (an insert): the
  store refuses the write with a duplicate-key error when \<open>d'\<close> would share a unique key
  with another document, and then changes nothing.
\<close>

definition writeAt :: "nat option \<Rightarrow> User \<Rightarrow> User list \<Rightarrow> (error + User) \<times> User list" where
  "writeAt pos d' s =
     (case pos of
        Some i \<Rightarrow>
          (case dupKey d' (take i s @ drop (Suc i) s) of
             Some k \<Rightarrow> (Inl (MongoServerError 11000 k), s)
           | None \<Rightarrow> (Inr d', s[i := d']))
      | None \<Rightarrow>
          (case dupKey d' s of
             Some k \<Rightarrow> (Inl (MongoServerError 11000 k), s)
           | None \<Rightarrow> (Inr d', s @ [d'])))"

text \<open>
  \<^verbatim>\<open>User.findOneAndUpdate(filter, update, { new: true })\<close>: one atomic step of the store.
  The first matching document is replaced by its update and returned; with no match the
  result is \<^verbatim>\<open>null\<close> (\<open>None\<close>) and nothing changes.
\<close>

definition findOneAndUpdate ::
  "(User \<Rightarrow> bool) \<Rightarrow> (User \<Rightarrow> User) \<Rightarrow> User list \<Rightarrow> (error + User option) \<times> User list" where
  "findOneAndUpdate flt upd s =
     (case findIndex flt s of
        None \<Rightarrow> (Inr None, s)
      | Some i \<Rightarrow>
          (case writeAt (Some i) (upd (s ! i)) s of
             (Inl e, s') \<Rightarrow> (Inl e, s')
           | (Inr d', s') \<Rightarrow> (Inr (Some d'), s')))"

text \<open>
  The same with \<^verbatim>\<open>{ upsert: true, new: true }\<close>: with no match the document \<open>ins\<close> (the
  filter's key, the schema defaults and the update) is inserted, so the result is never
  \<^verbatim>\<open>null\<close>.
\<close>

definition findOneAndUpsert ::
  "(User \<Rightarrow> bool) \<Rightarrow> (User \<Rightarrow> User) \<Rightarrow> User \<Rightarrow> User list \<Rightarrow> (error + User) \<times> User list" where
  "findOneAndUpsert flt upd ins s =
     (case findIndex flt s of
        None \<Rightarrow> writeAt None ins s
      | Some i \<Rightarrow> writeAt (Some i) (upd (s ! i)) s)"

section \<open>The user actions\<close>

record CreateUserInput =
  i_clerkId :: string
  i_email :: string
  i_firstName :: "string option"
  i_lastName :: "string option"
  i_subscriptionTier :: "SubscriptionTier option"
  i_customerId :: "string option"
  i_credits :: "int option"
  i_username :: "string option"

text \<open>The \<^verbatim>\<open>$set\<close> part of \<^verbatim>\<open>createUser\<close>, applied on insert and on update.\<close>

definition createUserSet :: "CreateUserInput \<Rightarrow> User \<Rightarrow> User" where
  "createUserSet user d =
     (let normalizedEmail = trim (toLowerCase (i_email user));
          d1 = d\<lparr>email := Some normalizedEmail,
                 firstName := (case i_firstName user of None \<Rightarrow> '''' | Some f \<Rightarrow> f),
                 lastName := (case i_lastName user of None \<Rightarrow> '''' | Some l \<Rightarrow> l)\<rparr>
      in case i_username user of
           None \<Rightarrow> d1
         | Some u \<Rightarrow>
             if u \<noteq> '''' \<and> trim u \<noteq> ''''
             then d1\<lparr>username := Some (trim u), usernameLower := Some (toLowerCase (trim u))\<rparr>
             else d1)"

text \<open>The \<^verbatim>\<open>$setOnInsert\<close> part, over the schema defaults.\<close>

definition createUserOnInsert :: "CreateUserInput \<Rightarrow> User" where
  "createUserOnInsert user =
     (schemaDefaults (i_clerkId user))
       \<lparr>subscriptionTier := (case i_subscriptionTier user of None \<Rightarrow> Free | Some t \<Rightarrow> t),
        customerId := (case i_customerId user of None \<Rightarrow> '''' | Some c \<Rightarrow> c),
        credits := (case i_credits user of None \<Rightarrow> 10 | Some c \<Rightarrow> c),
        topCoins := []\<rparr>"

definition createUser :: "CreateUserInput \<Rightarrow> User list \<Rightarrow> (error + User) \<times> User list" where
  "createUser user s =
     findOneAndUpsert (\<lambda>d. clerkId d = i_clerkId user) (createUserSet user)
       (createUserSet user (createUserOnInsert user)) s"

definition getUser :: "string \<Rightarrow> User list \<Rightarrow> User option" where
  "getUser userId s = findOne (\<lambda>d. clerkId d = userId) s"

record BacktestOpts =
  o_coin :: string
  o_strategy :: string

text \<open>
  \<^verbatim>\<open>consumeBacktestCredits\<close>; \<open>now\<close> is the value of \<^verbatim>\<open>new Date()\<close>. The push with
  \<^verbatim>\<open>$position: 0\<close> and \<^verbatim>\<open>$slice: 50\<close> puts the entry first and keeps the first 50.
\<close>

definition consumeBacktestCredits ::
  "string \<Rightarrow> int \<Rightarrow> BacktestOpts \<Rightarrow> nat \<Rightarrow> User list \<Rightarrow> (error + User) \<times> User list" where
  "consumeBacktestCredits userId amount opts now s =
     (if amount \<le> 0 then (Inl (Error ''Amount must be > 0''), s)
      else
        let entry = \<lparr>coin = o_coin opts, strategy = o_strategy opts, creditsUsed = amount,
                     timestamp = now\<rparr>
        in case findOneAndUpdate (\<lambda>d. clerkId d = userId \<and> credits d \<ge> amount)
                  (\<lambda>d. d\<lparr>credits := credits d - amount,
                         creditHistory := take 50 (entry # creditHistory d)\<rparr>) s of
             (Inl e, s') \<Rightarrow> (Inl e, s')
           | (Inr None, s') \<Rightarrow> (Inl (Error ''User not found or not enough credits''), s')
           | (Inr (Some updated), s') \<Rightarrow> (Inr updated, s'))"

definition addCredits :: "string \<Rightarrow> int \<Rightarrow> User list \<Rightarrow> (error + User) \<times> User list" where
  "addCredits userId amount s =
     (if amount \<le> 0 then (Inl (Error ''Amount must be > 0''), s)
      else
        case findOneAndUpdate (\<lambda>d. clerkId d = userId) (\<lambda>d. d\<lparr>credits := credits d + amount\<rparr>) s of
          (Inl e, s') \<Rightarrow> (Inl e, s')
        | (Inr None, s') \<Rightarrow> (Inl (Error ''User not found''), s')
        | (Inr (Some updated), s') \<Rightarrow> (Inr updated, s'))"

definition updateUserTopCoins ::
  "string \<Rightarrow> string list \<Rightarrow> User list \<Rightarrow> (error + string list) \<times> User list" where
  "updateUserTopCoins userId coins s =
     (if length coins > 3 then (Inl (Error ''Only 3 coins can be selected''), s)
      else
        case findOneAndUpdate (\<lambda>d. clerkId d = userId) (\<lambda>d. d\<lparr>topCoins := coins\<rparr>) s of
          (Inl e, s') \<Rightarrow> (Inl e, s')
        | (Inr None, s') \<Rightarrow> (Inl (Error ''User not found''), s')
        | (Inr (Some updated), s') \<Rightarrow> (Inr (topCoins updated), s'))"

subsection \<open>Username helpers\<close>

text \<open>
  The result of \<^verbatim>\<open>isUsernameAvailable\<close> is \<^verbatim>\<open>{ ok, reason? }\<close>. The function only reads
  (\<^verbatim>\<open>User.exists\<close>); it returns the store with its result so that this can be stated.
  The dash of the first message is written \<open>-\<close>.
\<close>

record Availability =
  ok :: bool
  reason :: "string option"


text \<open>
  The \<^verbatim>\<open>catch\<close> of \<^verbatim>\<open>setUsername\<close>: a duplicate key on \<^verbatim>\<open>usernameLower\<close> or
  \<^verbatim>\<open>username\<close> becomes the "taken" error, every other error is thrown again.
\<close>

definition usernameDup :: "error \<Rightarrow> bool" where
  "usernameDup e =
     (case e of
        MongoServerError code k \<Rightarrow> code = 11000 \<and> (k = ''usernameLower'' \<or> k = ''username'')
      | Error m \<Rightarrow> False)"

definition setUsername :: "string \<Rightarrow> string \<Rightarrow> User list \<Rightarrow> (error + User) \<times> User list" where
  "setUsername cid desiredRaw s =
     (let desired = trim desiredRaw
      in if \<not> USERNAME_RE desired
         then (Inl (Error ''Username must be 3-20 chars (letters, numbers, underscore).''), s)
         else
           let lower = toLowerCase desired
           in if lower \<in> set RESERVED then (Inl (Error ''That username is reserved.''), s)
              else
                case findOneAndUpdate (\<lambda>d. clerkId d = cid)
                       (\<lambda>d. d\<lparr>username := Some desired, usernameLower := Some lower\<rparr>) s of
                  (Inl e, s') \<Rightarrow>
                    (if usernameDup e then (Inl (Error ''That username is taken.''), s')
                     else (Inl e, s'))
                | (Inr None, s') \<Rightarrow> (Inl (Error ''User not found''), s')
                | (Inr (Some updated), s') \<Rightarrow> (Inr updated, s'))"

subsection \<open>Solana wallet helpers\<close>

definition walletDup :: "error \<Rightarrow> bool" where
  "walletDup e =
     (case e of
        MongoServerError code k \<Rightarrow> code = 11000 \<and> k = ''solanaWallet''
      | Error m \<Rightarrow> False)"

definition setSolanaWallet :: "string \<Rightarrow> string \<Rightarrow> User list \<Rightarrow> (error + User) \<times> User list" where
  "setSolanaWallet cid addressRaw s =
     (let address = trim addressRaw
      in if \<not> isValidSolAddress address then (Inl (Error ''Invalid Solana address format.''), s)
         else
           case findOneAndUpdate (\<lambda>d. clerkId d = cid) (\<lambda>d. d\<lparr>solanaWallet := address\<rparr>) s of
             (Inl e, s') \<Rightarrow>
               (if walletDup e
                then (Inl (Error ''That wallet is already connected by another user.''), s')
                else (Inl e, s'))
           | (Inr None, s') \<Rightarrow> (Inl (Error ''User not found''), s')
           | (Inr (Some updated), s') \<Rightarrow> (Inr updated, s'))"

definition clearSolanaWallet :: "string \<Rightarrow> User list \<Rightarrow> (error + User) \<times> User list" where
  "clearSolanaWallet cid s =
     (case findOneAndUpdate (\<lambda>d. clerkId d = cid) (\<lambda>d. d\<lparr>solanaWallet := ''''\<rparr>) s of
        (Inl e, s') \<Rightarrow> (Inl e, s')
      | (Inr None, s') \<Rightarrow> (Inl (Error ''User not found''), s')
      | (Inr (Some updated), s') \<Rightarrow> (Inr updated, s'))"

section \<open>The identity webhook\<close>

text \<open>
  The request as the handler sees it: the three Svix headers and \<open>verified\<close>, the event
  that \<^verbatim>\<open>wh.verify(body, headers)\<close> returns (\<open>None\<close> when it throws).
\<close>

record ClerkEmailAddress =
  e_id :: string
  email_address :: string

record ClerkEventData =
  d_id :: "string option"
  email_addresses :: "ClerkEmailAddress list option"
  primary_email_address_id :: "string option"
  first_name :: "string option"
  last_name :: "string option"
  d_username :: "string option"

record WebhookEvent =
  evt_type :: string
  evt_data :: ClerkEventData

record Request =
  svix_id :: "string option"
  svix_timestamp :: "string option"
  svix_signature :: "string option"
  verified :: "WebhookEvent option"

text \<open>
  A response: plain text with its status, \<^verbatim>\<open>{ error }\<close> with its status, or the
  \<^verbatim>\<open>{ message, user }\<close> of a synced account (status 200).
\<close>

datatype Response = Response nat string | JsonError nat string | JsonUser string User

text \<open>JavaScript truthiness of an optional string: neither missing nor empty.\<close>

definition truthy :: "string option \<Rightarrow> bool" where
  "truthy v = (case v of None \<Rightarrow> False | Some x \<Rightarrow> x \<noteq> '''')"

definition getPrimaryEmailFromEvent :: "ClerkEventData \<Rightarrow> string option" where
  "getPrimaryEmailFromEvent data =
     (let list = (case email_addresses data of None \<Rightarrow> [] | Some l \<Rightarrow> l);
          primaryId = primary_email_address_id data;
          byId = (if truthy primaryId
                  then (case find (\<lambda>e. Some (e_id e) = primaryId) list of
                          None \<Rightarrow> None
                        | Some e \<Rightarrow> Some (email_address e))
                  else None);
          first = (case list of [] \<Rightarrow> None | e # rest \<Rightarrow> Some (email_address e))
      in if truthy byId then byId else if truthy first then first else None)"

text \<open>
  The constants \<^verbatim>\<open>maybeUsername\<close> and \<^verbatim>\<open>basePayload\<close> of \<^verbatim>\<open>POST\<close>, from the event's
  data, the account's id and its primary email.
\<close>

definition maybeUsername :: "ClerkEventData \<Rightarrow> string option" where
  "maybeUsername data =
     (case d_username data of
        None \<Rightarrow> None
      | Some u \<Rightarrow> if trim u = '''' then None else Some (trim u))"

definition basePayload :: "string \<Rightarrow> string \<Rightarrow> ClerkEventData \<Rightarrow> CreateUserInput" where
  "basePayload cid em data =
     \<lparr>i_clerkId = cid, i_email = em,
      i_firstName = Some (case first_name data of None \<Rightarrow> '''' | Some f \<Rightarrow> f),
      i_lastName = Some (case last_name data of None \<Rightarrow> '''' | Some l \<Rightarrow> l),
      i_subscriptionTier = Some Free, i_customerId = Some '''',
      i_credits = None, i_username = None\<rparr>"

text \<open>
  The \<^verbatim>\<open>try\<close>/\<^verbatim>\<open>catch\<close> around \<^verbatim>\<open>createUser\<close> in \<^verbatim>\<open>POST\<close>: the first call carries
  the payload's username; when it throws a duplicate key on \<^verbatim>\<open>usernameLower\<close> or
  \<^verbatim>\<open>username\<close> the handler calls \<^verbatim>\<open>createUser(basePayload)\<close>, and every other
  exception is thrown again.
\<close>

definition createUserOrRetry ::
  "CreateUserInput \<Rightarrow> string option \<Rightarrow> User list \<Rightarrow> (error + User) \<times> User list" where
  "createUserOrRetry base mu s =
     (case createUser (base\<lparr>i_username := mu\<rparr>) s of
        (Inl e, s') \<Rightarrow> if \<not> usernameDup e then (Inl e, s') else createUser base s'
      | (Inr mongoUser, s') \<Rightarrow> (Inr mongoUser, s'))"

text \<open>
  \<^verbatim>\<open>POST\<close>. An exception inside the handler's \<^verbatim>\<open>try\<close> reaches the outer \<^verbatim>\<open>catch\<close>,
  which answers 500. The update of the identity provider's metadata is outside the
  store and its failure is only logged, so it is left out. \<open>now\<close> is \<^verbatim>\<open>new Date()\<close>.
\<close>

definition POST ::
  "string option \<Rightarrow> Request \<Rightarrow> nat \<Rightarrow> User list \<Rightarrow> (error + Response) \<times> User list" where
  "POST WEBHOOK_SECRET req now s =
     (if \<not> truthy WEBHOOK_SECRET then (Inl (Error ''Please add WEBHOOK_SECRET to .env.local''), s)
      else if \<not> truthy (svix_id req) \<or> \<not> truthy (svix_timestamp req) \<or> \<not> truthy (svix_signature req)
      then (Inr (Response 400 ''Error: Missing Svix headers''), s)
      else
        case verified req of
          None \<Rightarrow> (Inr (Response 400 ''Invalid webhook signature''), s)
        | Some evt \<Rightarrow>
            let eventType = evt_type evt; data = evt_data evt
            in if eventType = ''user.created'' \<or> eventType = ''user.updated''
               then
                 (case d_id data of
                    None \<Rightarrow> (Inr (JsonError 400 ''Missing Clerk user id''), s)
                  | Some cid \<Rightarrow>
                      if cid = '''' then (Inr (JsonError 400 ''Missing Clerk user id''), s)
                      else
                        (case getPrimaryEmailFromEvent data of
                           None \<Rightarrow> (Inr (JsonError 400 ''No primary email''), s)
                         | Some em \<Rightarrow>
                             if em = '''' then (Inr (JsonError 400 ''No primary email''), s)
                             else
                               (case createUserOrRetry (basePayload cid em data) (maybeUsername data) s of
                                  (Inl e, s') \<Rightarrow> (Inr (Response 500 ''Internal server error''), s')
                                | (Inr mongoUser, s') \<Rightarrow>
                                    (Inr (JsonUser (if eventType = ''user.created'' then ''User created''
                                                    else ''User updated'') mongoUser), s'))))
               else if eventType = ''user.deleted''
               then
                 (case d_id data of
                    None \<Rightarrow> (Inr (Response 200 ''''), s)
                  | Some cid \<Rightarrow>
                      if cid = '''' then (Inr (Response 200 ''''), s)
                      else
                        (Inr (Response 200 ''''),
                         snd (findOneAndUpdate (\<lambda>d. clerkId d = cid)
                                (\<lambda>d. d\<lparr>deletedAt := Some now\<rparr>) s)))
               else (Inr (Response 200 ''''), s))"

section \<open>The billing bridge\<close>

text \<open>
  The billing provider is a collaborator: its customers, the ids of its prices and the
  checkout sessions it has been asked for. \<open>calls\<close> records, in order, every call
  \<^verbatim>\<open>subscribe\<close> makes to the provider and to the store. The provider's calls are taken
  to answer; \<^verbatim>\<open>prices.retrieve\<close> throws for an id that is no price. \<open>errmsg\<close> is the
  wording of the store's driver: \<open>errmsg w key\<close> is the \<^verbatim>\<open>message\<close> of the duplicate-key
  error on the index \<open>key\<close>. That text names the collection, the index and the duplicate
  value; the source fixes none of it, so it is a parameter.
\<close>

record StripeCustomer =
  cus_id :: string
  cus_email :: string

record CheckoutSession =
  ses_customer :: string
  ses_price :: string
  ses_userId :: string
  ses_customerId :: string

datatype Call =
    CustomersList string
  | CustomersCreate string
  | UserFindOneAndUpdate string string
  | PricesRetrieve string
  | CheckoutSessionsCreate string string

record World =
  db :: "User list"
  customers :: "StripeCustomer list"
  prices :: "string list"
  sessions :: "CheckoutSession list"
  calls :: "Call list"
  errmsg :: "string \<Rightarrow> string"

text \<open>
  \<^verbatim>\<open>error.message\<close>: the text an \<^verbatim>\<open>Error\<close> was made with, and for an error of the store
  the driver's text \<open>drv\<close> for its index.
\<close>

definition message :: "(string \<Rightarrow> string) \<Rightarrow> error \<Rightarrow> string" where
  "message drv e = (case e of Error m \<Rightarrow> m | MongoServerError code k \<Rightarrow> drv k)"

text \<open>The outer \<^verbatim>\<open>catch\<close> of \<^verbatim>\<open>subscribe\<close>.\<close>

definition failedSubscription :: "(string \<Rightarrow> string) \<Rightarrow> error \<Rightarrow> error" where
  "failedSubscription drv e =
     Error (''Failed to create subscription: ''
            @ (if message drv e = '''' then ''Unknown error'' else message drv e))"

text \<open>
  The first step of \<^verbatim>\<open>subscribe\<close>: the customer with this email (\<^verbatim>\<open>customers.list\<close> with
  \<^verbatim>\<open>limit: 1\<close>), or a new one; \<open>newCustomerId\<close> is the id the provider gives a customer it
  creates. The result is \<^verbatim>\<open>customerId\<close>.
\<close>

definition findOrCreateCustomer :: "string \<Rightarrow> string \<Rightarrow> World \<Rightarrow> string \<times> World" where
  "findOrCreateCustomer email' newCustomerId w =
     (let w1 = w\<lparr>calls := calls w @ [CustomersList email']\<rparr>;
          created = (newCustomerId,
                     w1\<lparr>customers := customers w1 @ [\<lparr>cus_id = newCustomerId, cus_email = email'\<rparr>],
                        calls := calls w1 @ [CustomersCreate email']\<rparr>)
      in case find (\<lambda>c. cus_email c = email') (customers w1) of
           None \<Rightarrow> created
         | Some c \<Rightarrow> if cus_id c = '''' then created else (cus_id c, w1))"

text \<open>
  \<^verbatim>\<open>subscribe\<close>; \<open>sessionUrl\<close> is the url of the session the provider opens. The write of
  \<^verbatim>\<open>customerId\<close> is an upsert: with no account for \<^verbatim>\<open>userId\<close> it inserts the schema
  defaults with the \<^verbatim>\<open>clerkId\<close> and the \<^verbatim>\<open>customerId\<close>.
\<close>

definition subscribe ::
  "string \<Rightarrow> string \<Rightarrow> string \<Rightarrow> string \<Rightarrow> string \<Rightarrow> World \<Rightarrow> (error + string) \<times> World" where
  "subscribe userId email' priceId newCustomerId sessionUrl w =
     (if userId = '''' \<or> email' = '''' \<or> priceId = '''' then (Inl (Error ''Missing required params''), w)
      else
        let cid = fst (findOrCreateCustomer email' newCustomerId w);
            w2 = snd (findOrCreateCustomer email' newCustomerId w);
            w3 = w2\<lparr>calls := calls w2 @ [UserFindOneAndUpdate userId cid]\<rparr>
        in case findOneAndUpsert (\<lambda>d. clerkId d = userId) (\<lambda>d. d\<lparr>customerId := cid\<rparr>)
                  ((schemaDefaults userId)\<lparr>customerId := cid\<rparr>) (db w3) of
             (Inl e, s') \<Rightarrow> (Inl (failedSubscription (errmsg w) e), w3\<lparr>db := s'\<rparr>)
           | (Inr updatedUser, s') \<Rightarrow>
               let w4 = w3\<lparr>db := s', calls := calls w3 @ [PricesRetrieve priceId]\<rparr>
               in if priceId \<notin> set (prices w4)
                  then (Inl (failedSubscription (errmsg w)
                               (Error (''Invalid price ID: '' @ priceId))), w4)
                  else
                    (Inr sessionUrl,
                     w4\<lparr>sessions := sessions w4 @
                           [\<lparr>ses_customer = cid, ses_price = priceId, ses_userId = userId,
                             ses_customerId = cid\<rparr>],
                        calls := calls w4 @ [CheckoutSessionsCreate cid priceId]\<rparr>))"

section \<open>Sequences of operations\<close>

text \<open>
  The exported operations that write accounts, as values, and the store they leave. Each
  is one atomic step of the store, so every interleaving of concurrent calls is a
  sequence of them.
\<close>

datatype Op =
    CreateUser CreateUserInput
  | AddCredits string int
  | ConsumeBacktestCredits string int BacktestOpts nat
  | SetUsername string string
  | SetSolanaWallet string string
  | ClearSolanaWallet string
  | UpdateUserTopCoins string "string list"

fun exec :: "Op \<Rightarrow> User list \<Rightarrow> User list" where
  "exec (CreateUser user) s = snd (createUser user s)"
| "exec (AddCredits userId amount) s = snd (addCredits userId amount s)"
| "exec (ConsumeBacktestCredits userId amount opts now) s =
     snd (consumeBacktestCredits userId amount opts now s)"
| "exec (SetUsername cid desiredRaw) s = snd (setUsername cid desiredRaw s)"
| "exec (SetSolanaWallet cid addressRaw) s = snd (setSolanaWallet cid addressRaw s)"
| "exec (ClearSolanaWallet cid) s = snd (clearSolanaWallet cid s)"
| "exec (UpdateUserTopCoins userId coins) s = snd (updateUserTopCoins userId coins s)"

fun run :: "Op list \<Rightarrow> User list \<Rightarrow> User list" where
  "run [] s = s"
| "run (op # ops) s = run ops (exec op s)"

definition isOK :: "error + 'a \<Rightarrow> bool" where
  "isOK r = (case r of Inl e \<Rightarrow> False | Inr v \<Rightarrow> True)"

text \<open>
  A sequence of debits against one account: each debit is its amount, its options and
  the time of the call; the result is, for each debit in order, what the call returned
  and the store it left.
\<close>

type_synonym Debit = "int \<times> BacktestOpts \<times> nat"

fun debits :: "string \<Rightarrow> Debit list \<Rightarrow> User list \<Rightarrow> ((error + User) \<times> User list) list" where
  "debits userId [] s = []"
| "debits userId ((amount, opts, now) # ds) s =
     (let r = consumeBacktestCredits userId amount opts now s
      in r # debits userId ds (snd r))"

definition finalStore :: "User list \<Rightarrow> ((error + User) \<times> User list) list \<Rightarrow> User list" where
  "finalStore s rs = last (s # map snd rs)"

text \<open>The debits that reported success, in order.\<close>

definition succeeded :: "Debit list \<Rightarrow> ((error + User) \<times> User list) list \<Rightarrow> Debit list" where
  "succeeded ds rs = map fst (filter (\<lambda>p. isOK (fst (snd p))) (zip ds rs))"

definition entryOf :: "Debit \<Rightarrow> CreditHistoryEntry" where
  "entryOf d =
     (case d of (amount, opts, now) \<Rightarrow>
        \<lparr>coin = o_coin opts, strategy = o_strategy opts, creditsUsed = amount, timestamp = now\<rparr>)"

definition balance :: "string \<Rightarrow> User list \<Rightarrow> int option" where
  "balance userId s = map_option credits (getUser userId s)"

section \<open>Well-formed stores\<close>

text \<open>
  What the unique indexes guarantee of every store, and what the actions keep: no two
  documents share a \<^verbatim>\<open>clerkId\<close>, an email, a present username or lower-cased username,
  or a wallet value, and \<^verbatim>\<open>usernameLower\<close> is the lower-cased \<^verbatim>\<open>username\<close>.
\<close>

definition wf :: "User list \<Rightarrow> bool" where
  "wf s =
     (distinct (map clerkId s)
      \<and> (\<forall>x\<in>set s. \<forall>y\<in>set s. x \<noteq> y \<longrightarrow>
            email x \<noteq> email y
          \<and> (username x \<noteq> None \<longrightarrow> username x \<noteq> username y)
          \<and> (usernameLower x \<noteq> None \<longrightarrow> usernameLower x \<noteq> usernameLower y)
          \<and> solanaWallet x \<noteq> solanaWallet y)
      \<and> (\<forall>x\<in>set s. usernameLower x = map_option toLowerCase (username x)))"

text \<open>The documents other than the account \<open>uid\<close>, and the store with that account replaced.\<close>

definition others :: "string \<Rightarrow> User list \<Rightarrow> User list" where
  "others uid s = filter (\<lambda>x. clerkId x \<noteq> uid) s"

definition replaceDoc :: "string \<Rightarrow> User \<Rightarrow> User list \<Rightarrow> User list" where
  "replaceDoc uid d' s = map (\<lambda>x. if clerkId x = uid then d' else x) s"

text \<open>An operation that gives no account a negative initial balance.\<close>

definition nonNegInit :: "Op \<Rightarrow> bool" where
  "nonNegInit op =
     (case op of
        CreateUser user \<Rightarrow> (case i_credits user of None \<Rightarrow> True | Some c \<Rightarrow> 0 \<le> c)
      | AddCredits userId amount \<Rightarrow> True
      | ConsumeBacktestCredits userId amount opts now \<Rightarrow> True
      | SetUsername cid desiredRaw \<Rightarrow> True
      | SetSolanaWallet cid addressRaw \<Rightarrow> True
      | ClearSolanaWallet cid \<Rightarrow> True
      | UpdateUserTopCoins userId coins \<Rightarrow> True)"

section \<open>The store's steps on a well-formed store\<close>

text \<open>
  Where no two documents share a \<^verbatim>\<open>clerkId\<close>, a filter on the \<^verbatim>\<open>clerkId\<close> meets at
  most one document, and the update of that document is \<open>replaceDoc\<close>, checked against
  \<open>others\<close>.
\<close>

lemma findIndex_None: "findIndex P s = None \<longleftrightarrow> (\<forall>x\<in>set s. \<not> P x)"
  by (induction s) auto

lemma findIndex_Some:
  "findIndex P s = Some i \<Longrightarrow> i < length s \<and> P (s ! i) \<and> (\<forall>j<i. \<not> P (s ! j))"
proof (induction s arbitrary: i)
  case Nil
  then show ?case by simp
next
  case (Cons x xs)
  show ?case
  proof (cases "P x")
    case True
    with Cons.prems show ?thesis by simp
  next
    case False
    with Cons.prems obtain k where k: "findIndex P xs = Some k" "i = Suc k"
      by auto
    from Cons.IH [OF k(1)] False k(2) show ?thesis
      by (auto simp: nth_Cons split: nat.splits)
  qed
qed

lemma find_findIndex:
  "find P s = (case findIndex P s of None \<Rightarrow> None | Some i \<Rightarrow> Some (s ! i))"
  by (induction s) (auto split: option.splits)

lemma dupKey_cong: "set xs = set ys \<Longrightarrow> dupKey d xs = dupKey d ys"
  by (simp add: dupKey_def)

lemma distinct_key_nth:
  "distinct (map f s) \<Longrightarrow> i < length s \<Longrightarrow> j < length s \<Longrightarrow> f (s ! i) = f (s ! j) \<Longrightarrow> i = j"
  by (metis distinct_conv_nth length_map nth_map)

lemma set_others:
  assumes d: "distinct (map clerkId s)" and i: "i < length s"
  shows "set (take i s @ drop (Suc i) s) = set (filter (\<lambda>x. clerkId x \<noteq> clerkId (s ! i)) s)"
proof -
  have s: "s = take i s @ s ! i # drop (Suc i) s"
    using i by (simp add: id_take_nth_drop)
  have "distinct (map clerkId (take i s @ s ! i # drop (Suc i) s))"
    using d s by simp
  then have "\<forall>x\<in>set (take i s @ drop (Suc i) s). clerkId x \<noteq> clerkId (s ! i)"
    by (auto simp: image_iff)
  then have "filter (\<lambda>x. clerkId x \<noteq> clerkId (s ! i)) (take i s @ s ! i # drop (Suc i) s)
      = take i s @ drop (Suc i) s"
    by (auto simp: filter_id_conv)
  with s show ?thesis by simp
qed

lemma update_as_map:
  assumes d: "distinct (map clerkId s)" and i: "i < length s"
  shows "s[i := d'] = map (\<lambda>x. if clerkId x = clerkId (s ! i) then d' else x) s"
proof (rule nth_equalityI)
  show "length (s[i := d']) = length (map (\<lambda>x. if clerkId x = clerkId (s ! i) then d' else x) s)"
    by simp
next
  fix j assume "j < length (s[i := d'])"
  then have j: "j < length s" by simp
  show "s[i := d'] ! j = map (\<lambda>x. if clerkId x = clerkId (s ! i) then d' else x) s ! j"
    using j i distinct_key_nth [OF d j i] by (auto simp: nth_list_update)
qed


lemma getUser_findIndex:
  "getUser uid s = Some d \<Longrightarrow>
     \<exists>i. findIndex (\<lambda>x. clerkId x = uid) s = Some i \<and> i < length s \<and> s ! i = d \<and> clerkId d = uid"
  unfolding getUser_def findOne_def find_findIndex
  by (auto split: option.splits dest: findIndex_Some)

lemma getUser_None: "getUser uid s = None \<longleftrightarrow> uid \<notin> clerkId ` set s"
  unfolding getUser_def findOne_def find_None_iff by auto

lemma getUser_Some_mem: "getUser uid s = Some d \<Longrightarrow> d \<in> set s \<and> clerkId d = uid"
  unfolding getUser_def findOne_def by (auto simp: find_Some_iff)

lemma findIndex_clerk:
  assumes d: "distinct (map clerkId s)" and g: "getUser uid s = Some d"
  shows "findIndex (\<lambda>x. clerkId x = uid \<and> Q x) s
           = (if Q d then findIndex (\<lambda>x. clerkId x = uid) s else None)"
proof -
  from getUser_findIndex [OF g] obtain i where
    i: "findIndex (\<lambda>x. clerkId x = uid) s = Some i" "i < length s" "s ! i = d" "clerkId d = uid"
    by blast
  show ?thesis
  proof (cases "findIndex (\<lambda>x. clerkId x = uid \<and> Q x) s")
    case None
    then have "\<not> Q d" using i by (auto simp: findIndex_None dest: nth_mem)
    with None show ?thesis by simp
  next
    case (Some j)
    from findIndex_Some [OF Some] have j: "j < length s" "clerkId (s ! j) = uid" "Q (s ! j)"
      by auto
    have "j = i" using distinct_key_nth [OF d j(1) i(2)] j(2) i(3,4) by simp
    with Some j i show ?thesis by simp
  qed
qed

lemma writeAt_hit:
  assumes d: "distinct (map clerkId s)" and i: "i < length s" and u: "clerkId (s ! i) = uid"
  shows "writeAt (Some i) d' s =
     (case dupKey d' (others uid s) of
        Some k \<Rightarrow> (Inl (MongoServerError 11000 k), s)
      | None \<Rightarrow> (Inr d', replaceDoc uid d' s))"
proof -
  have "dupKey d' (take i s @ drop (Suc i) s) = dupKey d' (others uid s)"
    unfolding others_def using set_others [OF d i] u by (intro dupKey_cong) simp
  moreover have "s[i := d'] = replaceDoc uid d' s"
    unfolding replaceDoc_def using update_as_map [OF d i] u by simp
  ultimately show ?thesis by (simp add: writeAt_def split: option.splits)
qed

lemma findOneAndUpdate_hit:
  assumes d: "distinct (map clerkId s)" and g: "getUser uid s = Some doc" and q: "Q doc"
  shows "findOneAndUpdate (\<lambda>x. clerkId x = uid \<and> Q x) upd s =
     (case dupKey (upd doc) (others uid s) of
        Some k \<Rightarrow> (Inl (MongoServerError 11000 k), s)
      | None \<Rightarrow> (Inr (Some (upd doc)), replaceDoc uid (upd doc) s))"
proof -
  from getUser_findIndex [OF g] obtain i where
    i: "findIndex (\<lambda>x. clerkId x = uid) s = Some i" "i < length s" "s ! i = doc" "clerkId doc = uid"
    by blast
  have f: "findIndex (\<lambda>x. clerkId x = uid \<and> Q x) s = Some i"
    using findIndex_clerk [OF d g, of Q] q i(1) by simp
  have u: "clerkId (s ! i) = uid" using i by simp
  show ?thesis
    unfolding findOneAndUpdate_def f using writeAt_hit [OF d i(2) u, of "upd doc"] i(3)
    by (simp split: option.splits)
qed

lemma findOneAndUpdate_miss:
  assumes "getUser uid s = None \<or> (distinct (map clerkId s) \<and> (\<exists>doc. getUser uid s = Some doc \<and> \<not> Q doc))"
  shows "findOneAndUpdate (\<lambda>x. clerkId x = uid \<and> Q x) upd s = (Inr None, s)"
proof -
  have "findIndex (\<lambda>x. clerkId x = uid \<and> Q x) s = None"
    using assms
  proof
    assume "getUser uid s = None"
    then show ?thesis by (auto simp: findIndex_None getUser_None)
  next
    assume "distinct (map clerkId s) \<and> (\<exists>doc. getUser uid s = Some doc \<and> \<not> Q doc)"
    then show ?thesis using findIndex_clerk [of s uid _ Q] by auto
  qed
  then show ?thesis by (simp add: findOneAndUpdate_def)
qed

lemma findOneAndUpsert_hit:
  assumes d: "distinct (map clerkId s)" and g: "getUser uid s = Some doc"
  shows "findOneAndUpsert (\<lambda>x. clerkId x = uid) upd ins s =
     (case dupKey (upd doc) (others uid s) of
        Some k \<Rightarrow> (Inl (MongoServerError 11000 k), s)
      | None \<Rightarrow> (Inr (upd doc), replaceDoc uid (upd doc) s))"
proof -
  from getUser_findIndex [OF g] obtain i where
    i: "findIndex (\<lambda>x. clerkId x = uid) s = Some i" "i < length s" "s ! i = doc" "clerkId doc = uid"
    by blast
  have u: "clerkId (s ! i) = uid" using i by simp
  show ?thesis
    unfolding findOneAndUpsert_def i(1) using writeAt_hit [OF d i(2) u, of "upd doc"] i(3)
    by simp
qed

lemma findOneAndUpsert_miss:
  assumes "getUser uid s = None"
  shows "findOneAndUpsert (\<lambda>x. clerkId x = uid) upd ins s =
     (case dupKey ins s of
        Some k \<Rightarrow> (Inl (MongoServerError 11000 k), s)
      | None \<Rightarrow> (Inr ins, s @ [ins]))"
proof -
  have "findIndex (\<lambda>x. clerkId x = uid) s = None"
    using assms by (auto simp: findIndex_None getUser_None)
  then show ?thesis by (simp add: findOneAndUpsert_def writeAt_def)
qed

lemma dupKey_None_iff:
  "dupKey d xs = None \<longleftrightarrow>
     clerkId d \<notin> clerkId ` set xs \<and> email d \<notin> email ` set xs
     \<and> (username d = None \<or> username d \<notin> username ` set xs)
     \<and> (usernameLower d = None \<or> usernameLower d \<notin> usernameLower ` set xs)
     \<and> solanaWallet d \<notin> solanaWallet ` set xs"
  by (auto simp: dupKey_def)

lemma set_others_eq: "set (others uid s) = {x \<in> set s. clerkId x \<noteq> uid}"
  by (auto simp: others_def)

lemma set_replaceDoc:
  "clerkId d' = uid \<Longrightarrow>
   set (replaceDoc uid d' s) = (if uid \<in> clerkId ` set s then insert d' (set (others uid s)) else set s)"
  by (induction s) (auto simp: replaceDoc_def others_def)

lemma replaceDoc_absent: "uid \<notin> clerkId ` set s \<Longrightarrow> replaceDoc uid d' s = s"
  by (induction s) (auto simp: replaceDoc_def)

lemma clerkId_replaceDoc: "clerkId d' = uid \<Longrightarrow> map clerkId (replaceDoc uid d' s) = map clerkId s"
  by (induction s) (auto simp: replaceDoc_def)

lemma wf_distinct: "wf s \<Longrightarrow> distinct (map clerkId s)"
  by (simp add: wf_def)

lemma wf_replaceDoc:
  assumes w: "wf s" and c: "clerkId d' = uid" and k: "dupKey d' (others uid s) = None"
    and l: "usernameLower d' = map_option toLowerCase (username d')"
  shows "wf (replaceDoc uid d' s)"
proof (cases "uid \<in> clerkId ` set s")
  case False
  then have "replaceDoc uid d' s = s"
    by (rule replaceDoc_absent)
  with w show ?thesis by simp
next
  case True
  have st: "set (replaceDoc uid d' s) = insert d' (set (others uid s))"
    using set_replaceDoc [OF c, of s] True by simp
  have sub: "set (others uid s) \<subseteq> set s" by (auto simp: others_def)
  have "distinct (map clerkId (replaceDoc uid d' s))"
    using w c by (simp add: clerkId_replaceDoc wf_def)
  moreover have "\<forall>x\<in>set (replaceDoc uid d' s). usernameLower x = map_option toLowerCase (username x)"
    using w l sub unfolding st wf_def by auto
  moreover have "\<forall>x\<in>set (replaceDoc uid d' s). \<forall>y\<in>set (replaceDoc uid d' s). x \<noteq> y \<longrightarrow>
            email x \<noteq> email y
          \<and> (username x \<noteq> None \<longrightarrow> username x \<noteq> username y)
          \<and> (usernameLower x \<noteq> None \<longrightarrow> usernameLower x \<noteq> usernameLower y)
          \<and> solanaWallet x \<noteq> solanaWallet y"
  proof (intro ballI impI)
    fix x y assume x: "x \<in> set (replaceDoc uid d' s)" and y: "y \<in> set (replaceDoc uid d' s)"
      and ne: "x \<noteq> y"
    from k have k': "email d' \<notin> email ` set (others uid s)"
      "username d' = None \<or> username d' \<notin> username ` set (others uid s)"
      "usernameLower d' = None \<or> usernameLower d' \<notin> usernameLower ` set (others uid s)"
      "solanaWallet d' \<notin> solanaWallet ` set (others uid s)"
      by (simp_all add: dupKey_None_iff)
    from w have pw: "\<And>a b. a \<in> set s \<Longrightarrow> b \<in> set s \<Longrightarrow> a \<noteq> b \<Longrightarrow>
        email a \<noteq> email b
          \<and> (username a \<noteq> None \<longrightarrow> username a \<noteq> username b)
          \<and> (usernameLower a \<noteq> None \<longrightarrow> usernameLower a \<noteq> usernameLower b)
          \<and> solanaWallet a \<noteq> solanaWallet b"
      unfolding wf_def by blast
    consider "x = d'" "y \<in> set (others uid s)" | "y = d'" "x \<in> set (others uid s)"
      | "x \<in> set (others uid s)" "y \<in> set (others uid s)"
      using x y ne unfolding st by auto
    then show "email x \<noteq> email y
          \<and> (username x \<noteq> None \<longrightarrow> username x \<noteq> username y)
          \<and> (usernameLower x \<noteq> None \<longrightarrow> usernameLower x \<noteq> usernameLower y)
          \<and> solanaWallet x \<noteq> solanaWallet y"
    proof cases
      case 1
      with k' show ?thesis by (auto simp: image_iff)
    next
      case 2
      with k' show ?thesis by (auto simp: image_iff) (metis+)?
    next
      case 3
      with pw [of x y] sub ne show ?thesis by auto
    qed
  qed
  ultimately show ?thesis unfolding wf_def by blast
qed

lemma wf_insert:
  assumes w: "wf s" and k: "dupKey d' s = None"
    and l: "usernameLower d' = map_option toLowerCase (username d')"
  shows "wf (s @ [d'])"
proof -
  from k have k': "clerkId d' \<notin> clerkId ` set s" "email d' \<notin> email ` set s"
      "username d' = None \<or> username d' \<notin> username ` set s"
      "usernameLower d' = None \<or> usernameLower d' \<notin> usernameLower ` set s"
      "solanaWallet d' \<notin> solanaWallet ` set s"
    by (simp_all add: dupKey_None_iff)
  from w have pw: "\<And>a b. a \<in> set s \<Longrightarrow> b \<in> set s \<Longrightarrow> a \<noteq> b \<Longrightarrow>
        email a \<noteq> email b
          \<and> (username a \<noteq> None \<longrightarrow> username a \<noteq> username b)
          \<and> (usernameLower a \<noteq> None \<longrightarrow> usernameLower a \<noteq> usernameLower b)
          \<and> solanaWallet a \<noteq> solanaWallet b"
    unfolding wf_def by blast
  have "distinct (map clerkId (s @ [d']))"
    using w k'(1) by (simp add: wf_def)
  moreover have "\<forall>x\<in>set (s @ [d']). usernameLower x = map_option toLowerCase (username x)"
    using w l by (auto simp: wf_def)
  moreover have "\<forall>x\<in>set (s @ [d']). \<forall>y\<in>set (s @ [d']). x \<noteq> y \<longrightarrow>
            email x \<noteq> email y
          \<and> (username x \<noteq> None \<longrightarrow> username x \<noteq> username y)
          \<and> (usernameLower x \<noteq> None \<longrightarrow> usernameLower x \<noteq> usernameLower y)
          \<and> solanaWallet x \<noteq> solanaWallet y"
  proof (intro ballI impI)
    fix x y assume x: "x \<in> set (s @ [d'])" and y: "y \<in> set (s @ [d'])" and ne: "x \<noteq> y"
    consider "x = d'" "y \<in> set s" | "y = d'" "x \<in> set s" | "x \<in> set s" "y \<in> set s"
      using x y ne by auto
    then show "email x \<noteq> email y
          \<and> (username x \<noteq> None \<longrightarrow> username x \<noteq> username y)
          \<and> (usernameLower x \<noteq> None \<longrightarrow> usernameLower x \<noteq> usernameLower y)
          \<and> solanaWallet x \<noteq> solanaWallet y"
    proof cases
      case 1
      with k' show ?thesis by (auto simp: image_iff)
    next
      case 2
      with k' show ?thesis by (auto simp: image_iff) (metis+)?
    next
      case 3
      with pw [of x y] ne show ?thesis by auto
    qed
  qed
  ultimately show ?thesis unfolding wf_def by blast
qed

lemma getUser_replaceDoc:
  "clerkId d' = uid \<Longrightarrow>
   getUser v (replaceDoc uid d' s) = (if v = uid then map_option (\<lambda>x. d') (getUser uid s) else getUser v s)"
  by (induction s) (auto simp: getUser_def findOne_def replaceDoc_def)

lemma getUser_append:
  "getUser v (s @ [d']) =
     (case getUser v s of Some x \<Rightarrow> Some x | None \<Rightarrow> if clerkId d' = v then Some d' else None)"
  by (induction s) (auto simp: getUser_def findOne_def)

text \<open>An update that leaves the indexed fields alone is never refused.\<close>

lemma dupKey_same_keys:
  assumes w: "wf s" and g: "getUser uid s = Some d"
    and e: "email d' = email d" "username d' = username d" "usernameLower d' = usernameLower d"
      "solanaWallet d' = solanaWallet d" "clerkId d' = clerkId d"
  shows "dupKey d' (others uid s) = None"
proof -
  from getUser_Some_mem [OF g] have m: "d \<in> set s" "clerkId d = uid" by auto
  from w have pw: "\<And>b. b \<in> set s \<Longrightarrow> d \<noteq> b \<Longrightarrow>
        email d \<noteq> email b
          \<and> (username d \<noteq> None \<longrightarrow> username d \<noteq> username b)
          \<and> (usernameLower d \<noteq> None \<longrightarrow> usernameLower d \<noteq> usernameLower b)
          \<and> solanaWallet d \<noteq> solanaWallet b"
    using m(1) unfolding wf_def by blast
  have o: "\<And>b. b \<in> set (others uid s) \<Longrightarrow> b \<in> set s \<and> d \<noteq> b \<and> clerkId b \<noteq> uid"
    using m by (auto simp: others_def)
  show ?thesis
    unfolding dupKey_None_iff e using pw o m(2) by (auto simp: image_iff) (metis+)?
qed

lemma wf_own_keys: "wf s \<Longrightarrow> getUser uid s = Some d \<Longrightarrow> dupKey d (others uid s) = None"
  by (rule dupKey_same_keys) simp_all

lemma wf_findOneAndUpdate:
  assumes w: "wf s"
    and l: "\<And>d. usernameLower d = map_option toLowerCase (username d) \<Longrightarrow>
              usernameLower (upd d) = map_option toLowerCase (username (upd d))"
    and c: "\<And>d. clerkId (upd d) = clerkId d"
  shows "wf (snd (findOneAndUpdate (\<lambda>x. clerkId x = uid \<and> Q x) upd s))"
proof (cases "getUser uid s")
  case None
  then show ?thesis using w by (simp add: findOneAndUpdate_miss)
next
  case (Some d)
  show ?thesis
  proof (cases "Q d")
    case False
    with Some w show ?thesis by (simp add: findOneAndUpdate_miss wf_distinct)
  next
    case True
    from getUser_Some_mem [OF Some] have m: "d \<in> set s" "clerkId d = uid" by auto
    have ld: "usernameLower d = map_option toLowerCase (username d)"
      using w m(1) by (simp add: wf_def)
    show ?thesis
      unfolding findOneAndUpdate_hit [where Q = Q, OF wf_distinct [OF w] Some True]
      using w wf_replaceDoc [OF w _ _ l [OF ld], of uid] c [of d] m(2)
      by (auto split: option.splits)
  qed
qed

lemma wf_findOneAndUpdate_clerk:
  assumes w: "wf s"
    and l: "\<And>d. usernameLower d = map_option toLowerCase (username d) \<Longrightarrow>
              usernameLower (upd d) = map_option toLowerCase (username (upd d))"
    and c: "\<And>d. clerkId (upd d) = clerkId d"
  shows "wf (snd (findOneAndUpdate (\<lambda>x. clerkId x = uid) upd s))"
  using wf_findOneAndUpdate [where Q = "\<lambda>x. True" and uid = uid, OF w l c] by simp

lemma wf_findOneAndUpsert:
  assumes w: "wf s"
    and l: "\<And>d. usernameLower d = map_option toLowerCase (username d) \<Longrightarrow>
              usernameLower (upd d) = map_option toLowerCase (username (upd d))"
    and c: "\<And>d. clerkId (upd d) = clerkId d"
    and i: "usernameLower ins = map_option toLowerCase (username ins)"
  shows "wf (snd (findOneAndUpsert (\<lambda>x. clerkId x = uid) upd ins s))"
proof (cases "getUser uid s")
  case None
  show ?thesis
    unfolding findOneAndUpsert_miss [OF None]
    using w wf_insert [OF w _ i] by (auto split: option.splits)
next
  case (Some d)
  from getUser_Some_mem [OF Some] have m: "d \<in> set s" "clerkId d = uid" by auto
  have ld: "usernameLower d = map_option toLowerCase (username d)"
    using w m(1) by (simp add: wf_def)
  show ?thesis
    unfolding findOneAndUpsert_hit [OF wf_distinct [OF w] Some]
    using w wf_replaceDoc [OF w _ _ l [OF ld], of uid] c [of d] m(2)
    by (auto split: option.splits)
qed

lemma createUserSet_lower:
  "usernameLower d = map_option toLowerCase (username d) \<Longrightarrow>
   usernameLower (createUserSet user d) = map_option toLowerCase (username (createUserSet user d))"
  by (simp add: createUserSet_def Let_def split: option.splits)

lemma createUserSet_clerkId: "clerkId (createUserSet user d) = clerkId d"
  by (simp add: createUserSet_def Let_def split: option.splits)

lemma wf_createUser: "wf s \<Longrightarrow> wf (snd (createUser user s))"
  unfolding createUser_def
  by (rule wf_findOneAndUpsert)
    (simp_all add: createUserSet_lower createUserSet_clerkId createUserOnInsert_def schemaDefaults_def)

lemma wf_consumeBacktestCredits: "wf s \<Longrightarrow> wf (snd (consumeBacktestCredits userId amount opts now s))"
proof -
  assume w: "wf s"
  let ?e = "\<lparr>coin = o_coin opts, strategy = o_strategy opts, creditsUsed = amount, timestamp = now\<rparr>"
  have "wf (snd (findOneAndUpdate (\<lambda>d. clerkId d = userId \<and> amount \<le> credits d)
           (\<lambda>d. d\<lparr>credits := credits d - amount, creditHistory := take 50 (?e # creditHistory d)\<rparr>) s))"
    by (rule wf_findOneAndUpdate [OF w]) simp_all
  with w show ?thesis
    by (auto simp: consumeBacktestCredits_def Let_def split: prod.splits sum.splits option.splits)
qed

lemma wf_addCredits: "wf s \<Longrightarrow> wf (snd (addCredits userId amount s))"
proof -
  assume w: "wf s"
  have "wf (snd (findOneAndUpdate (\<lambda>d. clerkId d = userId) (\<lambda>d. d\<lparr>credits := credits d + amount\<rparr>) s))"
    by (rule wf_findOneAndUpdate_clerk [OF w]) simp_all
  with w show ?thesis
    by (auto simp: addCredits_def split: prod.splits sum.splits option.splits)
qed

lemma wf_updateUserTopCoins: "wf s \<Longrightarrow> wf (snd (updateUserTopCoins userId coins s))"
proof -
  assume w: "wf s"
  have "wf (snd (findOneAndUpdate (\<lambda>d. clerkId d = userId) (\<lambda>d. d\<lparr>topCoins := coins\<rparr>) s))"
    by (rule wf_findOneAndUpdate_clerk [OF w]) simp_all
  with w show ?thesis
    by (auto simp: updateUserTopCoins_def split: prod.splits sum.splits option.splits)
qed

lemma wf_setUsername: "wf s \<Longrightarrow> wf (snd (setUsername cid desiredRaw s))"
proof -
  assume w: "wf s"
  have "wf (snd (findOneAndUpdate (\<lambda>d. clerkId d = cid)
      (\<lambda>d. d\<lparr>username := Some (trim desiredRaw), usernameLower := Some (toLowerCase (trim desiredRaw))\<rparr>) s))"
    by (rule wf_findOneAndUpdate_clerk [OF w]) simp_all
  with w show ?thesis
    by (auto simp: setUsername_def Let_def split: prod.splits sum.splits option.splits)
qed

lemma wf_setSolanaWallet: "wf s \<Longrightarrow> wf (snd (setSolanaWallet cid addressRaw s))"
proof -
  assume w: "wf s"
  have "wf (snd (findOneAndUpdate (\<lambda>d. clerkId d = cid) (\<lambda>d. d\<lparr>solanaWallet := trim addressRaw\<rparr>) s))"
    by (rule wf_findOneAndUpdate_clerk [OF w]) simp_all
  with w show ?thesis
    by (auto simp: setSolanaWallet_def Let_def split: prod.splits sum.splits option.splits)
qed

lemma wf_clearSolanaWallet: "wf s \<Longrightarrow> wf (snd (clearSolanaWallet cid s))"
proof -
  assume w: "wf s"
  have "wf (snd (findOneAndUpdate (\<lambda>d. clerkId d = cid) (\<lambda>d. d\<lparr>solanaWallet := ''''\<rparr>) s))"
    by (rule wf_findOneAndUpdate_clerk [OF w]) simp_all
  with w show ?thesis
    by (auto simp: clearSolanaWallet_def split: prod.splits sum.splits option.splits)
qed

lemma wf_exec: "wf s \<Longrightarrow> wf (exec op s)"
  by (cases op)
    (simp_all add: wf_createUser wf_consumeBacktestCredits wf_addCredits wf_updateUserTopCoins
      wf_setUsername wf_setSolanaWallet wf_clearSolanaWallet)

lemma wf_run: "wf s \<Longrightarrow> wf (run ops s)"
  by (induction ops arbitrary: s) (simp_all add: wf_exec)

lemma wf_empty: "wf []"
  by (simp add: wf_def)

section \<open>The credit ledger\<close>

lemma consume_invalid:
  "amount \<le> 0 \<Longrightarrow>
   consumeBacktestCredits uid amount opts now s = (Inl (Error ''Amount must be > 0''), s)"
  by (simp add: consumeBacktestCredits_def)

lemma consume_refused:
  assumes w: "wf s" and a: "0 < amount"
    and g: "getUser uid s = None \<or> (\<exists>d. getUser uid s = Some d \<and> credits d < amount)"
  shows "consumeBacktestCredits uid amount opts now s
           = (Inl (Error ''User not found or not enough credits''), s)"
proof -
  have "getUser uid s = None
      \<or> (distinct (map clerkId s) \<and> (\<exists>d. getUser uid s = Some d \<and> \<not> amount \<le> credits d))"
    using g w by (auto simp: wf_distinct)
  from findOneAndUpdate_miss [where Q = "\<lambda>d. amount \<le> credits d", OF this] a
  show ?thesis by (simp add: consumeBacktestCredits_def Let_def)
qed

lemma consume_done:
  assumes w: "wf s" and a: "0 < amount" and g: "getUser uid s = Some d" and c: "amount \<le> credits d"
  shows "consumeBacktestCredits uid amount opts now s =
     (Inr (d\<lparr>credits := credits d - amount,
             creditHistory := take 50 (entryOf (amount, opts, now) # creditHistory d)\<rparr>),
      replaceDoc uid (d\<lparr>credits := credits d - amount,
             creditHistory := take 50 (entryOf (amount, opts, now) # creditHistory d)\<rparr>) s)"
proof -
  let ?d' = "d\<lparr>credits := credits d - amount,
             creditHistory := take 50 (entryOf (amount, opts, now) # creditHistory d)\<rparr>"
  have k: "dupKey ?d' (others uid s) = None"
    by (rule dupKey_same_keys [OF w g]) simp_all
  from findOneAndUpdate_hit [where Q = "\<lambda>d. amount \<le> credits d", OF wf_distinct [OF w] g c] k a
  show ?thesis by (simp add: consumeBacktestCredits_def Let_def entryOf_def)
qed

lemma succeeded_Cons:
  "succeeded (x # ds) (r # rs) = (if isOK (fst r) then [x] else []) @ succeeded ds rs"
  by (simp add: succeeded_def)

lemma finalStore_Cons: "finalStore s (r # rs) = finalStore (snd r) rs"
  by (simp add: finalStore_def)

lemma take_append_take: "take k (xs @ take k ys) = take k (xs @ ys)"
  by (simp add: take_append min_def)

lemma debits_ledger:
  assumes "wf s" and "getUser uid s = Some d"
  shows "\<exists>d'. getUser uid (finalStore s (debits uid ds s)) = Some d'
      \<and> credits d' = credits d - sum_list (map fst (succeeded ds (debits uid ds s)))
      \<and> (length (creditHistory d) \<le> 50 \<longrightarrow>
           creditHistory d' = take 50 (rev (map entryOf (succeeded ds (debits uid ds s))) @ creditHistory d))
      \<and> list_all (\<lambda>p. \<exists>x. getUser uid (snd p) = Some x \<and> (credits x = credits d \<or> 0 \<le> credits x))
           (debits uid ds s)"
  using assms
proof (induction ds arbitrary: s d)
  case Nil
  then show ?case by (simp add: finalStore_def succeeded_def)
next
  case (Cons x ds)
  obtain amount opts now where x: "x = (amount, opts, now)" by (cases x) auto
  let ?r = "consumeBacktestCredits uid amount opts now s"
  have cu: "clerkId d = uid" using getUser_Some_mem [OF Cons.prems(2)] by simp
  show ?case
  proof (cases "0 < amount \<and> amount \<le> credits d")
    case True
    let ?d1 = "d\<lparr>credits := credits d - amount,
             creditHistory := take 50 (entryOf (amount, opts, now) # creditHistory d)\<rparr>"
    have r: "?r = (Inr ?d1, replaceDoc uid ?d1 s)"
      using consume_done [OF Cons.prems(1) _ Cons.prems(2)] True by simp
    have w1: "wf (snd ?r)" by (rule wf_consumeBacktestCredits [OF Cons.prems(1)])
    have g1: "getUser uid (snd ?r) = Some ?d1"
      using cu Cons.prems(2) by (simp add: r getUser_replaceDoc)
    from Cons.IH [OF w1 g1] obtain d' where
      d': "getUser uid (finalStore (snd ?r) (debits uid ds (snd ?r))) = Some d'"
        "credits d' = credits ?d1 - sum_list (map fst (succeeded ds (debits uid ds (snd ?r))))"
        "length (creditHistory ?d1) \<le> 50 \<longrightarrow> creditHistory d' = take 50 (rev (map entryOf (succeeded ds (debits uid ds (snd ?r)))) @ creditHistory ?d1)"
        "list_all (\<lambda>p. \<exists>x. getUser uid (snd p) = Some x \<and> (credits x = credits ?d1 \<or> 0 \<le> credits x))
           (debits uid ds (snd ?r))"
      by blast
    have ok: "isOK (fst ?r)" by (simp add: r isOK_def)
    have h: "length (creditHistory ?d1) \<le> 50" by simp
    have hist: "creditHistory d' = take 50 (rev (map entryOf (succeeded ds (debits uid ds (snd ?r))))
           @ entryOf (amount, opts, now) # creditHistory d)"
      using d'(3) h
        take_append_take [of 50 "rev (map entryOf (succeeded ds (debits uid ds (snd ?r))))"
          "entryOf (amount, opts, now) # creditHistory d"]
      by (simp del: take_Cons_numeral)
    have nn: "0 \<le> credits ?d1" using True by simp
    have la: "list_all (\<lambda>p. \<exists>x. getUser uid (snd p) = Some x \<and> (credits x = credits d \<or> 0 \<le> credits x))
           (debits uid ds (snd ?r))"
      using d'(4) nn by (auto simp: list_all_iff)
    show ?thesis
      apply (rule exI [of _ d'])
      using d'(1,2) la g1 nn ok
      apply (simp add: x Let_def finalStore_Cons succeeded_Cons del: take_Cons_numeral)
      using hist apply simp
      done
  next
    case False
    have r: "?r = (if amount \<le> 0 then (Inl (Error ''Amount must be > 0''), s)
                   else (Inl (Error ''User not found or not enough credits''), s))"
      using False consume_invalid [of amount uid opts now s]
        consume_refused [OF Cons.prems(1), of amount uid opts now] Cons.prems(2)
      by auto
    then have s': "snd ?r = s" and nok: "\<not> isOK (fst ?r)" by (auto simp: isOK_def)
    from Cons.IH [OF Cons.prems(1) Cons.prems(2)] obtain d' where
      d': "getUser uid (finalStore s (debits uid ds s)) = Some d'"
        "credits d' = credits d - sum_list (map fst (succeeded ds (debits uid ds s)))"
        "length (creditHistory d) \<le> 50 \<longrightarrow> creditHistory d' = take 50 (rev (map entryOf (succeeded ds (debits uid ds s))) @ creditHistory d)"
        "list_all (\<lambda>p. \<exists>x. getUser uid (snd p) = Some x \<and> (credits x = credits d \<or> 0 \<le> credits x))
           (debits uid ds s)"
      by blast
    show ?thesis
      apply (rule exI [of _ d'])
      using d' nok Cons.prems(2)
      apply (simp add: x Let_def finalStore_Cons succeeded_Cons s')
      done
  qed
qed


text \<open>
  Claim C1. On a well-formed store, \<^verbatim>\<open>consumeBacktestCredits\<close> with an amount that is
  not positive fails with the validation error and leaves the store as it is; with a
  positive amount it fails and leaves the store as it is when the account is absent or
  holds fewer credits than the amount; otherwise the one conditional update takes
  exactly the amount from the credits and puts the history entry first (keeping 50), and
  touches no other document. For every sequence of debits against an account, the final
  balance is the initial balance less the sum of the amounts of the debits that reported
  success, and from a balance that is not negative the balance after every call is not
  negative.
\<close>

theorem C1_consumeBacktestCredits:
  assumes "wf s"
  shows
    "(amount \<le> 0 \<longrightarrow>
        consumeBacktestCredits uid amount opts now s = (Inl (Error ''Amount must be > 0''), s))
   \<and> (0 < amount \<and> (getUser uid s = None \<or> (\<exists>d. getUser uid s = Some d \<and> credits d < amount)) \<longrightarrow>
        consumeBacktestCredits uid amount opts now s
          = (Inl (Error ''User not found or not enough credits''), s))
   \<and> (\<forall>d. 0 < amount \<and> getUser uid s = Some d \<and> amount \<le> credits d \<longrightarrow>
        consumeBacktestCredits uid amount opts now s =
          (Inr (d\<lparr>credits := credits d - amount,
                  creditHistory := take 50 (entryOf (amount, opts, now) # creditHistory d)\<rparr>),
           replaceDoc uid
             (d\<lparr>credits := credits d - amount,
                creditHistory := take 50 (entryOf (amount, opts, now) # creditHistory d)\<rparr>) s))
   \<and> (\<forall>d. getUser uid s = Some d \<longrightarrow>
        balance uid (finalStore s (debits uid ds s))
          = Some (credits d - sum_list (map fst (succeeded ds (debits uid ds s))))
        \<and> (0 \<le> credits d \<longrightarrow>
             list_all (\<lambda>p. \<exists>b. balance uid (snd p) = Some b \<and> 0 \<le> b) (debits uid ds s)))"
proof (intro conjI allI impI)
  assume "amount \<le> 0"
  then show "consumeBacktestCredits uid amount opts now s = (Inl (Error ''Amount must be > 0''), s)"
    by (rule consume_invalid)
next
  assume "0 < amount \<and> (getUser uid s = None \<or> (\<exists>d. getUser uid s = Some d \<and> credits d < amount))"
  then show "consumeBacktestCredits uid amount opts now s
          = (Inl (Error ''User not found or not enough credits''), s)"
    using consume_refused [OF assms] by blast
next
  fix d assume "0 < amount \<and> getUser uid s = Some d \<and> amount \<le> credits d"
  then show "consumeBacktestCredits uid amount opts now s =
          (Inr (d\<lparr>credits := credits d - amount,
                  creditHistory := take 50 (entryOf (amount, opts, now) # creditHistory d)\<rparr>),
           replaceDoc uid
             (d\<lparr>credits := credits d - amount,
                creditHistory := take 50 (entryOf (amount, opts, now) # creditHistory d)\<rparr>) s)"
    using consume_done [OF assms] by blast
next
  fix d assume g: "getUser uid s = Some d"
  from debits_ledger [OF assms g, of ds]
  show "balance uid (finalStore s (debits uid ds s))
          = Some (credits d - sum_list (map fst (succeeded ds (debits uid ds s))))"
    by (auto simp: balance_def)
next
  fix d assume g: "getUser uid s = Some d" and nn: "0 \<le> credits d"
  from debits_ledger [OF assms g, of ds]
  have "list_all (\<lambda>p. \<exists>x. getUser uid (snd p) = Some x \<and> (credits x = credits d \<or> 0 \<le> credits x))
           (debits uid ds s)"
    by blast
  with nn show "list_all (\<lambda>p. \<exists>b. balance uid (snd p) = Some b \<and> 0 \<le> b) (debits uid ds s)"
    by (auto simp: list_all_iff balance_def)
qed

theorem C1_consumeBacktestCredits_witness:
  "wf (run [CreateUser \<lparr>i_clerkId = ''u1'', i_email = ''a@x.io'', i_firstName = None,
          i_lastName = None, i_subscriptionTier = None, i_customerId = None, i_credits = None,
          i_username = None\<rparr>] [])
   \<and> fst (consumeBacktestCredits ''u1'' 0 \<lparr>o_coin = ''SOL'', o_strategy = ''rsi''\<rparr> 1
        (run [CreateUser \<lparr>i_clerkId = ''u1'', i_email = ''a@x.io'', i_firstName = None,
          i_lastName = None, i_subscriptionTier = None, i_customerId = None, i_credits = None,
          i_username = None\<rparr>] [])) = Inl (Error ''Amount must be > 0'')
   \<and> balance ''u1''
        (finalStore
          (run [CreateUser \<lparr>i_clerkId = ''u1'', i_email = ''a@x.io'', i_firstName = None,
            i_lastName = None, i_subscriptionTier = None, i_customerId = None, i_credits = None,
            i_username = None\<rparr>] [])
          (debits ''u1''
            [(4, \<lparr>o_coin = ''SOL'', o_strategy = ''rsi''\<rparr>, 1),
             (7, \<lparr>o_coin = ''BTC'', o_strategy = ''macd''\<rparr>, 2),
             (6, \<lparr>o_coin = ''ETH'', o_strategy = ''ema''\<rparr>, 3)]
            (run [CreateUser \<lparr>i_clerkId = ''u1'', i_email = ''a@x.io'', i_firstName = None,
              i_lastName = None, i_subscriptionTier = None, i_customerId = None, i_credits = None,
              i_username = None\<rparr>] []))) = Some 0"
proof -
  let ?s = "run [CreateUser \<lparr>i_clerkId = ''u1'', i_email = ''a@x.io'', i_firstName = None,
          i_lastName = None, i_subscriptionTier = None, i_customerId = None, i_credits = None,
          i_username = None\<rparr>] []"
  let ?ds = "[(4, \<lparr>o_coin = ''SOL'', o_strategy = ''rsi''\<rparr>, 1),
             (7, \<lparr>o_coin = ''BTC'', o_strategy = ''macd''\<rparr>, 2),
             (6, \<lparr>o_coin = ''ETH'', o_strategy = ''ema''\<rparr>, 3)] :: Debit list"
  have w: "wf ?s" by (rule wf_run [OF wf_empty])
  have g: "getUser ''u1'' ?s = Some ((schemaDefaults ''u1'')\<lparr>email := Some ''a@x.io''\<rparr>)"
    by code_simp
  have sm: "sum_list (map fst (succeeded ?ds (debits ''u1'' ?ds ?s))) = 10"
    by code_simp
  note c1 = C1_consumeBacktestCredits [OF w, of 0 "''u1''" "\<lparr>o_coin = ''SOL'', o_strategy = ''rsi''\<rparr>" 1 ?ds]
  from c1 have a: "consumeBacktestCredits ''u1'' 0 \<lparr>o_coin = ''SOL'', o_strategy = ''rsi''\<rparr> 1 ?s
      = (Inl (Error ''Amount must be > 0''), ?s)"
    by simp
  from c1 g have b: "balance ''u1'' (finalStore ?s (debits ''u1'' ?ds ?s))
      = Some (credits ((schemaDefaults ''u1'')\<lparr>email := Some ''a@x.io''\<rparr>)
               - sum_list (map fst (succeeded ?ds (debits ''u1'' ?ds ?s))))"
    by blast
  have c: "credits ((schemaDefaults ''u1'')\<lparr>email := Some ''a@x.io''\<rparr>) = 10"
    by (simp add: schemaDefaults_def)
  show ?thesis using w a b unfolding sm c by simp
qed

section \<open>Invariants of every document\<close>

lemma writeAt_pres:
  assumes "\<forall>d\<in>set s. P d" and "P d'"
  shows "\<forall>d\<in>set (snd (writeAt pos d' s)). P d"
proof (cases pos)
  case None
  with assms show ?thesis by (auto simp: writeAt_def split: option.splits)
next
  case (Some i)
  have "set (s[i := d']) \<subseteq> insert d' (set s)" by (rule set_update_subset_insert)
  with assms Some show ?thesis by (auto simp: writeAt_def split: option.splits)
qed

lemma findOneAndUpdate_pres:
  assumes a: "\<forall>d\<in>set s. P d" and u: "\<And>d. flt d \<Longrightarrow> P d \<Longrightarrow> P (upd d)"
  shows "\<forall>d\<in>set (snd (findOneAndUpdate flt upd s)). P d"
proof (cases "findIndex flt s")
  case None
  with a show ?thesis by (simp add: findOneAndUpdate_def)
next
  case (Some i)
  from findIndex_Some [OF Some] have i: "i < length s" "flt (s ! i)" by auto
  then have "P (upd (s ! i))" using a u by auto
  from writeAt_pres [OF a this, of "Some i"] Some show ?thesis
    by (auto simp: findOneAndUpdate_def split: prod.splits sum.splits)
qed

lemma findOneAndUpsert_pres:
  assumes a: "\<forall>d\<in>set s. P d" and u: "\<And>d. flt d \<Longrightarrow> P d \<Longrightarrow> P (upd d)" and n: "P ins"
  shows "\<forall>d\<in>set (snd (findOneAndUpsert flt upd ins s)). P d"
proof (cases "findIndex flt s")
  case None
  with writeAt_pres [OF a n, of None] show ?thesis by (simp add: findOneAndUpsert_def)
next
  case (Some i)
  from findIndex_Some [OF Some] have i: "i < length s" "flt (s ! i)" by auto
  then have "P (upd (s ! i))" using a u by auto
  from writeAt_pres [OF a this, of "Some i"] Some show ?thesis
    by (simp add: findOneAndUpsert_def)
qed

text \<open>
  An invariant of every document is kept by every operation that keeps it in the
  document it writes.
\<close>

lemma createUserSet_credits: "credits (createUserSet user d) = credits d"
  by (simp add: createUserSet_def Let_def split: option.splits)

lemma createUserSet_creditHistory: "creditHistory (createUserSet user d) = creditHistory d"
  by (simp add: createUserSet_def Let_def split: option.splits)

lemma exec_pres:
  assumes a: "\<forall>d\<in>set s. P d"
    and same: "\<And>d d'. P d \<Longrightarrow> credits d' = credits d \<Longrightarrow> creditHistory d' = creditHistory d \<Longrightarrow> P d'"
    and ins: "\<And>user. op = CreateUser user \<Longrightarrow> P (createUserSet user (createUserOnInsert user))"
    and add: "\<And>d amount. 0 < amount \<Longrightarrow> P d \<Longrightarrow> P (d\<lparr>credits := credits d + amount\<rparr>)"
    and sub: "\<And>d amount e. 0 < amount \<Longrightarrow> amount \<le> credits d \<Longrightarrow> P d \<Longrightarrow>
        P (d\<lparr>credits := credits d - amount, creditHistory := take 50 (e # creditHistory d)\<rparr>)"
  shows "\<forall>d\<in>set (exec op s). P d"
proof (cases op)
  case (CreateUser user)
  have "\<forall>d\<in>set (snd (findOneAndUpsert (\<lambda>d. clerkId d = i_clerkId user) (createUserSet user)
       (createUserSet user (createUserOnInsert user)) s)). P d"
    by (rule findOneAndUpsert_pres [OF a])
      (auto intro: same ins [OF CreateUser] simp: createUserSet_credits createUserSet_creditHistory)
  then show ?thesis by (simp add: CreateUser createUser_def)
next
  case (AddCredits userId amount)
  show ?thesis
  proof (cases "amount \<le> 0")
    case True
    with a show ?thesis by (simp add: AddCredits addCredits_def)
  next
    case False
    have "\<forall>d\<in>set (snd (findOneAndUpdate (\<lambda>d. clerkId d = userId)
        (\<lambda>d. d\<lparr>credits := credits d + amount\<rparr>) s)). P d"
      by (rule findOneAndUpdate_pres [OF a]) (use False add in auto)
    then show ?thesis using False
      by (auto simp: AddCredits addCredits_def split: prod.splits sum.splits option.splits)
  qed
next
  case (ConsumeBacktestCredits userId amount opts now)
  show ?thesis
  proof (cases "amount \<le> 0")
    case True
    with a show ?thesis by (simp add: ConsumeBacktestCredits consumeBacktestCredits_def)
  next
    case False
    let ?e = "\<lparr>coin = o_coin opts, strategy = o_strategy opts, creditsUsed = amount, timestamp = now\<rparr>"
    have "\<forall>d\<in>set (snd (findOneAndUpdate (\<lambda>d. clerkId d = userId \<and> amount \<le> credits d)
           (\<lambda>d. d\<lparr>credits := credits d - amount, creditHistory := take 50 (?e # creditHistory d)\<rparr>) s)). P d"
      by (rule findOneAndUpdate_pres [OF a]) (use False sub in auto)
    then show ?thesis using False
      by (auto simp: ConsumeBacktestCredits consumeBacktestCredits_def Let_def
          split: prod.splits sum.splits option.splits)
  qed
next
  case (SetUsername cid desiredRaw)
  have "\<forall>d\<in>set (snd (findOneAndUpdate (\<lambda>d. clerkId d = cid)
      (\<lambda>d. d\<lparr>username := Some (trim desiredRaw), usernameLower := Some (toLowerCase (trim desiredRaw))\<rparr>) s)). P d"
    by (rule findOneAndUpdate_pres [OF a]) (auto intro: same)
  with a show ?thesis
    by (auto simp: SetUsername setUsername_def Let_def split: prod.splits sum.splits option.splits)
next
  case (SetSolanaWallet cid addressRaw)
  have "\<forall>d\<in>set (snd (findOneAndUpdate (\<lambda>d. clerkId d = cid)
      (\<lambda>d. d\<lparr>solanaWallet := trim addressRaw\<rparr>) s)). P d"
    by (rule findOneAndUpdate_pres [OF a]) (auto intro: same)
  with a show ?thesis
    by (auto simp: SetSolanaWallet setSolanaWallet_def Let_def split: prod.splits sum.splits option.splits)
next
  case (ClearSolanaWallet cid)
  have "\<forall>d\<in>set (snd (findOneAndUpdate (\<lambda>d. clerkId d = cid) (\<lambda>d. d\<lparr>solanaWallet := ''''\<rparr>) s)). P d"
    by (rule findOneAndUpdate_pres [OF a]) (auto intro: same)
  then show ?thesis
    by (auto simp: ClearSolanaWallet clearSolanaWallet_def split: prod.splits sum.splits option.splits)
next
  case (UpdateUserTopCoins userId coins)
  have "\<forall>d\<in>set (snd (findOneAndUpdate (\<lambda>d. clerkId d = userId) (\<lambda>d. d\<lparr>topCoins := coins\<rparr>) s)). P d"
    by (rule findOneAndUpdate_pres [OF a]) (auto intro: same)
  with a show ?thesis
    by (auto simp: UpdateUserTopCoins updateUserTopCoins_def split: prod.splits sum.splits option.splits)
qed

lemma credits_exec:
  assumes "\<forall>d\<in>set s. 0 \<le> credits d" and "nonNegInit op"
  shows "\<forall>d\<in>set (exec op s). 0 \<le> credits d"
proof (rule exec_pres [OF assms(1)])
  fix user assume "op = CreateUser user"
  with assms(2) show "0 \<le> credits (createUserSet user (createUserOnInsert user))"
    by (auto simp: nonNegInit_def createUserSet_credits createUserOnInsert_def schemaDefaults_def
        split: option.splits)
qed auto

lemma credits_run:
  "\<forall>d\<in>set s. 0 \<le> credits d \<Longrightarrow> list_all nonNegInit ops \<Longrightarrow> \<forall>d\<in>set (run ops s). 0 \<le> credits d"
proof (induction ops arbitrary: s)
  case Nil
  then show ?case by simp
next
  case (Cons op ops)
  from Cons.prems have "\<forall>d\<in>set (exec op s). 0 \<le> credits d" "list_all nonNegInit ops"
    using credits_exec [of s op] by auto
  from Cons.IH [OF this] show ?case by simp
qed

lemma history_exec:
  assumes "\<forall>d\<in>set s. length (creditHistory d) \<le> 50"
  shows "\<forall>d\<in>set (exec op s). length (creditHistory d) \<le> 50"
proof (rule exec_pres [OF assms(1)])
  fix user
  show "length (creditHistory (createUserSet user (createUserOnInsert user))) \<le> 50"
    by (simp add: createUserSet_creditHistory createUserOnInsert_def schemaDefaults_def)
qed auto

lemma history_run:
  "\<forall>d\<in>set s. length (creditHistory d) \<le> 50 \<Longrightarrow> \<forall>d\<in>set (run ops s). length (creditHistory d) \<le> 50"
proof (induction ops arbitrary: s)
  case Nil
  then show ?case by simp
next
  case (Cons op ops)
  from Cons.IH [OF history_exec [OF Cons.prems]] show ?case by simp
qed

lemma createUser_insert:
  assumes "getUser (i_clerkId user) s = None"
  shows "createUser user s =
     (case dupKey (createUserSet user (createUserOnInsert user)) s of
        Some k \<Rightarrow> (Inl (MongoServerError 11000 k), s)
      | None \<Rightarrow> (Inr (createUserSet user (createUserOnInsert user)),
                 s @ [createUserSet user (createUserOnInsert user)]))"
  unfolding createUser_def by (rule findOneAndUpsert_miss [OF assms])

lemma createUser_update:
  assumes "wf s" and "getUser (i_clerkId user) s = Some d"
  shows "createUser user s =
     (case dupKey (createUserSet user d) (others (i_clerkId user) s) of
        Some k \<Rightarrow> (Inl (MongoServerError 11000 k), s)
      | None \<Rightarrow> (Inr (createUserSet user d), replaceDoc (i_clerkId user) (createUserSet user d) s))"
  unfolding createUser_def by (rule findOneAndUpsert_hit [OF wf_distinct [OF assms(1)] assms(2)])

lemma clerkId_createUserOnInsert: "clerkId (createUserOnInsert user) = i_clerkId user"
  by (simp add: createUserOnInsert_def schemaDefaults_def)

text \<open>
  Claim C2, amended. Through the operations \<^verbatim>\<open>createUser\<close>, \<^verbatim>\<open>addCredits\<close>,
  \<^verbatim>\<open>consumeBacktestCredits\<close>, \<^verbatim>\<open>setUsername\<close>, \<^verbatim>\<open>setSolanaWallet\<close>,
  \<^verbatim>\<open>clearSolanaWallet\<close> and \<^verbatim>\<open>updateUserTopCoins\<close>, from a store in which no account has
  negative credits (the empty store is one), no account ever has negative credits,
  provided every \<^verbatim>\<open>createUser\<close> call gives no \<^verbatim>\<open>credits\<close> or credits that are not
  negative; and an account created without \<^verbatim>\<open>credits\<close> starts with 10. The credits are
  whole numbers by the model's type.
\<close>

theorem C2_credits_never_negative:
  "((\<forall>d\<in>set s. 0 \<le> credits d) \<and> list_all nonNegInit ops \<longrightarrow> (\<forall>d\<in>set (run ops s). 0 \<le> credits d))
   \<and> (getUser (i_clerkId user) s = None \<and> i_credits user = None \<and> isOK (fst (createUser user s)) \<longrightarrow>
        balance (i_clerkId user) (snd (createUser user s)) = Some 10)"
proof (intro conjI impI)
  assume "(\<forall>d\<in>set s. 0 \<le> credits d) \<and> list_all nonNegInit ops"
  then show "\<forall>d\<in>set (run ops s). 0 \<le> credits d"
    using credits_run [of s ops] by blast
next
  assume a: "getUser (i_clerkId user) s = None \<and> i_credits user = None \<and> isOK (fst (createUser user s))"
  let ?ins = "createUserSet user (createUserOnInsert user)"
  have k: "dupKey ?ins s = None"
    using a createUser_insert [of user s] by (auto simp: isOK_def split: option.splits)
  then have s': "snd (createUser user s) = s @ [?ins]"
    using a createUser_insert [of user s] by simp
  have c: "credits ?ins = 10" "clerkId ?ins = i_clerkId user"
    using a by (simp_all add: createUserSet_credits createUserSet_clerkId createUserOnInsert_def
        schemaDefaults_def)
  show "balance (i_clerkId user) (snd (createUser user s)) = Some 10"
    using a c by (simp add: balance_def s' getUser_append)
qed

theorem C2_credits_never_negative_witness:
  "list_all nonNegInit
     [CreateUser \<lparr>i_clerkId = ''u1'', i_email = ''a@x.io'', i_firstName = None, i_lastName = None,
        i_subscriptionTier = None, i_customerId = None, i_credits = None, i_username = None\<rparr>,
      AddCredits ''u1'' 5,
      ConsumeBacktestCredits ''u1'' 20 \<lparr>o_coin = ''SOL'', o_strategy = ''rsi''\<rparr> 1,
      ConsumeBacktestCredits ''u1'' 15 \<lparr>o_coin = ''SOL'', o_strategy = ''rsi''\<rparr> 2]
   \<and> list_all (\<lambda>d. 0 \<le> credits d)
       (run
         [CreateUser \<lparr>i_clerkId = ''u1'', i_email = ''a@x.io'', i_firstName = None, i_lastName = None,
            i_subscriptionTier = None, i_customerId = None, i_credits = None, i_username = None\<rparr>,
          AddCredits ''u1'' 5,
          ConsumeBacktestCredits ''u1'' 20 \<lparr>o_coin = ''SOL'', o_strategy = ''rsi''\<rparr> 1,
          ConsumeBacktestCredits ''u1'' 15 \<lparr>o_coin = ''SOL'', o_strategy = ''rsi''\<rparr> 2] [])
   \<and> balance ''u1''
       (snd (createUser \<lparr>i_clerkId = ''u1'', i_email = ''a@x.io'', i_firstName = None, i_lastName = None,
          i_subscriptionTier = None, i_customerId = None, i_credits = None, i_username = None\<rparr> []))
       = Some 10"
proof -
  let ?u = "\<lparr>i_clerkId = ''u1'', i_email = ''a@x.io'', i_firstName = None, i_lastName = None,
        i_subscriptionTier = None, i_customerId = None, i_credits = None, i_username = None\<rparr>"
  let ?ops = "[CreateUser ?u, AddCredits ''u1'' 5,
      ConsumeBacktestCredits ''u1'' 20 \<lparr>o_coin = ''SOL'', o_strategy = ''rsi''\<rparr> 1,
      ConsumeBacktestCredits ''u1'' 15 \<lparr>o_coin = ''SOL'', o_strategy = ''rsi''\<rparr> 2]"
  have n: "list_all nonNegInit ?ops" by (simp add: nonNegInit_def)
  have e: "\<forall>d\<in>set ([] :: User list). 0 \<le> credits d" by simp
  have g: "getUser (i_clerkId ?u) [] = None" by (simp add: getUser_def findOne_def)
  have o: "isOK (fst (createUser ?u []))" by code_simp
  note c2 = C2_credits_never_negative [of "[]" ?ops ?u]
  from c2 n e have "\<forall>d\<in>set (run ?ops []). 0 \<le> credits d" by blast
  then have a: "list_all (\<lambda>d. 0 \<le> credits d) (run ?ops [])" by (simp add: list_all_iff)
  from c2 g o have b: "balance ''u1'' (snd (createUser ?u [])) = Some 10" by simp
  show ?thesis using n a b by blast
qed

theorem C2_counterexample:
  "map credits
     (run [CreateUser \<lparr>i_clerkId = ''u1'', i_email = ''a@x.io'', i_firstName = None,
             i_lastName = None, i_subscriptionTier = None, i_customerId = None,
             i_credits = Some (- 5), i_username = None\<rparr>] []) = [- 5]"
  by code_simp

lemma history_createUser:
  assumes "\<forall>d\<in>set s. length (creditHistory d) \<le> 50"
  shows "\<forall>d\<in>set (snd (createUser user s)). length (creditHistory d) \<le> 50"
  using history_exec [OF assms, of "CreateUser user"] by simp

lemma history_createUserOrRetry:
  assumes a: "\<forall>d\<in>set s. length (creditHistory d) \<le> 50"
  shows "\<forall>d\<in>set (snd (createUserOrRetry base mu s)). length (creditHistory d) \<le> 50"
proof -
  obtain r s' where r: "createUser (base\<lparr>i_username := mu\<rparr>) s = (r, s')"
    by (cases "createUser (base\<lparr>i_username := mu\<rparr>) s") auto
  have s': "\<forall>d\<in>set s'. length (creditHistory d) \<le> 50"
    using history_createUser [OF a, of "base\<lparr>i_username := mu\<rparr>"] r by simp
  show ?thesis
    using s' history_createUser [OF s', of base]
    by (cases r) (simp_all add: createUserOrRetry_def r)
qed

lemma snd_case_result:
  "snd (case p of (Inl e, s') \<Rightarrow> (f e, s') | (Inr u, s') \<Rightarrow> (g u, s')) = snd p"
  by (cases p; cases "fst p") auto

lemma snd_POST:
  "snd (POST secret req now s) = s
   \<or> (\<exists>base mu. snd (POST secret req now s) = snd (createUserOrRetry base mu s))
   \<or> (\<exists>cid. snd (POST secret req now s)
         = snd (findOneAndUpdate (\<lambda>d. clerkId d = cid) (\<lambda>d. d\<lparr>deletedAt := Some now\<rparr>) s))"
  unfolding POST_def Let_def
  by (simp add: snd_case_result split: option.splits) blast

lemma history_POST:
  assumes a: "\<forall>d\<in>set s. length (creditHistory d) \<le> 50"
  shows "\<forall>d\<in>set (snd (POST secret req now s)). length (creditHistory d) \<le> 50"
proof -
  have del: "\<And>c. \<forall>d\<in>set (snd (findOneAndUpdate (\<lambda>d. clerkId d = c) (\<lambda>d. d\<lparr>deletedAt := Some now\<rparr>) s)).
      length (creditHistory d) \<le> 50"
    by (rule findOneAndUpdate_pres [OF a]) simp
  from snd_POST [of secret req now s]
  consider "snd (POST secret req now s) = s"
    | base mu where "snd (POST secret req now s) = snd (createUserOrRetry base mu s)"
    | cid where "snd (POST secret req now s)
         = snd (findOneAndUpdate (\<lambda>d. clerkId d = cid) (\<lambda>d. d\<lparr>deletedAt := Some now\<rparr>) s)"
    by blast
  then show ?thesis
  proof cases
    case 1
    with a show ?thesis by simp
  next
    case 2
    with history_createUserOrRetry [OF a, of base mu] show ?thesis by simp
  next
    case 3
    with del [of cid] show ?thesis by simp
  qed
qed

lemma findOrCreateCustomer_db: "db (snd (findOrCreateCustomer em newCustomerId w)) = db w"
  by (simp add: findOrCreateCustomer_def Let_def split: option.splits)

lemma db_subscribe:
  "db (snd (subscribe userId em priceId newCustomerId sessionUrl w)) = db w
   \<or> (\<exists>cid. db (snd (subscribe userId em priceId newCustomerId sessionUrl w))
        = snd (findOneAndUpsert (\<lambda>d. clerkId d = userId) (\<lambda>d. d\<lparr>customerId := cid\<rparr>)
                  ((schemaDefaults userId)\<lparr>customerId := cid\<rparr>) (db w)))"
proof -
  let ?cid = "fst (findOrCreateCustomer em newCustomerId w)"
  obtain r s' where r: "findOneAndUpsert (\<lambda>d. clerkId d = userId) (\<lambda>d. d\<lparr>customerId := ?cid\<rparr>)
                  ((schemaDefaults userId)\<lparr>customerId := ?cid\<rparr>) (db w) = (r, s')"
    by (cases "findOneAndUpsert (\<lambda>d. clerkId d = userId) (\<lambda>d. d\<lparr>customerId := ?cid\<rparr>)
                  ((schemaDefaults userId)\<lparr>customerId := ?cid\<rparr>) (db w)") auto
  have "db (snd (subscribe userId em priceId newCustomerId sessionUrl w)) = db w
      \<or> db (snd (subscribe userId em priceId newCustomerId sessionUrl w)) = s'"
    using r unfolding subscribe_def Let_def
    by (cases r) (simp_all add: findOrCreateCustomer_db split: if_splits)
  with r show ?thesis by (metis snd_conv)
qed

lemma history_subscribe:
  assumes a: "\<forall>d\<in>set (db w). length (creditHistory d) \<le> 50"
  shows "\<forall>d\<in>set (db (snd (subscribe userId em priceId newCustomerId sessionUrl w))).
      length (creditHistory d) \<le> 50"
proof -
  have u: "\<And>cid. \<forall>d\<in>set (snd (findOneAndUpsert (\<lambda>d. clerkId d = userId) (\<lambda>d. d\<lparr>customerId := cid\<rparr>)
                  ((schemaDefaults userId)\<lparr>customerId := cid\<rparr>) (db w))). length (creditHistory d) \<le> 50"
    by (rule findOneAndUpsert_pres [OF a]) (simp_all add: schemaDefaults_def)
  from db_subscribe [of userId em priceId newCustomerId sessionUrl w] a u
  show ?thesis by metis
qed


text \<open>
  Claim C3. Every operation on the store (the user actions, the webhook handler and
  \<^verbatim>\<open>subscribe\<close>) keeps every account's \<^verbatim>\<open>creditHistory\<close> at 50 entries or fewer, so it
  holds in every state reached from the empty store. After a sequence of debits the
  history of the account is the entries of the successful debits, newest first, in front
  of the earlier history, cut to 50; so after 51 successful debits it is exactly the
  entries of the last 50 of them, newest first, and the oldest is gone.
\<close>

theorem C3_creditHistory_capped:
  "((\<forall>d\<in>set s. length (creditHistory d) \<le> 50) \<longrightarrow>
       (\<forall>d\<in>set (run ops s). length (creditHistory d) \<le> 50)
     \<and> (\<forall>d\<in>set (snd (POST secret req now s)). length (creditHistory d) \<le> 50))
   \<and> ((\<forall>d\<in>set (db w). length (creditHistory d) \<le> 50) \<longrightarrow>
       (\<forall>d\<in>set (db (snd (subscribe userId em priceId newCustomerId sessionUrl w))).
          length (creditHistory d) \<le> 50))
   \<and> (wf s \<and> getUser uid s = Some acct \<and> length (creditHistory acct) \<le> 50 \<longrightarrow>
       (\<exists>acct'. getUser uid (finalStore s (debits uid ds s)) = Some acct'
          \<and> creditHistory acct'
              = take 50 (rev (map entryOf (succeeded ds (debits uid ds s))) @ creditHistory acct)
          \<and> (length (succeeded ds (debits uid ds s)) = 51 \<longrightarrow>
               creditHistory acct' = rev (map entryOf (tl (succeeded ds (debits uid ds s)))))))"
proof (intro conjI impI)
  assume "\<forall>d\<in>set s. length (creditHistory d) \<le> 50"
  then show "\<forall>d\<in>set (run ops s). length (creditHistory d) \<le> 50" by (rule history_run)
next
  assume "\<forall>d\<in>set s. length (creditHistory d) \<le> 50"
  then show "\<forall>d\<in>set (snd (POST secret req now s)). length (creditHistory d) \<le> 50"
    by (rule history_POST)
next
  assume "\<forall>d\<in>set (db w). length (creditHistory d) \<le> 50"
  then show "\<forall>d\<in>set (db (snd (subscribe userId em priceId newCustomerId sessionUrl w))).
          length (creditHistory d) \<le> 50"
    by (rule history_subscribe)
next
  assume a: "wf s \<and> getUser uid s = Some acct \<and> length (creditHistory acct) \<le> 50"
  let ?es = "map entryOf (succeeded ds (debits uid ds s))"
  from a debits_ledger [of s uid acct ds] obtain acct' where
    g: "getUser uid (finalStore s (debits uid ds s)) = Some acct'"
    and h: "creditHistory acct' = take 50 (rev ?es @ creditHistory acct)"
    by blast
  have "creditHistory acct' = rev (map entryOf (tl (succeeded ds (debits uid ds s))))"
    if l: "length (succeeded ds (debits uid ds s)) = 51"
  proof -
    have "take 50 (rev ?es @ creditHistory acct) = take 50 (rev ?es)"
      using l by simp
    also have "\<dots> = rev (drop 1 ?es)"
      using l by (simp add: take_rev)
    also have "\<dots> = rev (map entryOf (tl (succeeded ds (debits uid ds s))))"
      by (simp add: drop_Suc map_tl)
    finally show ?thesis using h by simp
  qed
  with g h show "\<exists>acct'. getUser uid (finalStore s (debits uid ds s)) = Some acct'
          \<and> creditHistory acct'
              = take 50 (rev (map entryOf (succeeded ds (debits uid ds s))) @ creditHistory acct)
          \<and> (length (succeeded ds (debits uid ds s)) = 51 \<longrightarrow>
               creditHistory acct' = rev (map entryOf (tl (succeeded ds (debits uid ds s)))))"
    by blast
qed

theorem C3_creditHistory_capped_witness:
  "list_all (\<lambda>d. length (creditHistory d) \<le> 50)
     (run [CreateUser \<lparr>i_clerkId = ''u1'', i_email = ''a@x.io'', i_firstName = None,
             i_lastName = None, i_subscriptionTier = None, i_customerId = None,
             i_credits = Some 60, i_username = None\<rparr>,
           ConsumeBacktestCredits ''u1'' 2 \<lparr>o_coin = ''SOL'', o_strategy = ''rsi''\<rparr> 1] [])
   \<and> (\<exists>acct'.
        getUser ''u1''
          (finalStore
            (run [CreateUser \<lparr>i_clerkId = ''u1'', i_email = ''a@x.io'', i_firstName = None,
                    i_lastName = None, i_subscriptionTier = None, i_customerId = None,
                    i_credits = Some 60, i_username = None\<rparr>] [])
            (debits ''u1'' (map (\<lambda>n. (1, \<lparr>o_coin = ''SOL'', o_strategy = ''rsi''\<rparr>, n)) [1..<52])
              (run [CreateUser \<lparr>i_clerkId = ''u1'', i_email = ''a@x.io'', i_firstName = None,
                      i_lastName = None, i_subscriptionTier = None, i_customerId = None,
                      i_credits = Some 60, i_username = None\<rparr>] []))) = Some acct'
        \<and> map timestamp (creditHistory acct') = rev [2..<52])"
proof -
  let ?u = "\<lparr>i_clerkId = ''u1'', i_email = ''a@x.io'', i_firstName = None,
             i_lastName = None, i_subscriptionTier = None, i_customerId = None,
             i_credits = Some 60, i_username = None\<rparr>"
  let ?s = "run [CreateUser ?u] []"
  let ?ops = "[CreateUser ?u, ConsumeBacktestCredits ''u1'' 2 \<lparr>o_coin = ''SOL'', o_strategy = ''rsi''\<rparr> 1]"
  let ?ds = "map (\<lambda>n. (1, \<lparr>o_coin = ''SOL'', o_strategy = ''rsi''\<rparr>, n)) [1..<52] :: Debit list"
  let ?acct = "(schemaDefaults ''u1'')\<lparr>email := Some ''a@x.io'', credits := 60\<rparr>"
  have w: "wf ?s" by (rule wf_run [OF wf_empty])
  have g: "getUser ''u1'' ?s = Some ?acct" by code_simp
  have l: "length (creditHistory ?acct) \<le> 50" by (simp add: schemaDefaults_def)
  have su: "succeeded ?ds (debits ''u1'' ?ds ?s) = ?ds" by code_simp
  have e: "\<forall>d\<in>set ([] :: User list). length (creditHistory d) \<le> 50" by simp
  note c3 = C3_creditHistory_capped
  from c3 [of "[]" ?ops] e
  have "\<forall>d\<in>set (run ?ops []). length (creditHistory d) \<le> 50" by blast
  then have a: "list_all (\<lambda>d. length (creditHistory d) \<le> 50) (run ?ops [])"
    by (simp add: list_all_iff)
  from c3 [of ?s _ _ _ _ _ _ _ _ _ _ "''u1''" ?acct ?ds] w g l
  obtain acct' where
    g': "getUser ''u1'' (finalStore ?s (debits ''u1'' ?ds ?s)) = Some acct'"
    and h: "length (succeeded ?ds (debits ''u1'' ?ds ?s)) = 51 \<longrightarrow>
               creditHistory acct' = rev (map entryOf (tl (succeeded ?ds (debits ''u1'' ?ds ?s))))"
    by blast
  have "length ?ds = 51" by simp
  with h have "creditHistory acct' = rev (map entryOf (tl ?ds))" unfolding su by blast
  moreover have "map timestamp (rev (map entryOf (tl ?ds))) = rev [2..<52]" by code_simp
  ultimately have "map timestamp (creditHistory acct') = rev [2..<52]" by simp
  with a g' show ?thesis by blast
qed

section \<open>Usernames\<close>

lemma toLowerChar_az:
  assumes "97 \<le> (of_char (toLowerChar c) :: nat)" and "(of_char (toLowerChar c) :: nat) \<le> 122"
  shows "wordChar c"
proof -
  let ?n = "of_char c :: nat"
  have n: "?n < 256" by (rule nat_of_char_less_256)
  show ?thesis
  proof (cases "(65 \<le> ?n \<and> ?n \<le> 90) \<or> (192 \<le> ?n \<and> ?n \<le> 222 \<and> ?n \<noteq> 215)")
    case True
    then have "toLowerChar c = char_of (?n + 32)" by (simp add: toLowerChar_def Let_def)
    then have "(of_char (toLowerChar c) :: nat) = (?n + 32) mod 256" by simp
    with True assms n have "65 \<le> ?n \<and> ?n \<le> 90" by auto
    then show ?thesis by (simp add: wordChar_def Let_def)
  next
    case False
    then have "toLowerChar c = c" by (auto simp: toLowerChar_def Let_def)
    with assms show ?thesis by (simp add: wordChar_def Let_def)
  qed
qed

lemma RESERVED_az:
  "w \<in> set RESERVED \<Longrightarrow>
     list_all (\<lambda>c. 97 \<le> (of_char c :: nat) \<and> (of_char c :: nat) \<le> 122) w
     \<and> length w \<le> 20 \<and> (w = ''me'' \<or> 3 \<le> length w)"
  unfolding RESERVED_def by auto

lemma reserved_matches_format:
  assumes r: "toLowerCase t \<in> set RESERVED" and m: "toLowerCase t \<noteq> ''me''"
  shows "USERNAME_RE t"
proof -
  from RESERVED_az [OF r] m have
    az: "list_all (\<lambda>c. 97 \<le> (of_char c :: nat) \<and> (of_char c :: nat) \<le> 122) (toLowerCase t)"
    and len: "3 \<le> length (toLowerCase t)" "length (toLowerCase t) \<le> 20"
    by auto
  have "list_all wordChar t"
    using az by (auto simp: toLowerCase_def list_all_iff intro: toLowerChar_az)
  with len show ?thesis by (simp add: USERNAME_RE_def toLowerCase_def)
qed

lemma me_fails_format: "toLowerCase t = ''me'' \<Longrightarrow> \<not> USERNAME_RE t"
proof -
  assume "toLowerCase t = ''me''"
  then have "length (toLowerCase t) = 2" by simp
  then show ?thesis by (simp add: USERNAME_RE_def toLowerCase_def)
qed

lemma usernameLower_of_username:
  assumes w: "wf s" and o: "Some u \<in> username ` set (others cid s)"
  shows "Some (toLowerCase u) \<in> usernameLower ` set (others cid s)"
proof -
  from o obtain x where x: "x \<in> set (others cid s)" "username x = Some u" by (auto simp: image_iff)
  then have "x \<in> set s" by (simp add: others_def)
  with w have "usernameLower x = map_option toLowerCase (username x)" by (simp add: wf_def)
  with x show ?thesis by (force simp: image_iff)
qed

lemma setUsername_wf:
  assumes w: "wf s" and g: "getUser cid s = Some d"
    and f: "USERNAME_RE (trim x)" and r: "toLowerCase (trim x) \<notin> set RESERVED"
  shows "setUsername cid x s =
     (if Some (toLowerCase (trim x)) \<in> usernameLower ` set (others cid s)
      then (Inl (Error ''That username is taken.''), s)
      else (Inr (d\<lparr>username := Some (trim x), usernameLower := Some (toLowerCase (trim x))\<rparr>),
            replaceDoc cid (d\<lparr>username := Some (trim x), usernameLower := Some (toLowerCase (trim x))\<rparr>) s))"
proof -
  let ?d' = "d\<lparr>username := Some (trim x), usernameLower := Some (toLowerCase (trim x))\<rparr>"
  from wf_own_keys [OF w g] have own: "clerkId d \<notin> clerkId ` set (others cid s)"
    "email d \<notin> email ` set (others cid s)" "solanaWallet d \<notin> solanaWallet ` set (others cid s)"
    by (simp_all add: dupKey_None_iff)
  have k: "dupKey ?d' (others cid s) =
      (if Some (trim x) \<in> username ` set (others cid s) then Some ''username''
       else if Some (toLowerCase (trim x)) \<in> usernameLower ` set (others cid s) then Some ''usernameLower''
       else None)"
    using own by (simp add: dupKey_def)
  have u: "findOneAndUpdate (\<lambda>d. clerkId d = cid)
      (\<lambda>d. d\<lparr>username := Some (trim x), usernameLower := Some (toLowerCase (trim x))\<rparr>) s =
     (case dupKey ?d' (others cid s) of
        Some k \<Rightarrow> (Inl (MongoServerError 11000 k), s)
      | None \<Rightarrow> (Inr (Some ?d'), replaceDoc cid ?d' s))"
    using findOneAndUpdate_hit [where Q = "\<lambda>x. True", OF wf_distinct [OF w] g] by simp
  show ?thesis
    using f r usernameLower_of_username [OF w, of "trim x" cid]
    by (auto simp: setUsername_def Let_def u k usernameDup_def)
qed

lemma held_by_other:
  "wf s \<Longrightarrow> (Some l \<in> usernameLower ` set (others cid s))
     = (\<exists>y\<in>set s. clerkId y \<noteq> cid \<and> usernameLower y = Some l)"
  by (auto simp: others_def image_iff)

text \<open>
  Claim C4. For an existing account on a well-formed store, \<^verbatim>\<open>setUsername\<close> checks in this
  order and changes nothing when it fails: an input whose trimmed form does not match
  the format of 3 to 20 word characters fails with the format error; one whose
  lower-cased form is a reserved word fails with the reserved-word error, whatever its
  casing (the reserved word of two characters, \<open>me\<close>, never gets that far: the format
  rule rejects it); one whose lower-cased form is the \<^verbatim>\<open>usernameLower\<close> of another account
  fails with the "taken" error; every other input sets \<^verbatim>\<open>username\<close> to the trimmed
  input, case kept, and \<^verbatim>\<open>usernameLower\<close> to its lower-cased form, in one update of the
  caller's document alone.
\<close>

theorem C4_setUsername:
  assumes "wf s" and "getUser cid s = Some acct"
  shows
    "(\<not> USERNAME_RE (trim x) \<longrightarrow>
        setUsername cid x s
          = (Inl (Error ''Username must be 3-20 chars (letters, numbers, underscore).''), s))
   \<and> (toLowerCase (trim x) \<in> set RESERVED \<longrightarrow>
        setUsername cid x s
          = (Inl (Error (if toLowerCase (trim x) = ''me''
                         then ''Username must be 3-20 chars (letters, numbers, underscore).''
                         else ''That username is reserved.'')), s))
   \<and> (USERNAME_RE (trim x) \<and> toLowerCase (trim x) \<notin> set RESERVED
        \<and> (\<exists>y\<in>set s. clerkId y \<noteq> cid \<and> usernameLower y = Some (toLowerCase (trim x))) \<longrightarrow>
        setUsername cid x s = (Inl (Error ''That username is taken.''), s))
   \<and> (USERNAME_RE (trim x) \<and> toLowerCase (trim x) \<notin> set RESERVED
        \<and> \<not> (\<exists>y\<in>set s. clerkId y \<noteq> cid \<and> usernameLower y = Some (toLowerCase (trim x))) \<longrightarrow>
        setUsername cid x s =
          (Inr (acct\<lparr>username := Some (trim x), usernameLower := Some (toLowerCase (trim x))\<rparr>),
           replaceDoc cid
             (acct\<lparr>username := Some (trim x), usernameLower := Some (toLowerCase (trim x))\<rparr>) s))"
proof (intro conjI impI)
  assume "\<not> USERNAME_RE (trim x)"
  then show "setUsername cid x s
          = (Inl (Error ''Username must be 3-20 chars (letters, numbers, underscore).''), s)"
    by (simp add: setUsername_def)
next
  assume r: "toLowerCase (trim x) \<in> set RESERVED"
  show "setUsername cid x s
          = (Inl (Error (if toLowerCase (trim x) = ''me''
                         then ''Username must be 3-20 chars (letters, numbers, underscore).''
                         else ''That username is reserved.'')), s)"
  proof (cases "toLowerCase (trim x) = ''me''")
    case True
    from me_fails_format [OF True] True show ?thesis by (simp add: setUsername_def)
  next
    case False
    from reserved_matches_format [OF r False] r False show ?thesis
      by (simp add: setUsername_def Let_def)
  qed
next
  assume a: "USERNAME_RE (trim x) \<and> toLowerCase (trim x) \<notin> set RESERVED
        \<and> (\<exists>y\<in>set s. clerkId y \<noteq> cid \<and> usernameLower y = Some (toLowerCase (trim x)))"
  then show "setUsername cid x s = (Inl (Error ''That username is taken.''), s)"
    using setUsername_wf [OF assms, of x] held_by_other [OF assms(1), of "toLowerCase (trim x)" cid]
    by simp
next
  assume a: "USERNAME_RE (trim x) \<and> toLowerCase (trim x) \<notin> set RESERVED
        \<and> \<not> (\<exists>y\<in>set s. clerkId y \<noteq> cid \<and> usernameLower y = Some (toLowerCase (trim x)))"
  then show "setUsername cid x s =
          (Inr (acct\<lparr>username := Some (trim x), usernameLower := Some (toLowerCase (trim x))\<rparr>),
           replaceDoc cid
             (acct\<lparr>username := Some (trim x), usernameLower := Some (toLowerCase (trim x))\<rparr>) s)"
    using setUsername_wf [OF assms, of x] held_by_other [OF assms(1), of "toLowerCase (trim x)" cid]
    by simp
qed

theorem C4_setUsername_witness:
  "fst (setUsername ''u2'' ''ab''
     (run [CreateUser \<lparr>i_clerkId = ''u1'', i_email = ''a@x.io'', i_firstName = None,
             i_lastName = None, i_subscriptionTier = None, i_customerId = None,
             i_credits = None, i_username = None\<rparr>,
           SetSolanaWallet ''u1'' ''11111111111111111111111111111111111111111111'',
           SetUsername ''u1'' ''validUser123'',
           CreateUser \<lparr>i_clerkId = ''u2'', i_email = ''b@x.io'', i_firstName = None,
             i_lastName = None, i_subscriptionTier = None, i_customerId = None,
             i_credits = None, i_username = None\<rparr>] []))
     = Inl (Error ''Username must be 3-20 chars (letters, numbers, underscore).'')
   \<and> fst (setUsername ''u2'' ''Admin''
     (run [CreateUser \<lparr>i_clerkId = ''u1'', i_email = ''a@x.io'', i_firstName = None,
             i_lastName = None, i_subscriptionTier = None, i_customerId = None,
             i_credits = None, i_username = None\<rparr>,
           SetSolanaWallet ''u1'' ''11111111111111111111111111111111111111111111'',
           SetUsername ''u1'' ''validUser123'',
           CreateUser \<lparr>i_clerkId = ''u2'', i_email = ''b@x.io'', i_firstName = None,
             i_lastName = None, i_subscriptionTier = None, i_customerId = None,
             i_credits = None, i_username = None\<rparr>] []))
     = Inl (Error ''That username is reserved.'')
   \<and> fst (setUsername ''u2'' ''VALIDUSER123''
     (run [CreateUser \<lparr>i_clerkId = ''u1'', i_email = ''a@x.io'', i_firstName = None,
             i_lastName = None, i_subscriptionTier = None, i_customerId = None,
             i_credits = None, i_username = None\<rparr>,
           SetSolanaWallet ''u1'' ''11111111111111111111111111111111111111111111'',
           SetUsername ''u1'' ''validUser123'',
           CreateUser \<lparr>i_clerkId = ''u2'', i_email = ''b@x.io'', i_firstName = None,
             i_lastName = None, i_subscriptionTier = None, i_customerId = None,
             i_credits = None, i_username = None\<rparr>] []))
     = Inl (Error ''That username is taken.'')
   \<and> map (\<lambda>d. (username d, usernameLower d)) (snd (setUsername ''u2'' '' Bob_1 ''
     (run [CreateUser \<lparr>i_clerkId = ''u1'', i_email = ''a@x.io'', i_firstName = None,
             i_lastName = None, i_subscriptionTier = None, i_customerId = None,
             i_credits = None, i_username = None\<rparr>,
           SetSolanaWallet ''u1'' ''11111111111111111111111111111111111111111111'',
           SetUsername ''u1'' ''validUser123'',
           CreateUser \<lparr>i_clerkId = ''u2'', i_email = ''b@x.io'', i_firstName = None,
             i_lastName = None, i_subscriptionTier = None, i_customerId = None,
             i_credits = None, i_username = None\<rparr>] [])))
     = [(Some ''validUser123'', Some ''validuser123''), (Some ''Bob_1'', Some ''bob_1'')]"
proof -
  let ?ops = "[CreateUser \<lparr>i_clerkId = ''u1'', i_email = ''a@x.io'', i_firstName = None,
             i_lastName = None, i_subscriptionTier = None, i_customerId = None,
             i_credits = None, i_username = None\<rparr>,
           SetSolanaWallet ''u1'' ''11111111111111111111111111111111111111111111'',
           SetUsername ''u1'' ''validUser123'',
           CreateUser \<lparr>i_clerkId = ''u2'', i_email = ''b@x.io'', i_firstName = None,
             i_lastName = None, i_subscriptionTier = None, i_customerId = None,
             i_credits = None, i_username = None\<rparr>]"
  let ?d1 = "\<lparr>clerkId = ''u1'', email = Some ''a@x.io'', username = Some ''validUser123'',
     usernameLower = Some ''validuser123'', firstName = [], lastName = [],
     subscriptionTier = Free, customerId = [], credits = 10, creditHistory = [], topCoins = [],
     solanaWallet = ''11111111111111111111111111111111111111111111'', deletedAt = None\<rparr>"
  let ?d2 = "\<lparr>clerkId = ''u2'', email = Some ''b@x.io'', username = None,
     usernameLower = None, firstName = [], lastName = [],
     subscriptionTier = Free, customerId = [], credits = 10, creditHistory = [], topCoins = [],
     solanaWallet = [], deletedAt = None\<rparr>"
  have s: "run ?ops [] = [?d1, ?d2]" by code_simp
  have w: "wf (run ?ops [])" by (rule wf_run [OF wf_empty])
  have g: "getUser ''u2'' (run ?ops []) = Some ?d2"
    unfolding s by (simp add: getUser_def findOne_def)
  note c4 = C4_setUsername [OF w g]
  have "\<not> USERNAME_RE (trim ''ab'')" by code_simp
  with c4 [of "''ab''"] have a: "fst (setUsername ''u2'' ''ab'' (run ?ops []))
     = Inl (Error ''Username must be 3-20 chars (letters, numbers, underscore).'')"
    by simp
  have "toLowerCase (trim ''Admin'') \<in> set RESERVED" "toLowerCase (trim ''Admin'') \<noteq> ''me''"
    by code_simp+
  with c4 [of "''Admin''"] have b: "fst (setUsername ''u2'' ''Admin'' (run ?ops []))
     = Inl (Error ''That username is reserved.'')"
    by simp
  have v: "USERNAME_RE (trim ''VALIDUSER123'')" "toLowerCase (trim ''VALIDUSER123'') \<notin> set RESERVED"
    "toLowerCase (trim ''VALIDUSER123'') = ''validuser123''"
    by code_simp+
  have "\<exists>y\<in>set (run ?ops []). clerkId y \<noteq> ''u2'' \<and> usernameLower y = Some (toLowerCase (trim ''VALIDUSER123''))"
    unfolding s v(3) by simp
  with c4 [of "''VALIDUSER123''"] v(1,2) have c: "fst (setUsername ''u2'' ''VALIDUSER123'' (run ?ops []))
     = Inl (Error ''That username is taken.'')"
    by simp
  have n: "USERNAME_RE (trim '' Bob_1 '')" "toLowerCase (trim '' Bob_1 '') \<notin> set RESERVED"
    "toLowerCase (trim '' Bob_1 '') = ''bob_1''" "trim '' Bob_1 '' = ''Bob_1''"
    "toLowerCase ''Bob_1'' = ''bob_1''"
    by code_simp+
  have "\<not> (\<exists>y\<in>set (run ?ops []). clerkId y \<noteq> ''u2'' \<and> usernameLower y = Some (toLowerCase (trim '' Bob_1 '')))"
    unfolding s n(3) by simp
  with c4 [of "'' Bob_1 ''"] n(1,2) have "snd (setUsername ''u2'' '' Bob_1 '' (run ?ops []))
      = replaceDoc ''u2'' (?d2\<lparr>username := Some (trim '' Bob_1 ''),
            usernameLower := Some (toLowerCase (trim '' Bob_1 ''))\<rparr>) (run ?ops [])"
    by simp
  then have d: "map (\<lambda>d. (username d, usernameLower d)) (snd (setUsername ''u2'' '' Bob_1 '' (run ?ops [])))
     = [(Some ''validUser123'', Some ''validuser123''), (Some ''Bob_1'', Some ''bob_1'')]"
    unfolding s n(3,4) by (simp add: replaceDoc_def n(5))
  from a b c d show ?thesis by blast
qed






section \<open>Wallets\<close>

lemma empty_not_valid: "\<not> isValidSolAddress ''''"
  by (simp add: isValidSolAddress_def)

lemma setSolanaWallet_wf:
  assumes w: "wf s" and g: "getUser cid s = Some d" and v: "isValidSolAddress (trim a)"
  shows "setSolanaWallet cid a s =
     (if trim a \<in> solanaWallet ` set (others cid s)
      then (Inl (Error ''That wallet is already connected by another user.''), s)
      else (Inr (d\<lparr>solanaWallet := trim a\<rparr>), replaceDoc cid (d\<lparr>solanaWallet := trim a\<rparr>) s))"
proof -
  let ?d' = "d\<lparr>solanaWallet := trim a\<rparr>"
  from wf_own_keys [OF w g] have own: "clerkId d \<notin> clerkId ` set (others cid s)"
    "email d \<notin> email ` set (others cid s)"
    "username d = None \<or> username d \<notin> username ` set (others cid s)"
    "usernameLower d = None \<or> usernameLower d \<notin> usernameLower ` set (others cid s)"
    by (simp_all add: dupKey_None_iff)
  have k: "dupKey ?d' (others cid s) =
      (if trim a \<in> solanaWallet ` set (others cid s) then Some ''solanaWallet'' else None)"
    using own by (auto simp: dupKey_def)
  have u: "findOneAndUpdate (\<lambda>d. clerkId d = cid) (\<lambda>d. d\<lparr>solanaWallet := trim a\<rparr>) s =
     (case dupKey ?d' (others cid s) of
        Some k \<Rightarrow> (Inl (MongoServerError 11000 k), s)
      | None \<Rightarrow> (Inr (Some ?d'), replaceDoc cid ?d' s))"
    using findOneAndUpdate_hit [where Q = "\<lambda>x. True", OF wf_distinct [OF w] g] by simp
  show ?thesis using v by (simp add: setSolanaWallet_def Let_def u k walletDup_def)
qed

lemma clearSolanaWallet_wf:
  assumes w: "wf s" and g: "getUser cid s = Some d"
  shows "clearSolanaWallet cid s =
     (if '''' \<in> solanaWallet ` set (others cid s)
      then (Inl (MongoServerError 11000 ''solanaWallet''), s)
      else (Inr (d\<lparr>solanaWallet := ''''\<rparr>), replaceDoc cid (d\<lparr>solanaWallet := ''''\<rparr>) s))"
proof -
  let ?d' = "d\<lparr>solanaWallet := ''''\<rparr>"
  from wf_own_keys [OF w g] have own: "clerkId d \<notin> clerkId ` set (others cid s)"
    "email d \<notin> email ` set (others cid s)"
    "username d = None \<or> username d \<notin> username ` set (others cid s)"
    "usernameLower d = None \<or> usernameLower d \<notin> usernameLower ` set (others cid s)"
    by (simp_all add: dupKey_None_iff)
  have k: "dupKey ?d' (others cid s) =
      (if '''' \<in> solanaWallet ` set (others cid s) then Some ''solanaWallet'' else None)"
    using own by (auto simp: dupKey_def)
  have u: "findOneAndUpdate (\<lambda>d. clerkId d = cid) (\<lambda>d. d\<lparr>solanaWallet := ''''\<rparr>) s =
     (case dupKey ?d' (others cid s) of
        Some k \<Rightarrow> (Inl (MongoServerError 11000 k), s)
      | None \<Rightarrow> (Inr (Some ?d'), replaceDoc cid ?d' s))"
    using findOneAndUpdate_hit [where Q = "\<lambda>x. True", OF wf_distinct [OF w] g] by simp
  show ?thesis by (simp add: clearSolanaWallet_def u k)
qed

text \<open>
  Claim C5. The claim holds of \<^verbatim>\<open>setSolanaWallet\<close> (lemma \<open>setSolanaWallet_wf\<close>: a valid
  address held by no other account is set, one held by another account is refused as
  already connected) and the empty string is no valid address, but the empty wallet does
  collide: every document has the field, so the unique index on \<^verbatim>\<open>solanaWallet\<close> holds
  the empty string of an account without a wallet like any other value. With one
  account connected and a second account without a wallet, \<^verbatim>\<open>clearSolanaWallet\<close> on the
  first is refused with the store's duplicate-key error and its wallet stays connected;
  and while one account has no wallet, \<^verbatim>\<open>createUser\<close> for a second account is refused.
\<close>

theorem C5_empty_wallet_collides:
  "clearSolanaWallet ''u1''
     (run [CreateUser \<lparr>i_clerkId = ''u1'', i_email = ''a@x.io'', i_firstName = None,
             i_lastName = None, i_subscriptionTier = None, i_customerId = None,
             i_credits = None, i_username = None\<rparr>,
           SetSolanaWallet ''u1'' ''11111111111111111111111111111111111111111111'',
           CreateUser \<lparr>i_clerkId = ''u2'', i_email = ''b@x.io'', i_firstName = None,
             i_lastName = None, i_subscriptionTier = None, i_customerId = None,
             i_credits = None, i_username = None\<rparr>] [])
   = (Inl (MongoServerError 11000 ''solanaWallet''),
      run [CreateUser \<lparr>i_clerkId = ''u1'', i_email = ''a@x.io'', i_firstName = None,
             i_lastName = None, i_subscriptionTier = None, i_customerId = None,
             i_credits = None, i_username = None\<rparr>,
           SetSolanaWallet ''u1'' ''11111111111111111111111111111111111111111111'',
           CreateUser \<lparr>i_clerkId = ''u2'', i_email = ''b@x.io'', i_firstName = None,
             i_lastName = None, i_subscriptionTier = None, i_customerId = None,
             i_credits = None, i_username = None\<rparr>] [])
   \<and> map solanaWallet
       (run [CreateUser \<lparr>i_clerkId = ''u1'', i_email = ''a@x.io'', i_firstName = None,
             i_lastName = None, i_subscriptionTier = None, i_customerId = None,
             i_credits = None, i_username = None\<rparr>,
           SetSolanaWallet ''u1'' ''11111111111111111111111111111111111111111111'',
           CreateUser \<lparr>i_clerkId = ''u2'', i_email = ''b@x.io'', i_firstName = None,
             i_lastName = None, i_subscriptionTier = None, i_customerId = None,
             i_credits = None, i_username = None\<rparr>] [])
     = [''11111111111111111111111111111111111111111111'', '''']
   \<and> fst (createUser \<lparr>i_clerkId = ''u2'', i_email = ''b@x.io'', i_firstName = None,
             i_lastName = None, i_subscriptionTier = None, i_customerId = None,
             i_credits = None, i_username = None\<rparr>
       (run [CreateUser \<lparr>i_clerkId = ''u1'', i_email = ''a@x.io'', i_firstName = None,
             i_lastName = None, i_subscriptionTier = None, i_customerId = None,
             i_credits = None, i_username = None\<rparr>] []))
     = Inl (MongoServerError 11000 ''solanaWallet'')"
  by code_simp

section \<open>Creating and syncing accounts\<close>










lemma dropWhile_id: "xs = [] \<or> \<not> P (hd xs) \<Longrightarrow> dropWhile P xs = xs"
  by (cases xs) auto

lemma trim_ends:
  "trim s = [] \<or> (\<not> isWhiteSpace (hd (trim s)) \<and> \<not> isWhiteSpace (last (trim s)))"
proof (cases "trim s = []")
  case True
  then show ?thesis by simp
next
  case False
  let ?a = "dropWhile isWhiteSpace s"
  let ?b = "dropWhile isWhiteSpace (rev ?a)"
  have t: "trim s = rev ?b" by (simp add: trim_def)
  with False have b: "?b \<noteq> []" by simp
  then have hb: "\<not> isWhiteSpace (hd ?b)" by (rule hd_dropWhile)
  have a: "?a = rev ?b @ rev (takeWhile isWhiteSpace (rev ?a))"
    by (metis rev_append rev_rev_ident takeWhile_dropWhile_id)
  have "?a \<noteq> []" using b by (metis dropWhile.simps(1) rev.simps(1))
  then have ha: "\<not> isWhiteSpace (hd ?a)" by (rule hd_dropWhile)
  have "hd ?a = hd (rev ?b)" using a b by (metis hd_append2 rev_is_Nil_conv)
  with ha hb b show ?thesis unfolding t by (simp add: last_rev)
qed

lemma trim_idem: "trim (trim s) = trim s"
proof (cases "trim s = []")
  case True
  have "trim [] = []" by (simp add: trim_def)
  with True show ?thesis by simp
next
  case False
  with trim_ends [of s] have e: "\<not> isWhiteSpace (hd (trim s))" "\<not> isWhiteSpace (last (trim s))"
    by auto
  have 1: "dropWhile isWhiteSpace (trim s) = trim s"
    using e(1) by (intro dropWhile_id) simp
  have 2: "dropWhile isWhiteSpace (rev (trim s)) = rev (trim s)"
    using e(2) False by (intro dropWhile_id) (simp add: hd_rev)
  show ?thesis
    unfolding trim_def [of "trim s"] 1 2 by simp
qed

lemma writeAt_refused: "fst (writeAt pos d' s) = Inl e \<Longrightarrow> snd (writeAt pos d' s) = s"
  by (auto simp: writeAt_def split: option.splits)

lemma createUser_refused: "fst (createUser user s) = Inl e \<Longrightarrow> snd (createUser user s) = s"
  by (auto simp: createUser_def findOneAndUpsert_def dest: writeAt_refused split: option.splits)

text \<open>
  \<^verbatim>\<open>createUser\<close> on a well-formed store, for an account that exists or not: the document
  it writes and the documents that one is checked against.
\<close>

lemma createUser_wf:
  assumes w: "wf s"
  shows "createUser user s =
     (case getUser (i_clerkId user) s of
        None \<Rightarrow>
          (case dupKey (createUserSet user (createUserOnInsert user)) s of
             Some k \<Rightarrow> (Inl (MongoServerError 11000 k), s)
           | None \<Rightarrow> (Inr (createUserSet user (createUserOnInsert user)),
                      s @ [createUserSet user (createUserOnInsert user)]))
      | Some d \<Rightarrow>
          (case dupKey (createUserSet user d) (others (i_clerkId user) s) of
             Some k \<Rightarrow> (Inl (MongoServerError 11000 k), s)
           | None \<Rightarrow> (Inr (createUserSet user d), replaceDoc (i_clerkId user) (createUserSet user d) s)))"
  using createUser_insert [of user s] createUser_update [OF w, of user]
  by (auto split: option.splits)

lemma createUserSet_username:
  assumes "i_username base = None" and "trim u \<noteq> ''''"
  shows "createUserSet (base\<lparr>i_username := Some u\<rparr>) x
     = (createUserSet base x)\<lparr>username := Some (trim u), usernameLower := Some (toLowerCase (trim u))\<rparr>"
  using assms by (auto simp: createUserSet_def Let_def trim_def)

lemma dupKey_with_username:
  assumes k: "dupKey d rest = None"
    and c: "Some l \<in> usernameLower ` set rest"
  shows "dupKey (d\<lparr>username := Some n, usernameLower := Some l\<rparr>) rest = Some ''username''
       \<or> dupKey (d\<lparr>username := Some n, usernameLower := Some l\<rparr>) rest = Some ''usernameLower''"
  using k c by (auto simp: dupKey_def split: if_splits)

lemma retry_on_collision:
  assumes w: "wf s" and b: "i_username base = None" and t: "trim u \<noteq> ''''"
    and c: "\<exists>y\<in>set s. clerkId y \<noteq> i_clerkId base \<and> usernameLower y = Some (toLowerCase (trim u))"
    and ok: "isOK (fst (createUser base s))"
  shows "\<exists>e. createUser (base\<lparr>i_username := Some u\<rparr>) s = (Inl e, s) \<and> usernameDup e"
proof (cases "getUser (i_clerkId base) s")
  case None
  let ?d2 = "createUserSet base (createUserOnInsert base)"
  have k: "dupKey ?d2 s = None"
    using ok by (auto simp: createUser_insert [OF None] isOK_def split: option.splits)
  have col: "Some (toLowerCase (trim u)) \<in> usernameLower ` set s"
    using c by (force simp: image_iff)
  have oi: "createUserOnInsert (base\<lparr>i_username := Some u\<rparr>) = createUserOnInsert base"
    by (simp add: createUserOnInsert_def)
  from dupKey_with_username [OF k col, of "trim u"]
  show ?thesis
    using None
    by (auto simp: createUser_wf [OF w] oi createUserSet_username [OF b t] usernameDup_def)
next
  case (Some d)
  let ?d2 = "createUserSet base d"
  have k: "dupKey ?d2 (others (i_clerkId base) s) = None"
    using ok by (auto simp: createUser_update [OF w Some] isOK_def split: option.splits)
  have col: "Some (toLowerCase (trim u)) \<in> usernameLower ` set (others (i_clerkId base) s)"
    using c by (simp add: held_by_other [OF w])
  from dupKey_with_username [OF k col, of "trim u"]
  show ?thesis
    using Some
    by (auto simp: createUser_wf [OF w] createUserSet_username [OF b t] usernameDup_def)
qed

lemma maybeUsername_Some: "maybeUsername data = Some u \<Longrightarrow> trim u = u \<and> u \<noteq> ''''"
  by (auto simp: maybeUsername_def trim_idem split: option.splits if_splits)

lemma POST_user_event:
  assumes "truthy secret" "truthy (svix_id req)" "truthy (svix_timestamp req)"
    "truthy (svix_signature req)" "verified req = Some evt"
    "evt_type evt = ''user.created'' \<or> evt_type evt = ''user.updated''"
    "d_id (evt_data evt) = Some cid" "cid \<noteq> ''''"
    "getPrimaryEmailFromEvent (evt_data evt) = Some em" "em \<noteq> ''''"
  shows "POST secret req now s =
     (case createUserOrRetry (basePayload cid em (evt_data evt)) (maybeUsername (evt_data evt)) s of
        (Inl e, s') \<Rightarrow> (Inr (Response 500 ''Internal server error''), s')
      | (Inr mongoUser, s') \<Rightarrow>
          (Inr (JsonUser (if evt_type evt = ''user.created'' then ''User created'' else ''User updated'')
                  mongoUser), s'))"
  using assms by (simp add: POST_def Let_def)

lemma createUser_synced:
  assumes w: "wf s" and ok: "fst (createUser (basePayload cid em data) s) = Inr d'"
  shows "getUser cid (snd (createUser (basePayload cid em data) s)) = Some d'
     \<and> email d' = Some (trim (toLowerCase em))
     \<and> firstName d' = (case first_name data of None \<Rightarrow> '''' | Some f \<Rightarrow> f)
     \<and> lastName d' = (case last_name data of None \<Rightarrow> '''' | Some l \<Rightarrow> l)
     \<and> username d' = (case getUser cid s of None \<Rightarrow> None | Some d \<Rightarrow> username d)"
proof (cases "getUser cid s")
  case None
  let ?b = "basePayload cid em data"
  have n: "getUser (i_clerkId ?b) s = None" using None by (simp add: basePayload_def)
  from ok have d': "d' = createUserSet ?b (createUserOnInsert ?b)"
    and s': "snd (createUser ?b s) = s @ [d']"
    by (auto simp: createUser_insert [OF n] split: option.splits)
  have c: "clerkId d' = cid"
    by (simp add: d' createUserSet_clerkId clerkId_createUserOnInsert basePayload_def)
  show ?thesis
    using None c
    by (simp add: s' getUser_append)
      (simp add: d' createUserSet_def createUserOnInsert_def schemaDefaults_def basePayload_def Let_def)
next
  case (Some d)
  let ?b = "basePayload cid em data"
  have g: "getUser (i_clerkId ?b) s = Some d" using Some by (simp add: basePayload_def)
  from ok have d': "d' = createUserSet ?b d"
    and s': "snd (createUser ?b s) = replaceDoc (i_clerkId ?b) d' s"
    by (auto simp: createUser_update [OF w g] split: option.splits)
  have c: "clerkId d' = cid" "i_clerkId ?b = cid"
    using getUser_Some_mem [OF Some] by (simp_all add: d' createUserSet_clerkId basePayload_def)
  show ?thesis
    using Some c
    by (simp add: s' getUser_replaceDoc)
      (simp add: d' createUserSet_def basePayload_def Let_def)
qed

text \<open>
  The handler on a \<^verbatim>\<open>user.created\<close> or \<^verbatim>\<open>user.updated\<close> event that reaches the upsert (a
  verified event with an id and a primary email), by what the first upsert does: when
  the username collides and the store accepts the upsert without it, the handler retries
  and answers with the synced account; a duplicate key on \<^verbatim>\<open>username\<close> or
  \<^verbatim>\<open>usernameLower\<close> always leads to the retry, whose outcome is the answer; any other
  exception reaches the outer handler, which answers 500, and the store is as it was.
\<close>

lemma webhook_retry:
  assumes "truthy secret" and "truthy (svix_id req)" and "truthy (svix_timestamp req)"
    and "truthy (svix_signature req)" and "verified req = Some evt"
    and "evt_type evt = ''user.created'' \<or> evt_type evt = ''user.updated''"
    and "d_id (evt_data evt) = Some cid" and "cid \<noteq> ''''"
    and "getPrimaryEmailFromEvent (evt_data evt) = Some em" and "em \<noteq> ''''"
    and "wf s"
  shows
    "(\<forall>u. maybeUsername (evt_data evt) = Some u
          \<and> (\<exists>y\<in>set s. clerkId y \<noteq> cid \<and> usernameLower y = Some (toLowerCase u))
          \<and> isOK (fst (createUser (basePayload cid em (evt_data evt)) s)) \<longrightarrow>
        (\<exists>d'. POST secret req now s
                = (Inr (JsonUser (if evt_type evt = ''user.created'' then ''User created''
                                  else ''User updated'') d'),
                   snd (createUser (basePayload cid em (evt_data evt)) s))
             \<and> getUser cid (snd (createUser (basePayload cid em (evt_data evt)) s)) = Some d'
             \<and> email d' = Some (trim (toLowerCase em))
             \<and> firstName d' = (case first_name (evt_data evt) of None \<Rightarrow> '''' | Some f \<Rightarrow> f)
             \<and> lastName d' = (case last_name (evt_data evt) of None \<Rightarrow> '''' | Some l \<Rightarrow> l)
             \<and> username d' = (case getUser cid s of None \<Rightarrow> None | Some d \<Rightarrow> username d)))
   \<and> (\<forall>e. fst (createUser ((basePayload cid em (evt_data evt))
                    \<lparr>i_username := maybeUsername (evt_data evt)\<rparr>) s) = Inl e
          \<and> usernameDup e \<longrightarrow>
        POST secret req now s =
          (case createUser (basePayload cid em (evt_data evt)) s of
             (Inl e', s') \<Rightarrow> (Inr (Response 500 ''Internal server error''), s')
           | (Inr mongoUser, s') \<Rightarrow>
               (Inr (JsonUser (if evt_type evt = ''user.created'' then ''User created''
                               else ''User updated'') mongoUser), s')))
   \<and> (\<forall>e. fst (createUser ((basePayload cid em (evt_data evt))
                    \<lparr>i_username := maybeUsername (evt_data evt)\<rparr>) s) = Inl e
          \<and> \<not> usernameDup e \<longrightarrow>
        POST secret req now s = (Inr (Response 500 ''Internal server error''), s))"
proof (intro conjI allI impI)
  let ?data = "evt_data evt"
  let ?b = "basePayload cid em ?data"
  let ?msg = "if evt_type evt = ''user.created'' then ''User created'' else ''User updated''"
  note post = POST_user_event [OF assms(1-10), of now s]
  have w: "wf s" by (rule assms(11))
  {
    fix u
    assume a: "maybeUsername ?data = Some u
          \<and> (\<exists>y\<in>set s. clerkId y \<noteq> cid \<and> usernameLower y = Some (toLowerCase u))
          \<and> isOK (fst (createUser ?b s))"
    from a maybeUsername_Some [of ?data u] have t: "trim u = u" "trim u \<noteq> ''''" by auto
    have bn: "i_username ?b = None" "i_clerkId ?b = cid" by (simp_all add: basePayload_def)
    have col: "\<exists>y\<in>set s. clerkId y \<noteq> i_clerkId ?b \<and> usernameLower y = Some (toLowerCase (trim u))"
      using a t bn by simp
    from a have ok: "isOK (fst (createUser ?b s))" by simp
    from retry_on_collision [OF w bn(1) t(2) col ok] obtain e where
      e: "createUser (?b\<lparr>i_username := Some u\<rparr>) s = (Inl e, s)" "usernameDup e"
      by blast
    from ok obtain d' where d': "fst (createUser ?b s) = Inr d'"
      by (cases "fst (createUser ?b s)") (auto simp: isOK_def)
    have r: "createUserOrRetry ?b (maybeUsername ?data) s = createUser ?b s"
      using a e by (simp add: createUserOrRetry_def)
    have p: "POST secret req now s = (Inr (JsonUser ?msg d'), snd (createUser ?b s))"
      unfolding post r using d' by (cases "createUser ?b s") auto
    from createUser_synced [OF w d'] p
    show "\<exists>d'. POST secret req now s = (Inr (JsonUser ?msg d'), snd (createUser ?b s))
             \<and> getUser cid (snd (createUser ?b s)) = Some d'
             \<and> email d' = Some (trim (toLowerCase em))
             \<and> firstName d' = (case first_name ?data of None \<Rightarrow> '''' | Some f \<Rightarrow> f)
             \<and> lastName d' = (case last_name ?data of None \<Rightarrow> '''' | Some l \<Rightarrow> l)
             \<and> username d' = (case getUser cid s of None \<Rightarrow> None | Some d \<Rightarrow> username d)"
      by blast
  }
  {
    fix e
    assume a: "fst (createUser (?b\<lparr>i_username := maybeUsername ?data\<rparr>) s) = Inl e \<and> usernameDup e"
    then have "createUser (?b\<lparr>i_username := maybeUsername ?data\<rparr>) s = (Inl e, s)"
      using createUser_refused [of "?b\<lparr>i_username := maybeUsername ?data\<rparr>" s e]
      by (cases "createUser (?b\<lparr>i_username := maybeUsername ?data\<rparr>) s") auto
    with a have r: "createUserOrRetry ?b (maybeUsername ?data) s = createUser ?b s"
      by (simp add: createUserOrRetry_def)
    show "POST secret req now s =
          (case createUser ?b s of
             (Inl e', s') \<Rightarrow> (Inr (Response 500 ''Internal server error''), s')
           | (Inr mongoUser, s') \<Rightarrow> (Inr (JsonUser ?msg mongoUser), s'))"
      unfolding post r by simp
  }
  {
    fix e
    assume a: "fst (createUser (?b\<lparr>i_username := maybeUsername ?data\<rparr>) s) = Inl e \<and> \<not> usernameDup e"
    then have "createUser (?b\<lparr>i_username := maybeUsername ?data\<rparr>) s = (Inl e, s)"
      using createUser_refused [of "?b\<lparr>i_username := maybeUsername ?data\<rparr>" s e]
      by (cases "createUser (?b\<lparr>i_username := maybeUsername ?data\<rparr>) s") auto
    with a have r: "createUserOrRetry ?b (maybeUsername ?data) s = (Inl e, s)"
      by (simp add: createUserOrRetry_def)
    show "POST secret req now s = (Inr (Response 500 ''Internal server error''), s)"
      unfolding post r by simp
  }
qed

text \<open>
  When \<^verbatim>\<open>createUser\<close> is refused and when it is not: an email held by another account is
  reported first, whatever else collides; without a username, a free email is enough
  for an account that exists, and a new account also needs every other account to have
  a wallet.
\<close>

lemma createUser_email_taken:
  assumes w: "wf s"
    and t: "\<exists>y\<in>set s. clerkId y \<noteq> i_clerkId user \<and> email y = Some (trim (toLowerCase (i_email user)))"
  shows "createUser user s = (Inl (MongoServerError 11000 ''email''), s)"
proof -
  have em: "\<And>x. email (createUserSet user x) = Some (trim (toLowerCase (i_email user)))"
    by (simp add: createUserSet_def Let_def split: option.splits)
  show ?thesis
  proof (cases "getUser (i_clerkId user) s")
    case None
    let ?d = "createUserSet user (createUserOnInsert user)"
    have c: "clerkId ?d \<notin> set (map clerkId s)"
      using None by (simp add: createUserSet_clerkId clerkId_createUserOnInsert getUser_None)
    have e: "email ?d \<in> set (map email s)"
      using t by (force simp: em image_iff)
    from c e have "dupKey ?d s = Some ''email''" by (simp add: dupKey_def)
    then show ?thesis by (simp add: createUser_insert [OF None])
  next
    case (Some d)
    let ?d = "createUserSet user d"
    from getUser_Some_mem [OF Some] have m: "clerkId d = i_clerkId user" by simp
    have c: "clerkId ?d \<notin> set (map clerkId (others (i_clerkId user) s))"
      by (auto simp: createUserSet_clerkId m others_def)
    have e: "email ?d \<in> set (map email (others (i_clerkId user) s))"
      using t by (force simp: em image_iff others_def)
    from c e have "dupKey ?d (others (i_clerkId user) s) = Some ''email''" by (simp add: dupKey_def)
    then show ?thesis by (simp add: createUser_update [OF w Some])
  qed
qed


lemma createUser_accepted:
  assumes w: "wf s" and u: "i_username user = None"
    and f: "\<forall>y\<in>set s. clerkId y \<noteq> i_clerkId user \<longrightarrow> email y \<noteq> Some (trim (toLowerCase (i_email user)))"
    and n: "getUser (i_clerkId user) s = None \<longrightarrow> (\<forall>y\<in>set s. solanaWallet y \<noteq> '''')"
  shows "isOK (fst (createUser user s))"
proof (cases "getUser (i_clerkId user) s")
  case None
  let ?d = "createUserSet user (createUserOnInsert user)"
  have k: "clerkId ?d = i_clerkId user" "email ?d = Some (trim (toLowerCase (i_email user)))"
    "username ?d = None" "usernameLower ?d = None" "solanaWallet ?d = ''''"
    using u by (simp_all add: createUserSet_def createUserOnInsert_def schemaDefaults_def Let_def)
  have "dupKey ?d s = None"
    unfolding dupKey_None_iff k using None f n by (auto simp: getUser_None image_iff; metis)
  then show ?thesis by (simp add: createUser_insert [OF None] isOK_def)
next
  case (Some d)
  let ?d = "createUserSet user d"
  from getUser_Some_mem [OF Some] have m: "d \<in> set s" "clerkId d = i_clerkId user" by auto
  have k: "clerkId ?d = clerkId d" "email ?d = Some (trim (toLowerCase (i_email user)))"
    "username ?d = username d" "usernameLower ?d = usernameLower d" "solanaWallet ?d = solanaWallet d"
    using u by (simp_all add: createUserSet_def Let_def)
  from wf_own_keys [OF w Some] have own: "dupKey d (others (i_clerkId user) s) = None" .
  have "dupKey ?d (others (i_clerkId user) s) = None"
    using own f unfolding dupKey_None_iff k by (auto simp: image_iff others_def; metis)
  then show ?thesis by (simp add: createUser_update [OF w Some] isOK_def)
qed

text \<open>
  Claim C7, amended. For a \<^verbatim>\<open>user.created\<close> or \<^verbatim>\<open>user.updated\<close> event that reaches the
  upsert (a verified event with an id and a primary email) on a well-formed store. When
  the payload's username collides, lower-cased, with the \<^verbatim>\<open>usernameLower\<close> of another
  account, the event's normalised email is held by no other account and, if the event
  creates the account, no account has an empty wallet: the first upsert is refused with
  a duplicate key on \<^verbatim>\<open>username\<close> or \<^verbatim>\<open>usernameLower\<close>, the handler retries without the
  username, and the event succeeds; the response carries the account, whose email
  (normalised), \<^verbatim>\<open>firstName\<close> and \<^verbatim>\<open>lastName\<close> are the event's and whose username is as
  before. When the email is held by another account the event fails, with or without a
  username: the answer is 500 and the store is as it was. Whenever the first upsert
  throws a duplicate key on \<^verbatim>\<open>username\<close>/\<^verbatim>\<open>usernameLower\<close>, the handler's answer is that of
  the upsert without the username; when it throws anything else there is no retry: the
  failure reaches the outer handler, which answers 500, and the store is as it was; when
  it is accepted, the answer carries the account it wrote, username included. The
  creation of an account while another account has an empty wallet meets the collision
  of the wallet index (section Wallets) and is left out here.
\<close>

theorem C7_webhook_username_collision:
  assumes "truthy secret" and "truthy (svix_id req)" and "truthy (svix_timestamp req)"
    and "truthy (svix_signature req)" and "verified req = Some evt"
    and "evt_type evt = ''user.created'' \<or> evt_type evt = ''user.updated''"
    and "d_id (evt_data evt) = Some cid" and "cid \<noteq> ''''"
    and "getPrimaryEmailFromEvent (evt_data evt) = Some em" and "em \<noteq> ''''"
    and "wf s"
  shows
    "(\<forall>u. maybeUsername (evt_data evt) = Some u
          \<and> (\<exists>y\<in>set s. clerkId y \<noteq> cid \<and> usernameLower y = Some (toLowerCase u))
          \<and> (\<forall>y\<in>set s. clerkId y \<noteq> cid \<longrightarrow> email y \<noteq> Some (trim (toLowerCase em)))
          \<and> (getUser cid s = None \<longrightarrow> (\<forall>y\<in>set s. solanaWallet y \<noteq> '''')) \<longrightarrow>
        (\<exists>e. createUser ((basePayload cid em (evt_data evt))\<lparr>i_username := Some u\<rparr>) s = (Inl e, s)
             \<and> usernameDup e)
      \<and> (\<exists>d'. POST secret req now s
                = (Inr (JsonUser (if evt_type evt = ''user.created'' then ''User created''
                                  else ''User updated'') d'),
                   snd (createUser (basePayload cid em (evt_data evt)) s))
             \<and> getUser cid (snd (createUser (basePayload cid em (evt_data evt)) s)) = Some d'
             \<and> email d' = Some (trim (toLowerCase em))
             \<and> firstName d' = (case first_name (evt_data evt) of None \<Rightarrow> '''' | Some f \<Rightarrow> f)
             \<and> lastName d' = (case last_name (evt_data evt) of None \<Rightarrow> '''' | Some l \<Rightarrow> l)
             \<and> username d' = (case getUser cid s of None \<Rightarrow> None | Some d \<Rightarrow> username d)))
   \<and> ((\<exists>y\<in>set s. clerkId y \<noteq> cid \<and> email y = Some (trim (toLowerCase em))) \<longrightarrow>
        POST secret req now s = (Inr (Response 500 ''Internal server error''), s))
   \<and> (\<forall>e. fst (createUser ((basePayload cid em (evt_data evt))
                    \<lparr>i_username := maybeUsername (evt_data evt)\<rparr>) s) = Inl e
          \<and> usernameDup e \<longrightarrow>
        POST secret req now s =
          (case createUser (basePayload cid em (evt_data evt)) s of
             (Inl e', s') \<Rightarrow> (Inr (Response 500 ''Internal server error''), s')
           | (Inr mongoUser, s') \<Rightarrow>
               (Inr (JsonUser (if evt_type evt = ''user.created'' then ''User created''
                               else ''User updated'') mongoUser), s')))
   \<and> (\<forall>e. fst (createUser ((basePayload cid em (evt_data evt))
                    \<lparr>i_username := maybeUsername (evt_data evt)\<rparr>) s) = Inl e
          \<and> \<not> usernameDup e \<longrightarrow>
        POST secret req now s = (Inr (Response 500 ''Internal server error''), s))
   \<and> (\<forall>d'. fst (createUser ((basePayload cid em (evt_data evt))
                    \<lparr>i_username := maybeUsername (evt_data evt)\<rparr>) s) = Inr d' \<longrightarrow>
        POST secret req now s =
          (Inr (JsonUser (if evt_type evt = ''user.created'' then ''User created''
                          else ''User updated'') d'),
           snd (createUser ((basePayload cid em (evt_data evt))
                    \<lparr>i_username := maybeUsername (evt_data evt)\<rparr>) s)))"
proof -
  let ?data = "evt_data evt"
  let ?b = "basePayload cid em ?data"
  note r = webhook_retry [OF assms, of now]
  have first: "\<forall>d'. fst (createUser (?b\<lparr>i_username := maybeUsername ?data\<rparr>) s) = Inr d' \<longrightarrow>
        POST secret req now s =
          (Inr (JsonUser (if evt_type evt = ''user.created'' then ''User created''
                          else ''User updated'') d'),
           snd (createUser (?b\<lparr>i_username := maybeUsername ?data\<rparr>) s))"
    unfolding POST_user_event [OF assms(1-10), of now s]
    by (cases "createUser (?b\<lparr>i_username := maybeUsername ?data\<rparr>) s")
      (auto simp: createUserOrRetry_def)
  have w: "wf s" by (rule assms(11))
  have bn: "i_username ?b = None" "i_clerkId ?b = cid" "i_email ?b = em"
    by (simp_all add: basePayload_def)
  have a: "\<forall>u. maybeUsername ?data = Some u
          \<and> (\<exists>y\<in>set s. clerkId y \<noteq> cid \<and> usernameLower y = Some (toLowerCase u))
          \<and> (\<forall>y\<in>set s. clerkId y \<noteq> cid \<longrightarrow> email y \<noteq> Some (trim (toLowerCase em)))
          \<and> (getUser cid s = None \<longrightarrow> (\<forall>y\<in>set s. solanaWallet y \<noteq> '''')) \<longrightarrow>
        (\<exists>e. createUser (?b\<lparr>i_username := Some u\<rparr>) s = (Inl e, s) \<and> usernameDup e)
      \<and> (\<exists>d'. POST secret req now s
                = (Inr (JsonUser (if evt_type evt = ''user.created'' then ''User created''
                                  else ''User updated'') d'),
                   snd (createUser ?b s))
             \<and> getUser cid (snd (createUser ?b s)) = Some d'
             \<and> email d' = Some (trim (toLowerCase em))
             \<and> firstName d' = (case first_name ?data of None \<Rightarrow> '''' | Some f \<Rightarrow> f)
             \<and> lastName d' = (case last_name ?data of None \<Rightarrow> '''' | Some l \<Rightarrow> l)
             \<and> username d' = (case getUser cid s of None \<Rightarrow> None | Some d \<Rightarrow> username d))"
  proof (intro allI impI)
    fix u
    assume h: "maybeUsername ?data = Some u
          \<and> (\<exists>y\<in>set s. clerkId y \<noteq> cid \<and> usernameLower y = Some (toLowerCase u))
          \<and> (\<forall>y\<in>set s. clerkId y \<noteq> cid \<longrightarrow> email y \<noteq> Some (trim (toLowerCase em)))
          \<and> (getUser cid s = None \<longrightarrow> (\<forall>y\<in>set s. solanaWallet y \<noteq> ''''))"
    have ok: "isOK (fst (createUser ?b s))"
      by (rule createUser_accepted [OF w bn(1)]) (use h bn in simp_all)
    from h maybeUsername_Some [of ?data u] have t: "trim u = u" "trim u \<noteq> ''''" by auto
    have col: "\<exists>y\<in>set s. clerkId y \<noteq> i_clerkId ?b \<and> usernameLower y = Some (toLowerCase (trim u))"
      using h t bn by simp
    from retry_on_collision [OF w bn(1) t(2) col ok]
    have 1: "\<exists>e. createUser (?b\<lparr>i_username := Some u\<rparr>) s = (Inl e, s) \<and> usernameDup e" .
    from r h ok
    have 2: "\<exists>d'. POST secret req now s
                = (Inr (JsonUser (if evt_type evt = ''user.created'' then ''User created''
                                  else ''User updated'') d'),
                   snd (createUser ?b s))
             \<and> getUser cid (snd (createUser ?b s)) = Some d'
             \<and> email d' = Some (trim (toLowerCase em))
             \<and> firstName d' = (case first_name ?data of None \<Rightarrow> '''' | Some f \<Rightarrow> f)
             \<and> lastName d' = (case last_name ?data of None \<Rightarrow> '''' | Some l \<Rightarrow> l)
             \<and> username d' = (case getUser cid s of None \<Rightarrow> None | Some d \<Rightarrow> username d)"
      by blast
    from 1 2
    show "(\<exists>e. createUser (?b\<lparr>i_username := Some u\<rparr>) s = (Inl e, s) \<and> usernameDup e)
      \<and> (\<exists>d'. POST secret req now s
                = (Inr (JsonUser (if evt_type evt = ''user.created'' then ''User created''
                                  else ''User updated'') d'),
                   snd (createUser ?b s))
             \<and> getUser cid (snd (createUser ?b s)) = Some d'
             \<and> email d' = Some (trim (toLowerCase em))
             \<and> firstName d' = (case first_name ?data of None \<Rightarrow> '''' | Some f \<Rightarrow> f)
             \<and> lastName d' = (case last_name ?data of None \<Rightarrow> '''' | Some l \<Rightarrow> l)
             \<and> username d' = (case getUser cid s of None \<Rightarrow> None | Some d \<Rightarrow> username d))"
      by (rule conjI)
  qed
  have b: "(\<exists>y\<in>set s. clerkId y \<noteq> cid \<and> email y = Some (trim (toLowerCase em))) \<longrightarrow>
        POST secret req now s = (Inr (Response 500 ''Internal server error''), s)"
  proof
    assume h: "\<exists>y\<in>set s. clerkId y \<noteq> cid \<and> email y = Some (trim (toLowerCase em))"
    let ?u = "?b\<lparr>i_username := maybeUsername ?data\<rparr>"
    have "createUser ?u s = (Inl (MongoServerError 11000 ''email''), s)"
      by (rule createUser_email_taken [OF w]) (use h bn in simp)
    then have "fst (createUser ?u s) = Inl (MongoServerError 11000 ''email'')
        \<and> \<not> usernameDup (MongoServerError 11000 ''email'')"
      by (simp add: usernameDup_def)
    with r show "POST secret req now s = (Inr (Response 500 ''Internal server error''), s)"
      by blast
  qed
  from a b r first show ?thesis by blast
qed

text \<open>
  Without these conditions an event with a colliding username fails. First, a
  \<^verbatim>\<open>user.updated\<close> event for the account \<open>u2\<close> whose username is held by \<open>u1\<close> and whose
  email is that of \<open>u1\<close>: the first upsert is refused on the email index, there is no
  retry, the answer is 500 and the names of \<open>u2\<close> are not synced. Second, a
  \<^verbatim>\<open>user.created\<close> event for \<open>u2\<close> while \<open>u1\<close> holds the username and has no wallet: the
  first upsert is refused on \<^verbatim>\<open>usernameLower\<close>, the retry on \<^verbatim>\<open>solanaWallet\<close>, and the
  answer is 500.
\<close>

theorem C7_counterexample:
  "POST (Some ''whsec'')
      \<lparr>svix_id = Some ''msg_3'', svix_timestamp = Some ''1700000002'',
       svix_signature = Some ''v1,sig'',
       verified = Some \<lparr>evt_type = ''user.updated'',
         evt_data = \<lparr>d_id = Some ''u2'',
           email_addresses = Some [\<lparr>e_id = ''e1'', email_address = ''a@x.io''\<rparr>],
           primary_email_address_id = Some ''e1'', first_name = Some ''Bea'',
           last_name = Some ''Lee'', d_username = Some ''BOB_1''\<rparr>\<rparr>\<rparr> 7
      (run [CreateUser \<lparr>i_clerkId = ''u1'', i_email = ''a@x.io'', i_firstName = None,
              i_lastName = None, i_subscriptionTier = None, i_customerId = None,
              i_credits = None, i_username = None\<rparr>,
            SetSolanaWallet ''u1'' ''11111111111111111111111111111111111111111111'',
            SetUsername ''u1'' ''Bob_1'',
            CreateUser \<lparr>i_clerkId = ''u2'', i_email = ''b@x.io'', i_firstName = None,
              i_lastName = None, i_subscriptionTier = None, i_customerId = None,
              i_credits = None, i_username = None\<rparr>] [])
    = (Inr (Response 500 ''Internal server error''),
       [\<lparr>clerkId = ''u1'', email = Some ''a@x.io'', username = Some ''Bob_1'',
         usernameLower = Some ''bob_1'', firstName = '''', lastName = '''',
         subscriptionTier = Free, customerId = '''', credits = 10, creditHistory = [],
         topCoins = [], solanaWallet = ''11111111111111111111111111111111111111111111'',
         deletedAt = None\<rparr>,
        \<lparr>clerkId = ''u2'', email = Some ''b@x.io'', username = None,
         usernameLower = None, firstName = '''', lastName = '''',
         subscriptionTier = Free, customerId = '''', credits = 10, creditHistory = [],
         topCoins = [], solanaWallet = '''', deletedAt = None\<rparr>])
   \<and> POST (Some ''whsec'')
      \<lparr>svix_id = Some ''msg_4'', svix_timestamp = Some ''1700000003'',
       svix_signature = Some ''v1,sig'',
       verified = Some \<lparr>evt_type = ''user.created'',
         evt_data = \<lparr>d_id = Some ''u2'',
           email_addresses = Some [\<lparr>e_id = ''e1'', email_address = ''b@x.io''\<rparr>],
           primary_email_address_id = Some ''e1'', first_name = Some ''Bea'',
           last_name = Some ''Lee'', d_username = Some '' BOB_1 ''\<rparr>\<rparr>\<rparr> 8
      (run [CreateUser \<lparr>i_clerkId = ''u1'', i_email = ''a@x.io'', i_firstName = None,
              i_lastName = None, i_subscriptionTier = None, i_customerId = None,
              i_credits = None, i_username = None\<rparr>,
            SetUsername ''u1'' ''Bob_1''] [])
    = (Inr (Response 500 ''Internal server error''),
       [\<lparr>clerkId = ''u1'', email = Some ''a@x.io'', username = Some ''Bob_1'',
         usernameLower = Some ''bob_1'', firstName = '''', lastName = '''',
         subscriptionTier = Free, customerId = '''', credits = 10, creditHistory = [],
         topCoins = [], solanaWallet = '''', deletedAt = None\<rparr>])
   \<and> toLowerCase ''BOB_1'' = ''bob_1''"
  by code_simp

theorem C7_webhook_username_collision_witness:
  "(\<exists>d'. POST (Some ''whsec'')
          \<lparr>svix_id = Some ''msg_1'', svix_timestamp = Some ''1700000000'',
           svix_signature = Some ''v1,sig'',
           verified = Some \<lparr>evt_type = ''user.created'',
             evt_data = \<lparr>d_id = Some ''u2'',
               email_addresses = Some [\<lparr>e_id = ''e1'', email_address = ''Bea@X.io''\<rparr>],
               primary_email_address_id = Some ''e1'', first_name = Some ''Bea'',
               last_name = None, d_username = Some '' BOB_1 ''\<rparr>\<rparr>\<rparr> 5
          (run [CreateUser \<lparr>i_clerkId = ''u1'', i_email = ''a@x.io'', i_firstName = None,
                  i_lastName = None, i_subscriptionTier = None, i_customerId = None,
                  i_credits = None, i_username = None\<rparr>,
                SetSolanaWallet ''u1'' ''11111111111111111111111111111111111111111111'',
                SetUsername ''u1'' ''Bob_1''] [])
        = (Inr (JsonUser ''User created'' d'),
           snd (createUser \<lparr>i_clerkId = ''u2'', i_email = ''Bea@X.io'', i_firstName = Some ''Bea'',
                  i_lastName = Some '''', i_subscriptionTier = Some Free, i_customerId = Some '''',
                  i_credits = None, i_username = None\<rparr>
             (run [CreateUser \<lparr>i_clerkId = ''u1'', i_email = ''a@x.io'', i_firstName = None,
                     i_lastName = None, i_subscriptionTier = None, i_customerId = None,
                     i_credits = None, i_username = None\<rparr>,
                   SetSolanaWallet ''u1'' ''11111111111111111111111111111111111111111111'',
                   SetUsername ''u1'' ''Bob_1''] [])))
      \<and> email d' = Some ''bea@x.io'' \<and> firstName d' = ''Bea'' \<and> lastName d' = ''''
      \<and> username d' = None)
   \<and> (\<exists>d'. POST (Some ''whsec'')
          \<lparr>svix_id = Some ''msg_5'', svix_timestamp = Some ''1700000004'',
           svix_signature = Some ''v1,sig'',
           verified = Some \<lparr>evt_type = ''user.updated'',
             evt_data = \<lparr>d_id = Some ''u2'',
               email_addresses = Some [\<lparr>e_id = ''e1'', email_address = ''b2@x.io''\<rparr>],
               primary_email_address_id = Some ''e1'', first_name = Some ''Bea'',
               last_name = Some ''Lee'', d_username = Some ''bob_1''\<rparr>\<rparr>\<rparr> 9
          (run [CreateUser \<lparr>i_clerkId = ''u1'', i_email = ''a@x.io'', i_firstName = None,
                  i_lastName = None, i_subscriptionTier = None, i_customerId = None,
                  i_credits = None, i_username = None\<rparr>,
                SetSolanaWallet ''u1'' ''11111111111111111111111111111111111111111111'',
                SetUsername ''u1'' ''Bob_1'',
                CreateUser \<lparr>i_clerkId = ''u2'', i_email = ''b@x.io'', i_firstName = None,
                  i_lastName = None, i_subscriptionTier = None, i_customerId = None,
                  i_credits = None, i_username = None\<rparr>] [])
        = (Inr (JsonUser ''User updated'' d'),
           snd (createUser \<lparr>i_clerkId = ''u2'', i_email = ''b2@x.io'', i_firstName = Some ''Bea'',
                  i_lastName = Some ''Lee'', i_subscriptionTier = Some Free, i_customerId = Some '''',
                  i_credits = None, i_username = None\<rparr>
             (run [CreateUser \<lparr>i_clerkId = ''u1'', i_email = ''a@x.io'', i_firstName = None,
                     i_lastName = None, i_subscriptionTier = None, i_customerId = None,
                     i_credits = None, i_username = None\<rparr>,
                   SetSolanaWallet ''u1'' ''11111111111111111111111111111111111111111111'',
                   SetUsername ''u1'' ''Bob_1'',
                   CreateUser \<lparr>i_clerkId = ''u2'', i_email = ''b@x.io'', i_firstName = None,
                     i_lastName = None, i_subscriptionTier = None, i_customerId = None,
                     i_credits = None, i_username = None\<rparr>] [])))
      \<and> email d' = Some ''b2@x.io'' \<and> firstName d' = ''Bea'' \<and> lastName d' = ''Lee''
      \<and> username d' = None)
   \<and> POST (Some ''whsec'')
          \<lparr>svix_id = Some ''msg_2'', svix_timestamp = Some ''1700000001'',
           svix_signature = Some ''v1,sig'',
           verified = Some \<lparr>evt_type = ''user.created'',
             evt_data = \<lparr>d_id = Some ''u2'',
               email_addresses = Some [\<lparr>e_id = ''e1'', email_address = ''A@x.io''\<rparr>],
               primary_email_address_id = Some ''e1'', first_name = Some ''Bea'',
               last_name = None, d_username = Some ''BOB_1''\<rparr>\<rparr>\<rparr> 6
          (run [CreateUser \<lparr>i_clerkId = ''u1'', i_email = ''a@x.io'', i_firstName = None,
                  i_lastName = None, i_subscriptionTier = None, i_customerId = None,
                  i_credits = None, i_username = None\<rparr>,
                SetSolanaWallet ''u1'' ''11111111111111111111111111111111111111111111'',
                SetUsername ''u1'' ''Bob_1''] [])
        = (Inr (Response 500 ''Internal server error''),
           run [CreateUser \<lparr>i_clerkId = ''u1'', i_email = ''a@x.io'', i_firstName = None,
                  i_lastName = None, i_subscriptionTier = None, i_customerId = None,
                  i_credits = None, i_username = None\<rparr>,
                SetSolanaWallet ''u1'' ''11111111111111111111111111111111111111111111'',
                SetUsername ''u1'' ''Bob_1''] [])"
proof -
  let ?ops = "[CreateUser \<lparr>i_clerkId = ''u1'', i_email = ''a@x.io'', i_firstName = None,
                  i_lastName = None, i_subscriptionTier = None, i_customerId = None,
                  i_credits = None, i_username = None\<rparr>,
                SetSolanaWallet ''u1'' ''11111111111111111111111111111111111111111111'',
                SetUsername ''u1'' ''Bob_1'']"
  let ?ops3 = "[CreateUser \<lparr>i_clerkId = ''u1'', i_email = ''a@x.io'', i_firstName = None,
                  i_lastName = None, i_subscriptionTier = None, i_customerId = None,
                  i_credits = None, i_username = None\<rparr>,
                SetSolanaWallet ''u1'' ''11111111111111111111111111111111111111111111'',
                SetUsername ''u1'' ''Bob_1'',
                CreateUser \<lparr>i_clerkId = ''u2'', i_email = ''b@x.io'', i_firstName = None,
                  i_lastName = None, i_subscriptionTier = None, i_customerId = None,
                  i_credits = None, i_username = None\<rparr>]"
  let ?d1 = "\<lparr>clerkId = ''u1'', email = Some ''a@x.io'', username = Some ''Bob_1'',
     usernameLower = Some ''bob_1'', firstName = [], lastName = [],
     subscriptionTier = Free, customerId = [], credits = 10, creditHistory = [], topCoins = [],
     solanaWallet = ''11111111111111111111111111111111111111111111'', deletedAt = None\<rparr>"
  let ?d2 = "\<lparr>clerkId = ''u2'', email = Some ''b@x.io'', username = None,
     usernameLower = None, firstName = [], lastName = [],
     subscriptionTier = Free, customerId = [], credits = 10, creditHistory = [], topCoins = [],
     solanaWallet = [], deletedAt = None\<rparr>"
  let ?data1 = "\<lparr>d_id = Some ''u2'',
               email_addresses = Some [\<lparr>e_id = ''e1'', email_address = ''Bea@X.io''\<rparr>],
               primary_email_address_id = Some ''e1'', first_name = Some ''Bea'',
               last_name = None, d_username = Some '' BOB_1 ''\<rparr>"
  let ?data2 = "\<lparr>d_id = Some ''u2'',
               email_addresses = Some [\<lparr>e_id = ''e1'', email_address = ''A@x.io''\<rparr>],
               primary_email_address_id = Some ''e1'', first_name = Some ''Bea'',
               last_name = None, d_username = Some ''BOB_1''\<rparr>"
  let ?data3 = "\<lparr>d_id = Some ''u2'',
               email_addresses = Some [\<lparr>e_id = ''e1'', email_address = ''b2@x.io''\<rparr>],
               primary_email_address_id = Some ''e1'', first_name = Some ''Bea'',
               last_name = Some ''Lee'', d_username = Some ''bob_1''\<rparr>"
  let ?evt1 = "\<lparr>evt_type = ''user.created'', evt_data = ?data1\<rparr>"
  let ?evt2 = "\<lparr>evt_type = ''user.created'', evt_data = ?data2\<rparr>"
  let ?evt3 = "\<lparr>evt_type = ''user.updated'', evt_data = ?data3\<rparr>"
  let ?req1 = "\<lparr>svix_id = Some ''msg_1'', svix_timestamp = Some ''1700000000'',
           svix_signature = Some ''v1,sig'', verified = Some ?evt1\<rparr>"
  let ?req2 = "\<lparr>svix_id = Some ''msg_2'', svix_timestamp = Some ''1700000001'',
           svix_signature = Some ''v1,sig'', verified = Some ?evt2\<rparr>"
  let ?req3 = "\<lparr>svix_id = Some ''msg_5'', svix_timestamp = Some ''1700000004'',
           svix_signature = Some ''v1,sig'', verified = Some ?evt3\<rparr>"
  have s: "run ?ops [] = [?d1]" by code_simp
  have s3: "run ?ops3 [] = [?d1, ?d2]" by code_simp
  have w: "wf (run ?ops [])" by (rule wf_run [OF wf_empty])
  have w3: "wf (run ?ops3 [])" by (rule wf_run [OF wf_empty])
  have e1: "getPrimaryEmailFromEvent (evt_data ?evt1) = Some ''Bea@X.io''" by code_simp
  have e2: "getPrimaryEmailFromEvent (evt_data ?evt2) = Some ''A@x.io''" by code_simp
  have e3: "getPrimaryEmailFromEvent (evt_data ?evt3) = Some ''b2@x.io''" by code_simp
  have b1: "basePayload ''u2'' ''Bea@X.io'' (evt_data ?evt1)
      = \<lparr>i_clerkId = ''u2'', i_email = ''Bea@X.io'', i_firstName = Some ''Bea'',
                  i_lastName = Some '''', i_subscriptionTier = Some Free, i_customerId = Some '''',
                  i_credits = None, i_username = None\<rparr>"
    by (simp add: basePayload_def)
  have b3: "basePayload ''u2'' ''b2@x.io'' (evt_data ?evt3)
      = \<lparr>i_clerkId = ''u2'', i_email = ''b2@x.io'', i_firstName = Some ''Bea'',
                  i_lastName = Some ''Lee'', i_subscriptionTier = Some Free, i_customerId = Some '''',
                  i_credits = None, i_username = None\<rparr>"
    by (simp add: basePayload_def)
  have m1: "maybeUsername (evt_data ?evt1) = Some ''BOB_1''" by code_simp
  have m3: "maybeUsername (evt_data ?evt3) = Some ''bob_1''" by code_simp
  have l1: "toLowerCase ''BOB_1'' = ''bob_1''" "trim (toLowerCase ''Bea@X.io'') = ''bea@x.io''"
    "toLowerCase ''bob_1'' = ''bob_1''" "trim (toLowerCase ''b2@x.io'') = ''b2@x.io''"
    "trim (toLowerCase ''A@x.io'') = ''a@x.io''"
    by code_simp+
  have col: "\<exists>y\<in>set (run ?ops []). clerkId y \<noteq> ''u2'' \<and> usernameLower y = Some (toLowerCase ''BOB_1'')"
    unfolding s l1 by simp
  have free: "\<forall>y\<in>set (run ?ops []). clerkId y \<noteq> ''u2'' \<longrightarrow> email y \<noteq> Some (trim (toLowerCase ''Bea@X.io''))"
    unfolding s l1 by simp
  have g: "getUser ''u2'' (run ?ops []) = None"
    unfolding s by (simp add: getUser_def findOne_def)
  have wal: "getUser ''u2'' (run ?ops []) = None \<longrightarrow> (\<forall>y\<in>set (run ?ops []). solanaWallet y \<noteq> '''')"
    unfolding s by simp
  note c7a = C7_webhook_username_collision [of "Some ''whsec''" ?req1 ?evt1 "''u2''" "''Bea@X.io''"
      "run ?ops []" 5]
  have "\<exists>d'. POST (Some ''whsec'') ?req1 5 (run ?ops [])
        = (Inr (JsonUser (if evt_type ?evt1 = ''user.created'' then ''User created''
                          else ''User updated'') d'),
           snd (createUser (basePayload ''u2'' ''Bea@X.io'' (evt_data ?evt1)) (run ?ops [])))
      \<and> getUser ''u2'' (snd (createUser (basePayload ''u2'' ''Bea@X.io'' (evt_data ?evt1)) (run ?ops []))) = Some d'
      \<and> email d' = Some (trim (toLowerCase ''Bea@X.io''))
      \<and> firstName d' = (case first_name (evt_data ?evt1) of None \<Rightarrow> '''' | Some f \<Rightarrow> f)
      \<and> lastName d' = (case last_name (evt_data ?evt1) of None \<Rightarrow> '''' | Some l \<Rightarrow> l)
      \<and> username d' = (case getUser ''u2'' (run ?ops []) of None \<Rightarrow> None | Some d \<Rightarrow> username d)"
    using c7a e1 w m1 col free wal by (simp add: truthy_def)
  then have a: "\<exists>d'. POST (Some ''whsec'') ?req1 5 (run ?ops [])
        = (Inr (JsonUser ''User created'' d'),
           snd (createUser \<lparr>i_clerkId = ''u2'', i_email = ''Bea@X.io'', i_firstName = Some ''Bea'',
                  i_lastName = Some '''', i_subscriptionTier = Some Free, i_customerId = Some '''',
                  i_credits = None, i_username = None\<rparr> (run ?ops [])))
      \<and> email d' = Some ''bea@x.io'' \<and> firstName d' = ''Bea'' \<and> lastName d' = ''''
      \<and> username d' = None"
    unfolding b1 g l1 by auto
  have col3: "\<exists>y\<in>set (run ?ops3 []). clerkId y \<noteq> ''u2'' \<and> usernameLower y = Some (toLowerCase ''bob_1'')"
    unfolding s3 l1 by simp
  have free3: "\<forall>y\<in>set (run ?ops3 []). clerkId y \<noteq> ''u2'' \<longrightarrow> email y \<noteq> Some (trim (toLowerCase ''b2@x.io''))"
    unfolding s3 l1 by simp
  have g3: "getUser ''u2'' (run ?ops3 []) = Some ?d2"
    unfolding s3 by (simp add: getUser_def findOne_def)
  have wal3: "getUser ''u2'' (run ?ops3 []) = None \<longrightarrow> (\<forall>y\<in>set (run ?ops3 []). solanaWallet y \<noteq> '''')"
    unfolding g3 by simp
  note c7c = C7_webhook_username_collision [of "Some ''whsec''" ?req3 ?evt3 "''u2''" "''b2@x.io''"
      "run ?ops3 []" 9]
  have "\<exists>d'. POST (Some ''whsec'') ?req3 9 (run ?ops3 [])
        = (Inr (JsonUser (if evt_type ?evt3 = ''user.created'' then ''User created''
                          else ''User updated'') d'),
           snd (createUser (basePayload ''u2'' ''b2@x.io'' (evt_data ?evt3)) (run ?ops3 [])))
      \<and> getUser ''u2'' (snd (createUser (basePayload ''u2'' ''b2@x.io'' (evt_data ?evt3)) (run ?ops3 []))) = Some d'
      \<and> email d' = Some (trim (toLowerCase ''b2@x.io''))
      \<and> firstName d' = (case first_name (evt_data ?evt3) of None \<Rightarrow> '''' | Some f \<Rightarrow> f)
      \<and> lastName d' = (case last_name (evt_data ?evt3) of None \<Rightarrow> '''' | Some l \<Rightarrow> l)
      \<and> username d' = (case getUser ''u2'' (run ?ops3 []) of None \<Rightarrow> None | Some d \<Rightarrow> username d)"
    using c7c e3 w3 m3 col3 free3 wal3 by (simp add: truthy_def)
  then have c: "\<exists>d'. POST (Some ''whsec'') ?req3 9 (run ?ops3 [])
        = (Inr (JsonUser ''User updated'' d'),
           snd (createUser \<lparr>i_clerkId = ''u2'', i_email = ''b2@x.io'', i_firstName = Some ''Bea'',
                  i_lastName = Some ''Lee'', i_subscriptionTier = Some Free, i_customerId = Some '''',
                  i_credits = None, i_username = None\<rparr> (run ?ops3 [])))
      \<and> email d' = Some ''b2@x.io'' \<and> firstName d' = ''Bea'' \<and> lastName d' = ''Lee''
      \<and> username d' = None"
    unfolding b3 g3 l1 by auto
  have tk: "\<exists>y\<in>set (run ?ops []). clerkId y \<noteq> ''u2'' \<and> email y = Some (trim (toLowerCase ''A@x.io''))"
    unfolding s l1 by simp
  note c7b = C7_webhook_username_collision [of "Some ''whsec''" ?req2 ?evt2 "''u2''" "''A@x.io''"
      "run ?ops []" 6]
  have b: "POST (Some ''whsec'') ?req2 6 (run ?ops [])
      = (Inr (Response 500 ''Internal server error''), run ?ops [])"
    using c7b e2 w tk by (simp add: truthy_def)
  from a c b show ?thesis by blast
qed

section \<open>Subscribing\<close>


lemma findOrCreateCustomer_rest:
  "sessions (snd (findOrCreateCustomer em newCustomerId w)) = sessions w
   \<and> prices (snd (findOrCreateCustomer em newCustomerId w)) = prices w"
  by (simp add: findOrCreateCustomer_def Let_def split: option.splits)




text \<open>\<^verbatim>\<open>subscribe\<close> with its parameters present, by the outcome of the write.\<close>

lemma subscribe_refused:
  assumes "userId \<noteq> ''''" "em \<noteq> ''''" "priceId \<noteq> ''''"
    and "findOneAndUpsert (\<lambda>d. clerkId d = userId)
           (\<lambda>d. d\<lparr>customerId := fst (findOrCreateCustomer em newCustomerId w)\<rparr>)
           ((schemaDefaults userId)\<lparr>customerId := fst (findOrCreateCustomer em newCustomerId w)\<rparr>)
           (db w) = (Inl e, s')"
  shows "subscribe userId em priceId newCustomerId sessionUrl w =
     (Inl (failedSubscription (errmsg w) e),
      (snd (findOrCreateCustomer em newCustomerId w))
        \<lparr>calls := calls (snd (findOrCreateCustomer em newCustomerId w))
                    @ [UserFindOneAndUpdate userId (fst (findOrCreateCustomer em newCustomerId w))],
         db := s'\<rparr>)"
  using assms by (simp add: subscribe_def Let_def findOrCreateCustomer_db)

lemma subscribe_written:
  assumes "userId \<noteq> ''''" "em \<noteq> ''''" "priceId \<noteq> ''''"
    and "findOneAndUpsert (\<lambda>d. clerkId d = userId)
           (\<lambda>d. d\<lparr>customerId := fst (findOrCreateCustomer em newCustomerId w)\<rparr>)
           ((schemaDefaults userId)\<lparr>customerId := fst (findOrCreateCustomer em newCustomerId w)\<rparr>)
           (db w) = (Inr x, s')"
  shows "subscribe userId em priceId newCustomerId sessionUrl w =
     (if priceId \<notin> set (prices w)
      then (Inl (failedSubscription (errmsg w) (Error (''Invalid price ID: '' @ priceId))),
            (snd (findOrCreateCustomer em newCustomerId w))
              \<lparr>calls := calls (snd (findOrCreateCustomer em newCustomerId w))
                    @ [UserFindOneAndUpdate userId (fst (findOrCreateCustomer em newCustomerId w)),
                       PricesRetrieve priceId],
               db := s'\<rparr>)
      else (Inr sessionUrl,
            (snd (findOrCreateCustomer em newCustomerId w))
              \<lparr>calls := calls (snd (findOrCreateCustomer em newCustomerId w))
                    @ [UserFindOneAndUpdate userId (fst (findOrCreateCustomer em newCustomerId w)),
                       PricesRetrieve priceId,
                       CheckoutSessionsCreate (fst (findOrCreateCustomer em newCustomerId w)) priceId],
               db := s',
               sessions := sessions w @
                 [\<lparr>ses_customer = fst (findOrCreateCustomer em newCustomerId w), ses_price = priceId,
                   ses_userId = userId,
                   ses_customerId = fst (findOrCreateCustomer em newCustomerId w)\<rparr>]\<rparr>))"
  using assms by (simp add: subscribe_def Let_def findOrCreateCustomer_db findOrCreateCustomer_rest)






lemma failedSubscription_wrapped:
  "\<exists>m. failedSubscription drv e = Error (''Failed to create subscription: '' @ m)"
  by (simp add: failedSubscription_def)

text \<open>The creation path always writes the normalised email.\<close>

lemma createUser_email:
  "fst (createUser user s) = Inr d \<Longrightarrow> email d = Some (trim (toLowerCase (i_email user)))"
  by (auto simp: createUser_def findOneAndUpsert_def writeAt_def createUserSet_def Let_def
      split: option.splits if_splits)


text \<open>
  Claim C10, amended. With no account for \<^verbatim>\<open>userId\<close> (and the parameters present),
  \<^verbatim>\<open>subscribe\<close> never fails with "User not found": every failure is the wrapped "Failed
  to create subscription" error. Its write is an upsert. When every account of the
  store has an email and a wallet (the empty store is one), the store gains exactly one
  document, the schema defaults with the \<^verbatim>\<open>clerkId\<close> and the customer id, without email,
  names or username, whether or not the price turns out to be valid. When an account
  without email exists (one that an earlier \<^verbatim>\<open>subscribe\<close> inserted), the unique email
  index refuses a second one: \<^verbatim>\<open>subscribe\<close> fails with the driver's duplicate-key
  message inside the wrapper, the store is as it was and no checkout session is
  created. The document is not one the creation path writes: \<^verbatim>\<open>createUser\<close> always
  returns a document with an email. An account with an empty wallet, every account
  having an email, meets the collision of the wallet index (section Wallets) and is left out
  here.
\<close>

theorem C10_subscribe_upserts_account:
  assumes "getUser userId (db w) = None" and "userId \<noteq> ''''" and "em \<noteq> ''''" and "priceId \<noteq> ''''"
  shows
    "fst (subscribe userId em priceId newCustomerId sessionUrl w) \<noteq> Inl (Error ''User not found'')
   \<and> (\<forall>e. fst (subscribe userId em priceId newCustomerId sessionUrl w) = Inl e \<longrightarrow>
          (\<exists>m. e = Error (''Failed to create subscription: '' @ m)))
   \<and> ((\<forall>d\<in>set (db w). email d \<noteq> None \<and> solanaWallet d \<noteq> '''') \<longrightarrow>
        db (snd (subscribe userId em priceId newCustomerId sessionUrl w))
          = db w @
              [\<lparr>clerkId = userId, email = None, username = None, usernameLower = None,
                firstName = '''', lastName = '''', subscriptionTier = Free,
                customerId = fst (findOrCreateCustomer em newCustomerId w),
                credits = 10, creditHistory = [], topCoins = [], solanaWallet = '''',
                deletedAt = None\<rparr>]
      \<and> (priceId \<in> set (prices w) \<longrightarrow>
            fst (subscribe userId em priceId newCustomerId sessionUrl w) = Inr sessionUrl)
      \<and> (priceId \<notin> set (prices w) \<longrightarrow>
            fst (subscribe userId em priceId newCustomerId sessionUrl w)
              = Inl (Error (''Failed to create subscription: Invalid price ID: '' @ priceId))))
   \<and> ((\<exists>d\<in>set (db w). email d = None) \<longrightarrow>
        fst (subscribe userId em priceId newCustomerId sessionUrl w)
          = Inl (Error (''Failed to create subscription: ''
                        @ (if errmsg w ''email'' = '''' then ''Unknown error''
                           else errmsg w ''email'')))
      \<and> db (snd (subscribe userId em priceId newCustomerId sessionUrl w)) = db w
      \<and> sessions (snd (subscribe userId em priceId newCustomerId sessionUrl w)) = sessions w)
   \<and> (\<forall>user s d. fst (createUser user s) = Inr d \<longrightarrow> email d \<noteq> None)"
proof -
  let ?cid = "fst (findOrCreateCustomer em newCustomerId w)"
  let ?ins = "(schemaDefaults userId)\<lparr>customerId := ?cid\<rparr>"
  let ?r = "subscribe userId em priceId newCustomerId sessionUrl w"
  have u: "findOneAndUpsert (\<lambda>d. clerkId d = userId) (\<lambda>d. d\<lparr>customerId := ?cid\<rparr>) ?ins (db w) =
     (case dupKey ?ins (db w) of
        Some k \<Rightarrow> (Inl (MongoServerError 11000 k), db w)
      | None \<Rightarrow> (Inr ?ins, db w @ [?ins]))"
    by (rule findOneAndUpsert_miss [OF assms(1)])
  have lit: "?ins = \<lparr>clerkId = userId, email = None, username = None, usernameLower = None,
                firstName = '''', lastName = '''', subscriptionTier = Free,
                customerId = ?cid,
                credits = 10, creditHistory = [], topCoins = [], solanaWallet = '''',
                deletedAt = None\<rparr>"
    by (simp add: schemaDefaults_def)
  have absent: "userId \<notin> clerkId ` set (db w)"
    using assms(1) by (simp add: getUser_None)
  have written: "dupKey ?ins (db w) = None \<Longrightarrow>
        db (snd ?r) = db w @ [?ins]
      \<and> (priceId \<in> set (prices w) \<longrightarrow> fst ?r = Inr sessionUrl)
      \<and> (priceId \<notin> set (prices w) \<longrightarrow>
            fst ?r = Inl (Error (''Failed to create subscription: Invalid price ID: '' @ priceId)))"
  proof -
    assume "dupKey ?ins (db w) = None"
    with u have u': "findOneAndUpsert (\<lambda>d. clerkId d = userId) (\<lambda>d. d\<lparr>customerId := ?cid\<rparr>) ?ins (db w)
        = (Inr ?ins, db w @ [?ins])"
      by simp
    from subscribe_written [OF assms(2-4) u', of sessionUrl]
    show ?thesis by (simp add: failedSubscription_def message_def)
  qed
  have refused: "\<And>k. dupKey ?ins (db w) = Some k \<Longrightarrow>
        fst ?r = Inl (failedSubscription (errmsg w) (MongoServerError 11000 k))
      \<and> db (snd ?r) = db w \<and> sessions (snd ?r) = sessions w"
  proof -
    fix k
    assume "dupKey ?ins (db w) = Some k"
    with u have u': "findOneAndUpsert (\<lambda>d. clerkId d = userId) (\<lambda>d. d\<lparr>customerId := ?cid\<rparr>) ?ins (db w)
        = (Inl (MongoServerError 11000 k), db w)"
      by simp
    from subscribe_refused [OF assms(2-4) u', of sessionUrl]
      findOrCreateCustomer_rest [of em newCustomerId w]
    show "fst ?r = Inl (failedSubscription (errmsg w) (MongoServerError 11000 k))
      \<and> db (snd ?r) = db w \<and> sessions (snd ?r) = sessions w"
      by simp
  qed
  have 2: "\<forall>e. fst ?r = Inl e \<longrightarrow> (\<exists>m. e = Error (''Failed to create subscription: '' @ m))"
  proof (cases "dupKey ?ins (db w)")
    case None
    from written [OF None] show ?thesis by (cases "priceId \<in> set (prices w)") auto
  next
    case (Some k)
    from refused [OF Some] failedSubscription_wrapped [of "errmsg w" "MongoServerError 11000 k"]
    show ?thesis by auto
  qed
  from 2 have 1: "fst ?r \<noteq> Inl (Error ''User not found'')" by auto
  have 3: "(\<forall>d\<in>set (db w). email d \<noteq> None \<and> solanaWallet d \<noteq> '''') \<longrightarrow>
        db (snd ?r) = db w @ [?ins]
      \<and> (priceId \<in> set (prices w) \<longrightarrow> fst ?r = Inr sessionUrl)
      \<and> (priceId \<notin> set (prices w) \<longrightarrow>
            fst ?r = Inl (Error (''Failed to create subscription: Invalid price ID: '' @ priceId)))"
  proof
    assume h: "\<forall>d\<in>set (db w). email d \<noteq> None \<and> solanaWallet d \<noteq> ''''"
    have "dupKey ?ins (db w) = None"
      unfolding dupKey_None_iff using absent h
      by (auto simp: schemaDefaults_def image_iff; metis)
    then show "db (snd ?r) = db w @ [?ins]
      \<and> (priceId \<in> set (prices w) \<longrightarrow> fst ?r = Inr sessionUrl)
      \<and> (priceId \<notin> set (prices w) \<longrightarrow>
            fst ?r = Inl (Error (''Failed to create subscription: Invalid price ID: '' @ priceId)))"
      by (rule written)
  qed
  have 4: "(\<exists>d\<in>set (db w). email d = None) \<longrightarrow>
        fst ?r = Inl (Error (''Failed to create subscription: ''
                        @ (if errmsg w ''email'' = '''' then ''Unknown error''
                           else errmsg w ''email'')))
      \<and> db (snd ?r) = db w \<and> sessions (snd ?r) = sessions w"
  proof
    assume h: "\<exists>d\<in>set (db w). email d = None"
    have c: "clerkId ?ins \<notin> set (map clerkId (db w))"
      using absent by (simp add: schemaDefaults_def)
    have e: "email ?ins \<in> set (map email (db w))"
      using h by (force simp: schemaDefaults_def image_iff)
    from c e have "dupKey ?ins (db w) = Some ''email''" by (simp add: dupKey_def)
    from refused [OF this]
    show "fst ?r = Inl (Error (''Failed to create subscription: ''
                        @ (if errmsg w ''email'' = '''' then ''Unknown error''
                           else errmsg w ''email'')))
      \<and> db (snd ?r) = db w \<and> sessions (snd ?r) = sessions w"
      by (simp add: failedSubscription_def message_def)
  qed
  have 5: "\<forall>user s d. fst (createUser user s) = Inr d \<longrightarrow> email d \<noteq> None"
    using createUser_email by fastforce
  from 1 2 3 4 5 show ?thesis unfolding lit [symmetric] by blast
qed


text \<open>
  Without these conditions nothing is inserted. First, after \<^verbatim>\<open>subscribe\<close> has inserted
  the account \<open>u1\<close> into the empty store and \<open>u1\<close> has connected a wallet, \<^verbatim>\<open>subscribe\<close>
  for the unknown \<open>u2\<close> is refused on the email index, since both documents lack an
  email. Second, while the account \<open>u1\<close> made by \<^verbatim>\<open>createUser\<close> has no wallet,
  \<^verbatim>\<open>subscribe\<close> for the unknown \<open>u2\<close> is refused on the wallet index.
\<close>

theorem C10_counterexample:
  "fst (subscribe ''u2'' ''b@x.io'' ''price_basic'' ''cus_2'' ''https://pay.example/s2''
       ((snd (subscribe ''u1'' ''a@x.io'' ''price_basic'' ''cus_1'' ''https://pay.example/s1''
                \<lparr>db = [], customers = [], prices = [''price_basic''], sessions = [], calls = [],
                  errmsg = append ''E11000 duplicate key error index: ''\<rparr>))
          \<lparr>db := snd (setSolanaWallet ''u1'' ''11111111111111111111111111111111111111111111''
                  (db (snd (subscribe ''u1'' ''a@x.io'' ''price_basic'' ''cus_1''
                         ''https://pay.example/s1''
                         \<lparr>db = [], customers = [], prices = [''price_basic''], sessions = [],
                           calls = [],
                           errmsg = append ''E11000 duplicate key error index: ''\<rparr>))))\<rparr>))
     = Inl (Error ''Failed to create subscription: E11000 duplicate key error index: email'')
   \<and> db (snd (subscribe ''u2'' ''b@x.io'' ''price_basic'' ''cus_2'' ''https://pay.example/s2''
       ((snd (subscribe ''u1'' ''a@x.io'' ''price_basic'' ''cus_1'' ''https://pay.example/s1''
                \<lparr>db = [], customers = [], prices = [''price_basic''], sessions = [], calls = [],
                  errmsg = append ''E11000 duplicate key error index: ''\<rparr>))
          \<lparr>db := snd (setSolanaWallet ''u1'' ''11111111111111111111111111111111111111111111''
                  (db (snd (subscribe ''u1'' ''a@x.io'' ''price_basic'' ''cus_1''
                         ''https://pay.example/s1''
                         \<lparr>db = [], customers = [], prices = [''price_basic''], sessions = [],
                           calls = [],
                           errmsg = append ''E11000 duplicate key error index: ''\<rparr>))))\<rparr>)))
     = [\<lparr>clerkId = ''u1'', email = None, username = None, usernameLower = None,
         firstName = '''', lastName = '''', subscriptionTier = Free, customerId = ''cus_1'',
         credits = 10, creditHistory = [], topCoins = [],
         solanaWallet = ''11111111111111111111111111111111111111111111'', deletedAt = None\<rparr>]
   \<and> fst (subscribe ''u2'' ''b@x.io'' ''price_basic'' ''cus_2'' ''https://pay.example/s2''
       \<lparr>db = run [CreateUser \<lparr>i_clerkId = ''u1'', i_email = ''a@x.io'', i_firstName = None,
                      i_lastName = None, i_subscriptionTier = None, i_customerId = None,
                      i_credits = None, i_username = None\<rparr>] [],
        customers = [], prices = [''price_basic''], sessions = [], calls = [],
        errmsg = append ''E11000 duplicate key error index: ''\<rparr>)
     = Inl (Error ''Failed to create subscription: E11000 duplicate key error index: solanaWallet'')
   \<and> db (snd (subscribe ''u2'' ''b@x.io'' ''price_basic'' ''cus_2'' ''https://pay.example/s2''
       \<lparr>db = run [CreateUser \<lparr>i_clerkId = ''u1'', i_email = ''a@x.io'', i_firstName = None,
                      i_lastName = None, i_subscriptionTier = None, i_customerId = None,
                      i_credits = None, i_username = None\<rparr>] [],
        customers = [], prices = [''price_basic''], sessions = [], calls = [],
        errmsg = append ''E11000 duplicate key error index: ''\<rparr>))
     = [\<lparr>clerkId = ''u1'', email = Some ''a@x.io'', username = None, usernameLower = None,
         firstName = '''', lastName = '''', subscriptionTier = Free, customerId = '''',
         credits = 10, creditHistory = [], topCoins = [], solanaWallet = '''',
         deletedAt = None\<rparr>]"
  by code_simp

theorem C10_subscribe_upserts_account_witness:
  "db (snd (subscribe ''ghost'' ''z@x.io'' ''price_basic'' ''cus_new'' ''https://pay.example/s2''
       \<lparr>db = [], customers = [\<lparr>cus_id = ''cus_7'', cus_email = ''z@x.io''\<rparr>],
        prices = [''price_basic''], sessions = [], calls = [],
        errmsg = append ''E11000 duplicate key error index: ''\<rparr>))
     = [\<lparr>clerkId = ''ghost'', email = None, username = None, usernameLower = None,
         firstName = '''', lastName = '''', subscriptionTier = Free, customerId = ''cus_7'',
         credits = 10, creditHistory = [], topCoins = [], solanaWallet = '''', deletedAt = None\<rparr>]
   \<and> fst (subscribe ''ghost'' ''z@x.io'' ''price_basic'' ''cus_new'' ''https://pay.example/s2''
       \<lparr>db = [], customers = [\<lparr>cus_id = ''cus_7'', cus_email = ''z@x.io''\<rparr>],
        prices = [''price_basic''], sessions = [], calls = [],
        errmsg = append ''E11000 duplicate key error index: ''\<rparr>) = Inr ''https://pay.example/s2''
   \<and> fst (subscribe ''u2'' ''b@x.io'' ''price_basic'' ''cus_2'' ''https://pay.example/s3''
       \<lparr>db = [\<lparr>clerkId = ''ghost'', email = None, username = None, usernameLower = None,
               firstName = '''', lastName = '''', subscriptionTier = Free, customerId = ''cus_7'',
               credits = 10, creditHistory = [], topCoins = [],
               solanaWallet = ''11111111111111111111111111111111111111111111'',
               deletedAt = None\<rparr>],
        customers = [\<lparr>cus_id = ''cus_7'', cus_email = ''z@x.io''\<rparr>],
        prices = [''price_basic''], sessions = [], calls = [],
        errmsg = append ''E11000 duplicate key error index: ''\<rparr>)
     = Inl (Error ''Failed to create subscription: E11000 duplicate key error index: email'')
   \<and> db (snd (subscribe ''u2'' ''b@x.io'' ''price_basic'' ''cus_2'' ''https://pay.example/s3''
       \<lparr>db = [\<lparr>clerkId = ''ghost'', email = None, username = None, usernameLower = None,
               firstName = '''', lastName = '''', subscriptionTier = Free, customerId = ''cus_7'',
               credits = 10, creditHistory = [], topCoins = [],
               solanaWallet = ''11111111111111111111111111111111111111111111'',
               deletedAt = None\<rparr>],
        customers = [\<lparr>cus_id = ''cus_7'', cus_email = ''z@x.io''\<rparr>],
        prices = [''price_basic''], sessions = [], calls = [],
        errmsg = append ''E11000 duplicate key error index: ''\<rparr>))
     = [\<lparr>clerkId = ''ghost'', email = None, username = None, usernameLower = None,
         firstName = '''', lastName = '''', subscriptionTier = Free, customerId = ''cus_7'',
         credits = 10, creditHistory = [], topCoins = [],
         solanaWallet = ''11111111111111111111111111111111111111111111'', deletedAt = None\<rparr>]"
proof -
  let ?w1 = "\<lparr>db = [], customers = [\<lparr>cus_id = ''cus_7'', cus_email = ''z@x.io''\<rparr>],
        prices = [''price_basic''], sessions = [], calls = [],
        errmsg = append ''E11000 duplicate key error index: ''\<rparr>"
  let ?g = "\<lparr>clerkId = ''ghost'', email = None, username = None, usernameLower = None,
               firstName = '''', lastName = '''', subscriptionTier = Free, customerId = ''cus_7'',
               credits = 10, creditHistory = [], topCoins = [],
               solanaWallet = ''11111111111111111111111111111111111111111111'',
               deletedAt = None\<rparr>"
  let ?w2 = "\<lparr>db = [?g],
        customers = [\<lparr>cus_id = ''cus_7'', cus_email = ''z@x.io''\<rparr>],
        prices = [''price_basic''], sessions = [], calls = [],
        errmsg = append ''E11000 duplicate key error index: ''\<rparr>"
  have f1: "fst (findOrCreateCustomer ''z@x.io'' ''cus_new'' ?w1) = ''cus_7''"
    by (simp add: findOrCreateCustomer_def Let_def)
  have g1: "getUser ''ghost'' (db ?w1) = None" by (simp add: getUser_def findOne_def)
  have h1: "\<forall>d\<in>set (db ?w1). email d \<noteq> None \<and> solanaWallet d \<noteq> ''''" by simp
  have p1: "''price_basic'' \<in> set (prices ?w1)" by simp
  note c10a = C10_subscribe_upserts_account [OF g1, of "''z@x.io''" "''price_basic''" "''cus_new''"
      "''https://pay.example/s2''"]
  from c10a h1 p1 have a: "db (snd (subscribe ''ghost'' ''z@x.io'' ''price_basic'' ''cus_new'' ''https://pay.example/s2'' ?w1))
     = [\<lparr>clerkId = ''ghost'', email = None, username = None, usernameLower = None,
         firstName = '''', lastName = '''', subscriptionTier = Free, customerId = ''cus_7'',
         credits = 10, creditHistory = [], topCoins = [], solanaWallet = '''', deletedAt = None\<rparr>]
     \<and> fst (subscribe ''ghost'' ''z@x.io'' ''price_basic'' ''cus_new'' ''https://pay.example/s2'' ?w1)
         = Inr ''https://pay.example/s2''"
    unfolding f1 by simp
  have g2: "getUser ''u2'' (db ?w2) = None" by (simp add: getUser_def findOne_def)
  have h2: "\<exists>d\<in>set (db ?w2). email d = None" by simp
  note c10b = C10_subscribe_upserts_account [OF g2, of "''b@x.io''" "''price_basic''" "''cus_2''"
      "''https://pay.example/s3''"]
  from c10b h2 have b: "fst (subscribe ''u2'' ''b@x.io'' ''price_basic'' ''cus_2'' ''https://pay.example/s3'' ?w2)
     = Inl (Error ''Failed to create subscription: E11000 duplicate key error index: email'')
     \<and> db (snd (subscribe ''u2'' ''b@x.io'' ''price_basic'' ''cus_2'' ''https://pay.example/s3'' ?w2)) = [?g]"
    by simp
  from a b show ?thesis by blast
qed

end
